(* ===== verification/Py_Prelude.thy ===== *)
theory Py_Prelude
  imports Complex_Main "HOL-Library.Multiset"
begin

text \<open>
  The Python values and builtins that \<^verbatim>\<open>src/face_detection.py\<close> relies on,
  shared by every component theory.

  \<^item> Python \<^verbatim>\<open>int\<close> is \<^typ>\<open>int\<close> (unbounded); counters that start at a
    non-negative literal and are only incremented are \<^typ>\<open>nat\<close>.
  \<^item> Python \<^verbatim>\<open>float\<close> is \<^typ>\<open>real\<close>: rounding, overflow and NaN of IEEE
    doubles are outside the model. The one infinite value the program creates,
    \<^verbatim>\<open>float('inf')\<close>, is handled in theory \<open>Py_Float\<close>.
  \<^item> An exception is a value of \<open>py_error\<close>; a computation that may raise returns
    \<open>py_error + 'a\<close> with \<open>Inl\<close> for the raise.
  \<^item> \<^verbatim>\<open>int(f)\<close> on a float truncates towards zero (\<open>py_int\<close>), while \<^verbatim>\<open>//\<close> on
    ints is \<open>div\<close> (towards minus infinity).
  \<^item> \<^verbatim>\<open>str(n)\<close> inside an f-string is the decimal printer \<open>str_nat\<close>, with its
    parser \<open>parse_nat\<close> for the round trip.

  The collections \<open>py_defs\<close> (definitions of builtins to unfold when a closed term is
  evaluated) and \<open>mc_simps\<close> (characteristic equations of the model's operations) carry
  the proofs of the component theories.
\<close>

section \<open>Collections of facts\<close>

named_theorems py_defs "definitions of the modelled Python builtins"
named_theorems mc_simps "characteristic equations of the model's operations"

section \<open>Exceptions as values\<close>

datatype py_error =
    ZeroDivisionError | IndexError | ValueError
  | FileNotFoundError | FileExistsError | IsADirectoryError | PermissionError
  | TypeError | DownloadError

type_synonym 'a result = "py_error + 'a"

definition is_ok :: "'a result \<Rightarrow> bool" where
  "is_ok r = (case r of Inl _ \<Rightarrow> False | Inr _ \<Rightarrow> True)"

lemma is_ok_simps [simp]: "is_ok (Inr v)" "\<not> is_ok (Inl e)"
  by (simp_all add: is_ok_def)

lemma is_ok_iff: "is_ok r \<longleftrightarrow> (\<exists>v. r = Inr v)"
  by (cases r) simp_all

text \<open>Indexing a list with a non-negative index: \<^verbatim>\<open>xs[i]\<close> raises past the end.\<close>

definition py_index :: "'a list \<Rightarrow> nat \<Rightarrow> 'a result" where
  "py_index xs i = (if i < length xs then Inr (xs ! i) else Inl IndexError)"

lemma py_index_in_range [simp]: "i < length xs \<Longrightarrow> py_index xs i = Inr (xs ! i)"
  by (simp add: py_index_def)

lemma py_index_out_of_range [simp]: "length xs \<le> i \<Longrightarrow> py_index xs i = Inl IndexError"
  by (simp add: py_index_def)

lemma py_index_Inr_iff: "py_index xs i = Inr v \<longleftrightarrow> i < length xs \<and> xs ! i = v"
  by (auto simp: py_index_def)

text \<open>True division \<^verbatim>\<open>a / b\<close> of two floats raises when the divisor is zero.\<close>

definition py_truediv :: "real \<Rightarrow> real \<Rightarrow> real result" where
  "py_truediv a b = (if b = 0 then Inl ZeroDivisionError else Inr (a / b))"

lemma py_truediv_simps [simp]:
  "py_truediv a 0 = Inl ZeroDivisionError"
  "b \<noteq> 0 \<Longrightarrow> py_truediv a b = Inr (a / b)"
  by (simp_all add: py_truediv_def)

section \<open>Numbers\<close>

text \<open>\<^verbatim>\<open>int(r)\<close> for a float \<open>r\<close>: the integer part, rounding towards zero.\<close>

definition py_int :: "real \<Rightarrow> int" where
  "py_int r = (if 0 \<le> r then \<lfloor>r\<rfloor> else - \<lfloor>- r\<rfloor>)"

declare py_int_def [py_defs]

lemma py_int_of_int [simp]: "py_int (of_int n) = n"
  by (simp add: py_int_def)

lemma py_int_numerals [simp]:
  "py_int 0 = 0" "py_int 1 = 1" "py_int (numeral k) = numeral k"
  using py_int_of_int [of 0] py_int_of_int [of 1] py_int_of_int [of "numeral k"] by simp_all

lemma py_int_nonneg: "0 \<le> r \<Longrightarrow> py_int r = \<lfloor>r\<rfloor>"
  by (simp add: py_int_def)

lemma py_int_neg: "r < 0 \<Longrightarrow> py_int r = - \<lfloor>- r\<rfloor>"
  by (simp add: py_int_def)

lemma py_int_abs_le: "\<bar>of_int (py_int r)\<bar> \<le> \<bar>r\<bar>"
  by (simp add: py_int_def)

lemma py_int_mono: "r \<le> s \<Longrightarrow> py_int r \<le> py_int s"
proof -
  assume le: "r \<le> s"
  have neg: "- \<lfloor>- t\<rfloor> \<le> 0" if "t < 0" for t :: real
    using that by (simp add: le_floor_iff)
  consider "0 \<le> r" | "r < 0" "0 \<le> s" | "s < 0" by linarith
  then show ?thesis
  proof cases
    case 1
    with le show ?thesis by (simp add: py_int_def floor_mono)
  next
    case 2
    then have "- \<lfloor>- r\<rfloor> \<le> 0" and "0 \<le> \<lfloor>s\<rfloor>" by (simp_all add: neg)
    moreover from 2 have "py_int r = - \<lfloor>- r\<rfloor>" and "py_int s = \<lfloor>s\<rfloor>"
      by (simp_all add: py_int_def)
    ultimately show ?thesis by linarith
  next
    case 3
    with le have "\<lfloor>- s\<rfloor> \<le> \<lfloor>- r\<rfloor>" by (intro floor_mono) simp
    with 3 le show ?thesis by (simp add: py_int_def)
  qed
qed

text \<open>
  On a quotient of integers, truncation agrees with floor division exactly when the
  quotient is not negative; below zero it is one closer to zero unless the division is
  exact.
\<close>

lemma py_int_div_nonneg:
  "0 \<le> n \<Longrightarrow> 0 < d \<Longrightarrow> py_int (of_int n / of_int d) = n div d"
  by (simp add: py_int_def floor_divide_of_int_eq)

lemma py_int_div_neg:
  assumes "n < 0" "0 < d"
  shows "py_int (of_int n / of_int d) = - ((- n) div d)"
proof -
  from assms have "real_of_int n / real_of_int d < 0"
    by (simp add: divide_neg_pos)
  then have "py_int (of_int n / of_int d) = - \<lfloor>- (real_of_int n / real_of_int d)\<rfloor>"
    by (rule py_int_neg)
  also have "- (real_of_int n / real_of_int d) = real_of_int (- n) / real_of_int d"
    by simp
  also have "\<lfloor>real_of_int (- n) / real_of_int d\<rfloor> = (- n) div d"
    by (rule floor_divide_of_int_eq)
  finally show ?thesis .
qed

section \<open>Decimal strings\<close>

definition digit_char :: "nat \<Rightarrow> char" where
  "digit_char d = ''0123456789'' ! d"

definition digit_val :: "char \<Rightarrow> nat" where
  "digit_val c = of_char c - 48"

declare digit_char_def [py_defs] digit_val_def [py_defs]

lemma digit_cases: "d < 10 \<Longrightarrow> d \<in> {0, 1, 2, 3, 4, 5, 6, 7, 8, 9::nat}"
  by auto

lemma digit_val_char [simp]: "d < 10 \<Longrightarrow> digit_val (digit_char d) = d"
  by (drule digit_cases) (auto simp: digit_char_def digit_val_def)

text \<open>\<^verbatim>\<open>str(n)\<close> for a non-negative int: most significant digit first, no leading zero.\<close>

fun str_nat :: "nat \<Rightarrow> string" where
  "str_nat n =
     (if n < 10 then [digit_char n] else str_nat (n div 10) @ [digit_char (n mod 10)])"

declare str_nat.simps [simp del]

lemmas str_nat_eval = str_nat.simps digit_char_def

text \<open>\<^verbatim>\<open>int(s)\<close> for a string of decimal digits.\<close>

definition parse_nat :: "string \<Rightarrow> nat" where
  "parse_nat s = foldl (\<lambda>a c. 10 * a + digit_val c) 0 s"

lemma parse_nat_snoc [simp]: "parse_nat (s @ [c]) = 10 * parse_nat s + digit_val c"
  by (simp add: parse_nat_def)

lemma parse_nat_single [simp]: "parse_nat [c] = digit_val c"
  by (simp add: parse_nat_def)

lemma parse_str_nat [simp]: "parse_nat (str_nat n) = n"
proof (induction n rule: str_nat.induct)
  case (1 n)
  show ?case
  proof (cases "n < 10")
    case True
    then show ?thesis by (simp add: str_nat.simps [of n])
  next
    case False
    with 1 have "parse_nat (str_nat (n div 10)) = n div 10" by simp
    with False show ?thesis by (simp add: str_nat.simps [of n])
  qed
qed

lemma str_nat_inject [simp]: "str_nat m = str_nat n \<longleftrightarrow> m = n"
  by (metis parse_str_nat)

lemma inj_str_nat: "inj str_nat"
  by (simp add: inj_on_def)

lemma str_nat_nonempty [simp]: "str_nat n \<noteq> []"
  by (subst str_nat.simps) simp

section \<open>Lists\<close>

text \<open>Facts on sums, filters and sortedness that the component theories share.\<close>

lemma sum_list_filter_split:
  "sum_list (map f xs) =
     sum_list (map f (filter P xs)) + sum_list (map f (filter (\<lambda>x. \<not> P x) xs))"
  for f :: "'a \<Rightarrow> 'b::comm_monoid_add"
  by (induction xs) (simp_all add: ac_simps)

lemma length_filter_split:
  "length xs = length (filter P xs) + length (filter (\<lambda>x. \<not> P x) xs)"
  by (induction xs) simp_all

lemma filter_eq_Nil_notin: "k \<notin> f ` set xs \<Longrightarrow> filter (\<lambda>x. f x = k) xs = []"
  by (induction xs) auto

lemma sorted_map_filter: "sorted (map f xs) \<Longrightarrow> sorted (map f (filter P xs))"
  by (induction xs) auto

end
