(* ===== verification/Py_Containers.thy ===== *)
theory Py_Containers
  imports Py_Prelude
begin

text \<open>
  The two Python containers whose behaviour the program depends on.

  \<^item> \<^verbatim>\<open>list.sort(key=f)\<close> and \<^verbatim>\<open>list.sort(key=f, reverse=True)\<close>: stable sorts, ascending
    and descending. They are modelled by the library's stable insertion sort
    \<open>sort_key\<close>; a stable sort is determined by its input, so the result is the one
    Python computes. The descending variant reverses, sorts and reverses, which is how
    stability is kept under \<^verbatim>\<open>reverse=True\<close>.
  \<^item> \<^verbatim>\<open>collections.defaultdict\<close>, iterated with \<^verbatim>\<open>.items()\<close>: a dictionary that
    remembers the order in which keys were first inserted. It is an association list
    with distinct keys (\<open>odict\<close>); \<open>od_modify\<close> is the access \<^verbatim>\<open>d[k]\<close> (which inserts
    the default for a new key) followed by an update of the entry, and \<open>od_group\<close> is
    the loop that folds a list of items into such a dictionary.

  The main result is \<open>od_group_eq\<close>: the dictionary built by the loop lists the keys in
  the order of their first occurrence, each with the fold of exactly the items of that
  key, in their original order.
\<close>

section \<open>Stable sorting\<close>

definition py_sort_key :: "('a \<Rightarrow> 'k::linorder) \<Rightarrow> 'a list \<Rightarrow> 'a list" where
  "py_sort_key f xs = sort_key f xs"

definition py_sort_key_rev :: "('a \<Rightarrow> 'k::linorder) \<Rightarrow> 'a list \<Rightarrow> 'a list" where
  "py_sort_key_rev f xs = rev (sort_key f (rev xs))"

declare py_sort_key_def [py_defs] py_sort_key_rev_def [py_defs]

lemma mset_py_sort_key [simp]: "mset (py_sort_key f xs) = mset xs"
  by (simp add: py_sort_key_def)

lemma set_py_sort_key [simp]: "set (py_sort_key f xs) = set xs"
  by (simp add: py_sort_key_def)

lemma length_py_sort_key [simp]: "length (py_sort_key f xs) = length xs"
  by (simp add: py_sort_key_def)

lemma sorted_py_sort_key [simp]: "sorted (map f (py_sort_key f xs))"
  by (simp add: py_sort_key_def)

lemma py_sort_key_stable:
  "filter (\<lambda>y. f y = k) (py_sort_key f xs) = filter (\<lambda>y. f y = k) xs"
  by (simp add: py_sort_key_def sort_key_stable)

lemma py_sort_key_sorted_id: "sorted (map f xs) \<Longrightarrow> py_sort_key f xs = xs"
  by (simp add: py_sort_key_def sort_key_id_if_sorted)

lemma py_sort_key_Nil [simp]: "py_sort_key f [] = []"
  by (simp add: py_sort_key_def)

lemma py_sort_key_single [simp]: "py_sort_key f [x] = [x]"
  by (simp add: py_sort_key_def)

text \<open>
  Filtering commutes with a stable sort whenever the predicate is decided by the item
  alone: the selected items keep their sorted order.
\<close>

lemma filter_py_sort_key: "filter P (py_sort_key f xs) = py_sort_key f (filter P xs)"
  by (simp add: py_sort_key_def filter_sort)

lemma mset_py_sort_key_rev [simp]: "mset (py_sort_key_rev f xs) = mset xs"
  by (simp add: py_sort_key_rev_def)

lemma set_py_sort_key_rev [simp]: "set (py_sort_key_rev f xs) = set xs"
  by (simp add: py_sort_key_rev_def)

lemma length_py_sort_key_rev [simp]: "length (py_sort_key_rev f xs) = length xs"
  by (simp add: py_sort_key_rev_def)

lemma sorted_py_sort_key_rev [simp]: "sorted (rev (map f (py_sort_key_rev f xs)))"
  by (simp add: py_sort_key_rev_def rev_map)

lemma py_sort_key_rev_stable:
  "filter (\<lambda>y. f y = k) (py_sort_key_rev f xs) = filter (\<lambda>y. f y = k) xs"
  by (simp add: py_sort_key_rev_def sort_key_stable flip: rev_filter)

text \<open>Descending order, read off positions: an earlier item has a key at least as large.\<close>

lemma py_sort_key_rev_nth_mono:
  assumes "i \<le> j" "j < length xs"
  shows "f (py_sort_key_rev f xs ! j) \<le> f (py_sort_key_rev f xs ! i)"
proof -
  let ?ys = "py_sort_key_rev f xs"
  let ?n = "length xs"
  have len: "length ?ys = ?n" by simp
  have "sorted (rev (map f ?ys))" by simp
  moreover from assms have "?n - 1 - j \<le> ?n - 1 - i" and "?n - 1 - i < length (rev (map f ?ys))"
    by simp_all
  ultimately have "rev (map f ?ys) ! (?n - 1 - j) \<le> rev (map f ?ys) ! (?n - 1 - i)"
    by (rule sorted_nth_mono)
  with assms len show ?thesis by (simp add: rev_nth)
qed

section \<open>Keys in the order of first occurrence\<close>

definition first_occs :: "'a list \<Rightarrow> 'a list" where
  "first_occs xs = rev (remdups (rev xs))"

lemma remdups_snoc: "remdups (ys @ [x]) = filter (\<lambda>y. y \<noteq> x) (remdups ys) @ [x]"
  by (induction ys) auto

lemma first_occs_Nil [simp]: "first_occs [] = []"
  by (simp add: first_occs_def)

lemma first_occs_snoc [simp]:
  "first_occs (xs @ [x]) = (if x \<in> set xs then first_occs xs else first_occs xs @ [x])"
  by (simp add: first_occs_def)

lemma set_first_occs [simp]: "set (first_occs xs) = set xs"
  by (simp add: first_occs_def)

lemma distinct_first_occs [simp]: "distinct (first_occs xs)"
  by (simp add: first_occs_def)

lemma first_occs_distinct_id: "distinct xs \<Longrightarrow> first_occs xs = xs"
  by (simp add: first_occs_def distinct_remdups_id)

lemma first_occs_Cons: "first_occs (x # xs) = x # filter (\<lambda>y. y \<noteq> x) (first_occs xs)"
  by (simp add: first_occs_def remdups_snoc rev_filter)

lemma length_first_occs_le: "length (first_occs xs) \<le> length xs"
  by (simp add: first_occs_def) (metis length_remdups_leq length_rev)

section \<open>Insertion-ordered dictionaries\<close>

type_synonym ('k, 'v) odict = "('k \<times> 'v) list"

abbreviation od_keys :: "('k, 'v) odict \<Rightarrow> 'k list" where
  "od_keys d \<equiv> map fst d"

fun od_modify :: "'k \<Rightarrow> 'v \<Rightarrow> ('v \<Rightarrow> 'v) \<Rightarrow> ('k, 'v) odict \<Rightarrow> ('k, 'v) odict" where
  "od_modify k d0 f [] = [(k, f d0)]"
| "od_modify k d0 f ((k', v) # d) =
     (if k' = k then (k', f v) # d else (k', v) # od_modify k d0 f d)"

definition od_group ::
  "('a \<Rightarrow> 'k) \<Rightarrow> 'v \<Rightarrow> ('a \<Rightarrow> 'v \<Rightarrow> 'v) \<Rightarrow> 'a list \<Rightarrow> ('k, 'v) odict" where
  "od_group key d0 step xs = foldl (\<lambda>d x. od_modify (key x) d0 (step x) d) [] xs"

lemma od_keys_modify:
  "od_keys (od_modify k d0 f d) = (if k \<in> set (od_keys d) then od_keys d else od_keys d @ [k])"
  by (induction d) force+

lemma distinct_od_modify:
  "distinct (od_keys d) \<Longrightarrow> distinct (od_keys (od_modify k d0 f d))"
  by (simp add: od_keys_modify)

lemma map_of_od_modify:
  "map_of (od_modify k d0 f d) =
     (map_of d)(k \<mapsto> f (case map_of d k of None \<Rightarrow> d0 | Some v \<Rightarrow> v))"
  by (induction d) (auto simp: fun_eq_iff)

lemma length_od_modify:
  "length (od_modify k d0 f d) = (if k \<in> set (od_keys d) then length d else Suc (length d))"
  by (induction d) force+

text \<open>
  On a dictionary given as a table \<open>k \<mapsto> F k\<close> over distinct keys, a modification
  either rewrites the entry in place or appends a new one.
\<close>

lemma od_modify_table:
  "od_modify k d0 f (map (\<lambda>k'. (k', F k')) ks) =
     (if k \<in> set ks then map (\<lambda>k'. (k', if k' = k then f (F k') else F k')) ks
      else map (\<lambda>k'. (k', F k')) ks @ [(k, f d0)])"
  if "distinct ks"
  using that by (induction ks) auto

lemma od_group_Nil [simp]: "od_group key d0 step [] = []"
  by (simp add: od_group_def)

lemma od_group_snoc [simp]:
  "od_group key d0 step (xs @ [x]) = od_modify (key x) d0 (step x) (od_group key d0 step xs)"
  by (simp add: od_group_def)

theorem od_group_eq:
  "od_group key d0 step xs =
     map (\<lambda>k. (k, foldl (\<lambda>v x. step x v) d0 (filter (\<lambda>x. key x = k) xs)))
       (first_occs (map key xs))"
proof (induction xs rule: rev_induct)
  case Nil
  show ?case by simp
next
  case (snoc x xs)
  let ?F = "\<lambda>k. foldl (\<lambda>v x. step x v) d0 (filter (\<lambda>x. key x = k) xs)"
  have new: "?F (key x) = d0" if "key x \<notin> key ` set xs"
    using that by (simp add: filter_eq_Nil_notin)
  show ?case
    by (simp add: snoc.IH od_modify_table new cong: map_cong) force
qed

corollary od_keys_group [simp]: "od_keys (od_group key d0 step xs) = first_occs (map key xs)"
  by (simp add: od_group_eq comp_def)

corollary distinct_od_keys_group [simp]: "distinct (od_keys (od_group key d0 step xs))"
  by simp

corollary map_of_od_group:
  "map_of (od_group key d0 step xs) k =
     (if k \<in> key ` set xs
      then Some (foldl (\<lambda>v x. step x v) d0 (filter (\<lambda>x. key x = k) xs)) else None)"
  by (simp add: od_group_eq map_of_map_restrict restrict_map_def)

text \<open>Appending each item to the list stored under its key groups the items.\<close>

lemma foldl_snoc_id [simp]: "foldl (\<lambda>v x. v @ [x]) acc xs = acc @ xs"
  by (induction xs arbitrary: acc) simp_all

section \<open>Partition of a list by a key\<close>

text \<open>
  The groups of a list under a key, taken in any order of distinct keys that covers the
  list, hold every item exactly once; selecting one key from the concatenated groups
  gives that group.
\<close>

lemma concat_map_single:
  "distinct ks \<Longrightarrow>
     concat (map (\<lambda>k'. if k' = k then g k' else []) ks) = (if k \<in> set ks then g k else [])"
  by (induction ks) auto

lemma sum_list_single:
  "distinct ks \<Longrightarrow> (\<Sum>k'\<leftarrow>ks. if k' = k then (a :: 'a :: comm_monoid_add) else 0) =
     (if k \<in> set ks then a else 0)"
  by (induction ks) auto

lemma mset_concat_groups:
  assumes "distinct ks" "key ` set xs \<subseteq> set ks"
  shows "mset (concat (map (\<lambda>k. filter (\<lambda>x. key x = k) xs) ks)) = mset xs"
  using assms(2)
proof (induction xs)
  case Nil
  show ?case by (simp add: mset_concat comp_def)
next
  case (Cons x xs)
  have "(\<Sum>k\<leftarrow>ks. mset (filter (\<lambda>x. key x = k) (x # xs))) =
        (\<Sum>k\<leftarrow>ks. (if k = key x then {#x#} else {#}) + mset (filter (\<lambda>x. key x = k) xs))"
    by (intro arg_cong [where f = sum_list] map_cong) auto
  also have "\<dots> = (\<Sum>k\<leftarrow>ks. if k = key x then {#x#} else {#}) +
        (\<Sum>k\<leftarrow>ks. mset (filter (\<lambda>x. key x = k) xs))"
    by (simp add: sum_list_addf)
  also have "\<dots> = {#x#} + mset xs"
    using Cons assms(1) by (simp add: sum_list_single mset_concat comp_def)
  finally show ?case by (simp add: mset_concat comp_def)
qed

lemma mset_group_partition:
  "mset (concat (map (\<lambda>k. filter (\<lambda>x. key x = k) xs) (first_occs (map key xs)))) = mset xs"
  by (rule mset_concat_groups) simp_all

end
