(* ===== verification/Py_Float.thy ===== *)
theory Py_Float
  imports Py_Prelude
begin

text \<open>
  Floats that may be infinite. The aggregator starts \<^verbatim>\<open>first_appearance\<close> at
  \<^verbatim>\<open>float('inf')\<close> (\<^verbatim>\<open>src/face_detection.py\<close>, line 195), takes \<^verbatim>\<open>min\<close> with timestamps and
  later subtracts the value from a finite float. \<open>pyfloat\<close> adds the two infinities to
  the reals; it is a linear order, so \<^verbatim>\<open>min\<close>, \<^verbatim>\<open>max\<close> and sorting by such a key are
  the library's \<open>min\<close>, \<open>max\<close> and \<open>sort_key\<close>. \<open>pyfloat_sub\<close> is the subtraction
  \<^verbatim>\<open>a - b\<close> of a finite \<open>a\<close> and a possibly infinite \<open>b\<close>. NaN is outside the model.
\<close>

section \<open>Definitions\<close>

datatype pyfloat = NegInf | Fin real | PosInf

instantiation pyfloat :: linorder
begin

fun less_eq_pyfloat :: "pyfloat \<Rightarrow> pyfloat \<Rightarrow> bool" where
  "less_eq_pyfloat NegInf b = True"
| "less_eq_pyfloat (Fin a) NegInf = False"
| "less_eq_pyfloat (Fin a) (Fin b) = (a \<le> b)"
| "less_eq_pyfloat (Fin a) PosInf = True"
| "less_eq_pyfloat PosInf PosInf = True"
| "less_eq_pyfloat PosInf b = False"

definition less_pyfloat :: "pyfloat \<Rightarrow> pyfloat \<Rightarrow> bool" where
  "less_pyfloat a b \<longleftrightarrow> a \<le> b \<and> \<not> b \<le> a"

instance
proof
  fix x y z :: pyfloat
  show "x < y \<longleftrightarrow> x \<le> y \<and> \<not> y \<le> x" by (simp add: less_pyfloat_def)
  show "x \<le> x" by (cases x) simp_all
  show "x \<le> y \<Longrightarrow> y \<le> z \<Longrightarrow> x \<le> z" by (cases x; cases y; cases z) simp_all
  show "x \<le> y \<Longrightarrow> y \<le> x \<Longrightarrow> x = y" by (cases x; cases y) simp_all
  show "x \<le> y \<or> y \<le> x" by (cases x; cases y) auto
qed

end

fun pyfloat_sub :: "real \<Rightarrow> pyfloat \<Rightarrow> pyfloat" where
  "pyfloat_sub a (Fin b) = Fin (a - b)"
| "pyfloat_sub a PosInf = NegInf"
| "pyfloat_sub a NegInf = PosInf"

definition is_finite :: "pyfloat \<Rightarrow> bool" where
  "is_finite a = (case a of Fin _ \<Rightarrow> True | _ \<Rightarrow> False)"

section \<open>Lemmas\<close>

lemma Fin_less_iff [simp]: "Fin a < Fin b \<longleftrightarrow> a < b"
  by (auto simp: less_pyfloat_def)

lemma PosInf_greatest [simp]: "a \<le> PosInf"
  by (cases a) simp_all

lemma NegInf_least [simp]: "NegInf \<le> a"
  by simp

lemma PosInf_le_iff [simp]: "PosInf \<le> a \<longleftrightarrow> a = PosInf"
  by (cases a) simp_all

lemma le_NegInf_iff [simp]: "a \<le> NegInf \<longleftrightarrow> a = NegInf"
  by (cases a) simp_all

lemma min_Fin [simp]: "min (Fin a) (Fin b) = Fin (min a b)"
  by (simp add: min_def)

lemma max_Fin [simp]: "max (Fin a) (Fin b) = Fin (max a b)"
  by (simp add: max_def)

lemma min_PosInf [simp]: "min PosInf a = a" "min a PosInf = a"
  by (simp_all add: min_def)

lemma is_finite_simps [simp]: "is_finite (Fin a)" "\<not> is_finite PosInf" "\<not> is_finite NegInf"
  by (simp_all add: is_finite_def)

lemma is_finite_iff: "is_finite a \<longleftrightarrow> (\<exists>r. a = Fin r)"
  by (cases a) simp_all

lemma is_finite_sub [simp]: "is_finite (pyfloat_sub a b) \<longleftrightarrow> is_finite b"
  by (cases b) simp_all

lemma mono_Fin: "mono Fin"
  by (simp add: mono_def)

end
