(* ===== verification/Identity.thy ===== *)
theory Identity
  imports Py_Containers
begin

text \<open>
  The identity resolver: \<^verbatim>\<open>identify_speaker\<close> (\<^verbatim>\<open>src/face_detection.py\<close>, lines 146-164)
  and the registry it is used with, the three local variables
  \<^verbatim>\<open>known_face_encodings\<close>, \<^verbatim>\<open>known_face_names\<close> and \<^verbatim>\<open>speaker_id_counter\<close> of
  \<^verbatim>\<open>detect_faces_in_video\<close> with their update at lines 82-88 (\<open>resolve_speaker\<close>).

  The face encoder is external: an embedding is a value of a type variable \<open>'e\<close> and
  the distance between two embeddings is a parameter \<open>dst\<close>. The calls into the
  \<^verbatim>\<open>face_recognition\<close> library are modelled by what the library documents:
  \<open>face_distance\<close> is the list of distances to the known embeddings, \<open>compare_faces\<close>
  compares each of them with the tolerance (\<open>\<le>\<close>), and \<open>np_argmin\<close> is the index of the
  first least element, raising on an empty list. \<open>euclidean\<close> is the distance the
  library uses, on embeddings as lists of reals.

  The lemmas show: the index chosen is the first nearest one (\<open>np_argmin_iff\<close>); the
  double test of the code equals nearest neighbour with a threshold
  (\<open>identify_speaker_ref\<close>); under the registry invariant \<open>registry_inv\<close> no lookup
  raises, every step keeps the invariant, and \<open>resolve_speaker\<close> implements the
  abstract contract \<open>resolves\<close> on lists of reference embeddings.
\<close>

section \<open>Library calls\<close>

definition tolerance :: real where
  "tolerance = 6 / 10"

definition face_distance :: "('e \<Rightarrow> 'e \<Rightarrow> real) \<Rightarrow> 'e list \<Rightarrow> 'e \<Rightarrow> real list" where
  "face_distance dst face_encodings face_to_compare =
     map (\<lambda>known. dst known face_to_compare) face_encodings"

definition compare_faces :: "('e \<Rightarrow> 'e \<Rightarrow> real) \<Rightarrow> 'e list \<Rightarrow> 'e \<Rightarrow> real \<Rightarrow> bool list" where
  "compare_faces dst known_face_encodings face_encoding_to_check tol =
     map (\<lambda>d. d \<le> tol) (face_distance dst known_face_encodings face_encoding_to_check)"

fun np_argmin :: "real list \<Rightarrow> nat result" where
  "np_argmin [] = Inl ValueError"
| "np_argmin [d] = Inr 0"
| "np_argmin (d # ds) =
     (case np_argmin ds of
        Inl e \<Rightarrow> Inl e
      | Inr j \<Rightarrow> Inr (if d \<le> ds ! j then 0 else Suc j))"

definition euclidean :: "real list \<Rightarrow> real list \<Rightarrow> real" where
  "euclidean u v = sqrt (\<Sum>p\<leftarrow>zip u v. (fst p - snd p)\<^sup>2)"

declare tolerance_def [py_defs] face_distance_def [py_defs] compare_faces_def [py_defs]
  euclidean_def [py_defs]

section \<open>The resolver\<close>

definition speaker_name :: "nat \<Rightarrow> string" where
  "speaker_name n = ''speaker_'' @ str_nat n"

definition identify_speaker ::
  "('e \<Rightarrow> 'e \<Rightarrow> real) \<Rightarrow> 'e \<Rightarrow> 'e list \<Rightarrow> string list \<Rightarrow> nat \<Rightarrow> string result" where
  "identify_speaker dst face_encoding known_encodings known_names next_id =
     (if known_encodings = [] then Inr (speaker_name next_id)
      else
        let matches = compare_faces dst known_encodings face_encoding tolerance;
            distances = face_distance dst known_encodings face_encoding
        in if True \<in> set matches then
             (case np_argmin distances of
                Inl e \<Rightarrow> Inl e
              | Inr best_match_index \<Rightarrow>
                  if matches ! best_match_index then py_index known_names best_match_index
                  else Inr (speaker_name next_id))
           else Inr (speaker_name next_id))"

record 'e registry =
  known_face_encodings :: "'e list"
  known_face_names :: "string list"
  speaker_id_counter :: nat

definition init_registry :: "'e registry" where
  "init_registry =
     \<lparr>known_face_encodings = [], known_face_names = [], speaker_id_counter = 1\<rparr>"

definition register_speaker :: "'e \<Rightarrow> string \<Rightarrow> 'e registry \<Rightarrow> 'e registry" where
  "register_speaker face_encoding speaker_id reg =
     reg\<lparr>known_face_encodings := known_face_encodings reg @ [face_encoding],
         known_face_names := known_face_names reg @ [speaker_id],
         speaker_id_counter := speaker_id_counter reg + 1\<rparr>"

definition resolve_speaker ::
  "('e \<Rightarrow> 'e \<Rightarrow> real) \<Rightarrow> 'e \<Rightarrow> 'e registry \<Rightarrow> (string \<times> 'e registry) result" where
  "resolve_speaker dst face_encoding reg =
     (case identify_speaker dst face_encoding (known_face_encodings reg)
             (known_face_names reg) (speaker_id_counter reg) of
        Inl e \<Rightarrow> Inl e
      | Inr speaker_id \<Rightarrow>
          Inr (speaker_id,
               if speaker_id = speaker_name (speaker_id_counter reg)
               then register_speaker face_encoding speaker_id reg
               else reg))"

section \<open>Specification\<close>

text \<open>
  \<open>first_min ds i\<close>: position \<open>i\<close> holds a least element of \<open>ds\<close> and no earlier
  position does.
\<close>

definition first_min :: "real list \<Rightarrow> nat \<Rightarrow> bool" where
  "first_min ds i \<longleftrightarrow>
     i < length ds \<and> (\<forall>j < length ds. ds ! i \<le> ds ! j) \<and> (\<forall>j < i. ds ! i < ds ! j)"

text \<open>
  The reference resolver: nearest neighbour first, then one comparison with the
  tolerance.
\<close>

definition identify_speaker_ref ::
  "('e \<Rightarrow> 'e \<Rightarrow> real) \<Rightarrow> 'e \<Rightarrow> 'e list \<Rightarrow> string list \<Rightarrow> nat \<Rightarrow> string result" where
  "identify_speaker_ref dst e known names next_id =
     (case np_argmin (map (\<lambda>k. dst k e) known) of
        Inl _ \<Rightarrow> Inr (speaker_name next_id)
      | Inr i \<Rightarrow>
          if dst (known ! i) e \<le> tolerance then py_index names i
          else Inr (speaker_name next_id))"

text \<open>
  The contract of the resolver on the list of reference embeddings:
  \<open>resolves dst refs e n refs'\<close> says that embedding \<open>e\<close> gets speaker number \<open>n\<close>
  and leaves the references \<open>refs'\<close>. A match returns the first nearest reference and
  changes nothing; otherwise the embedding becomes the reference of the next number.
\<close>

inductive resolves :: "('e \<Rightarrow> 'e \<Rightarrow> real) \<Rightarrow> 'e list \<Rightarrow> 'e \<Rightarrow> nat \<Rightarrow> 'e list \<Rightarrow> bool"
  for dst :: "'e \<Rightarrow> 'e \<Rightarrow> real" where
  matched: "first_min (map (\<lambda>k. dst k e) refs) i \<Longrightarrow> dst (refs ! i) e \<le> tolerance \<Longrightarrow>
     resolves dst refs e (Suc i) refs"
| fresh: "(\<And>k. k \<in> set refs \<Longrightarrow> tolerance < dst k e) \<Longrightarrow>
     resolves dst refs e (Suc (length refs)) (refs @ [e])"

inductive_cases resolves_cases: "resolves dst refs e n refs'"

text \<open>
  The registry invariant: names are \<^verbatim>\<open>speaker_1\<close>, \<^verbatim>\<open>speaker_2\<close>, ... in the order of
  registration, one per reference embedding, and the counter is the next number.
\<close>

definition registry_inv :: "'e registry \<Rightarrow> bool" where
  "registry_inv reg \<longleftrightarrow>
     known_face_names reg = map speaker_name [1..<speaker_id_counter reg] \<and>
     length (known_face_encodings reg) = length (known_face_names reg) \<and>
     1 \<le> speaker_id_counter reg"

section \<open>Speaker names\<close>

lemma speaker_name_inject [simp]: "speaker_name m = speaker_name n \<longleftrightarrow> m = n"
  by (simp add: speaker_name_def)

lemma speaker_name_eval: "speaker_name n = ''speaker_'' @ str_nat n"
  by (rule speaker_name_def)

lemma speaker_name_notin_smaller:
  "speaker_name c \<notin> set (map speaker_name [1..<c])"
  by auto

section \<open>The first nearest index\<close>

lemma first_min_unique: "first_min ds i \<Longrightarrow> first_min ds j \<Longrightarrow> i = j"
  unfolding first_min_def by (metis linorder_neqE_nat not_le)

lemma first_min_length: "first_min ds i \<Longrightarrow> i < length ds"
  by (simp add: first_min_def)

lemma first_min_le: "first_min ds i \<Longrightarrow> j < length ds \<Longrightarrow> ds ! i \<le> ds ! j"
  by (simp add: first_min_def)

lemma first_min_Cons_0: "first_min ds j \<Longrightarrow> d \<le> ds ! j \<Longrightarrow> first_min (d # ds) 0"
  unfolding first_min_def by (auto simp: nth_Cons split: nat.splits intro: order_trans)

lemma first_min_Cons_Suc:
  "first_min ds j \<Longrightarrow> \<not> d \<le> ds ! j \<Longrightarrow> first_min (d # ds) (Suc j)"
  unfolding first_min_def by (auto simp: nth_Cons less_Suc_eq_0_disj split: nat.splits)

lemma np_argmin_first_min: "np_argmin ds = Inr i \<Longrightarrow> first_min ds i"
proof (induction ds arbitrary: i rule: np_argmin.induct)
  case (3 d v va)
  from "3.prems" obtain j where j: "np_argmin (v # va) = Inr j"
    and i: "i = (if d \<le> (v # va) ! j then 0 else Suc j)"
    by (auto split: sum.splits)
  from j have "first_min (v # va) j" by (rule "3.IH")
  with i show ?case
    by (auto intro: first_min_Cons_0 first_min_Cons_Suc)
qed (simp_all add: first_min_def)

lemma np_argmin_ok: "ds \<noteq> [] \<Longrightarrow> \<exists>i. np_argmin ds = Inr i"
  by (induction ds rule: np_argmin.induct) auto

lemma np_argmin_iff: "np_argmin ds = Inr i \<longleftrightarrow> first_min ds i"
proof
  assume fm: "first_min ds i"
  then have "ds \<noteq> []" by (auto simp: first_min_def)
  then obtain j where j: "np_argmin ds = Inr j" using np_argmin_ok by blast
  then have "first_min ds j" by (rule np_argmin_first_min)
  with fm have "i = j" by (rule first_min_unique)
  with j show "np_argmin ds = Inr i" by simp
qed (rule np_argmin_first_min)

lemma np_argmin_Inl_iff: "np_argmin ds = Inl e \<longleftrightarrow> ds = [] \<and> e = ValueError"
  by (cases "ds = []") (auto dest: np_argmin_ok)

lemma first_min_exists: "ds \<noteq> [] \<Longrightarrow> \<exists>i. first_min ds i"
  using np_argmin_ok np_argmin_first_min by blast

section \<open>Library calls, pointwise\<close>

lemma length_face_distance [simp]: "length (face_distance dst known e) = length known"
  by (simp add: face_distance_def)

lemma face_distance_nth [simp]:
  "i < length known \<Longrightarrow> face_distance dst known e ! i = dst (known ! i) e"
  by (simp add: face_distance_def)

lemma face_distance_eq_Nil [simp]: "face_distance dst known e = [] \<longleftrightarrow> known = []"
  by (simp add: face_distance_def)

lemma compare_faces_nth:
  "i < length known \<Longrightarrow> compare_faces dst known e tol ! i \<longleftrightarrow> dst (known ! i) e \<le> tol"
  by (simp add: compare_faces_def)

lemma True_in_compare_faces:
  "True \<in> set (compare_faces dst known e tol) \<longleftrightarrow> (\<exists>k \<in> set known. dst k e \<le> tol)"
  by (auto simp: compare_faces_def face_distance_def)

text \<open>The nearest known embedding is within the tolerance iff some known embedding is.\<close>

lemma first_min_within:
  assumes "first_min (face_distance dst known e) i"
  shows "dst (known ! i) e \<le> tol \<longleftrightarrow> (\<exists>k \<in> set known. dst k e \<le> tol)"
proof
  from assms have i: "i < length known" by (auto dest: first_min_length)
  then show "dst (known ! i) e \<le> tol \<Longrightarrow> \<exists>k \<in> set known. dst k e \<le> tol"
    using nth_mem by blast
  assume "\<exists>k \<in> set known. dst k e \<le> tol"
  then obtain j where j: "j < length known" "dst (known ! j) e \<le> tol"
    by (auto simp: in_set_conv_nth)
  with assms have "face_distance dst known e ! i \<le> face_distance dst known e ! j"
    by (intro first_min_le) simp_all
  with i j show "dst (known ! i) e \<le> tol" by simp
qed

lemma nearest_dichotomy:
  "(\<forall>k \<in> set known. tolerance < dst k e) \<or>
   (\<exists>i. first_min (face_distance dst known e) i \<and> dst (known ! i) e \<le> tolerance)"
  for dst :: "'e \<Rightarrow> 'e \<Rightarrow> real"
proof (cases "\<forall>k \<in> set known. tolerance < dst k e")
  case False
  then have "face_distance dst known e \<noteq> []" by auto
  then obtain i where i: "first_min (face_distance dst known e) i"
    using first_min_exists by blast
  with False first_min_within [of dst known e i tolerance]
  have "dst (known ! i) e \<le> tolerance" by (auto simp: not_less)
  with i show ?thesis by blast
qed simp

section \<open>Behaviour of \<open>identify_speaker\<close> on each branch\<close>

lemma identify_speaker_matched:
  assumes "first_min (face_distance dst known e) i" "dst (known ! i) e \<le> tolerance"
  shows "identify_speaker dst e known names next_id = py_index names i"
proof -
  from assms(1) have i: "i < length known" by (auto dest: first_min_length)
  then have "known \<noteq> []" "\<exists>k \<in> set known. dst k e \<le> tolerance"
    using assms(2) nth_mem by fastforce+
  with assms i show ?thesis
    by (simp add: identify_speaker_def Let_def np_argmin_iff [THEN iffD2]
        compare_faces_nth True_in_compare_faces)
qed

lemma identify_speaker_fresh:
  assumes "\<forall>k \<in> set known. tolerance < dst k e"
  shows "identify_speaker dst e known names next_id = Inr (speaker_name next_id)"
proof -
  from assms have "\<not> (\<exists>k \<in> set known. dst k e \<le> tolerance)" by (auto simp: not_le)
  then show ?thesis by (simp add: identify_speaker_def Let_def True_in_compare_faces)
qed

section \<open>The registry invariant\<close>

lemma registry_inv_init [simp]: "registry_inv init_registry"
  by (simp add: registry_inv_def init_registry_def)

lemma registry_inv_length:
  "registry_inv reg \<Longrightarrow> length (known_face_names reg) = length (known_face_encodings reg)"
  by (simp add: registry_inv_def)

lemma registry_inv_names_nth:
  "registry_inv reg \<Longrightarrow> i < length (known_face_encodings reg) \<Longrightarrow>
     known_face_names reg ! i = speaker_name (Suc i)"
  by (simp add: registry_inv_def)

lemma registry_inv_counter:
  "registry_inv reg \<Longrightarrow> speaker_id_counter reg = Suc (length (known_face_encodings reg))"
  by (auto simp: registry_inv_def)

lemma registry_inv_register:
  "registry_inv reg \<Longrightarrow>
     registry_inv (register_speaker e (speaker_name (speaker_id_counter reg)) reg)"
  by (auto simp: registry_inv_def register_speaker_def)

lemma registry_inv_distinct: "registry_inv reg \<Longrightarrow> distinct (known_face_names reg)"
  by (simp add: registry_inv_def distinct_map inj_on_def)

lemma register_speaker_sel [simp]:
  "known_face_encodings (register_speaker e s reg) = known_face_encodings reg @ [e]"
  "known_face_names (register_speaker e s reg) = known_face_names reg @ [s]"
  "speaker_id_counter (register_speaker e s reg) = Suc (speaker_id_counter reg)"
  by (simp_all add: register_speaker_def)

section \<open>One resolution step\<close>

lemma resolve_speaker_fresh:
  assumes "\<forall>k \<in> set (known_face_encodings reg). tolerance < dst k e"
  shows "resolve_speaker dst e reg =
     Inr (speaker_name (speaker_id_counter reg),
          register_speaker e (speaker_name (speaker_id_counter reg)) reg)"
  using assms by (simp add: resolve_speaker_def identify_speaker_fresh)

lemma resolve_speaker_matched:
  assumes "registry_inv reg" "first_min (face_distance dst (known_face_encodings reg) e) i"
    "dst (known_face_encodings reg ! i) e \<le> tolerance"
  shows "resolve_speaker dst e reg = Inr (speaker_name (Suc i), reg)"
proof -
  from assms(2) have i: "i < length (known_face_encodings reg)"
    by (auto dest: first_min_length)
  with assms(1) have "py_index (known_face_names reg) i = Inr (speaker_name (Suc i))"
    by (simp add: registry_inv_names_nth registry_inv_length)
  moreover from assms(1) i have "Suc i \<noteq> speaker_id_counter reg"
    by (simp add: registry_inv_counter)
  ultimately show ?thesis
    using assms(2,3) by (simp add: resolve_speaker_def identify_speaker_matched)
qed

lemma resolves_deterministic:
  assumes "resolves dst refs e n r" "resolves dst refs e m r'"
  shows "n = m \<and> r = r'"
  using assms
  by (auto elim!: resolves_cases dest: first_min_unique first_min_length
      simp: face_distance_def not_le [symmetric])

section \<open>Properties of the resolver\<close>

text \<open>
  C2 (equivalence). The two tests of \<^verbatim>\<open>identify_speaker\<close>, "some known face matches"
  and "the nearest known face matches", say the same: on every input, errors included,
  the function returns what the reference resolver returns, which looks up the first
  nearest known encoding and compares its distance with the tolerance once.
\<close>

theorem identify_speaker_equiv:
  "identify_speaker dst e known names next_id = identify_speaker_ref dst e known names next_id"
proof (cases "known = []")
  case True
  then show ?thesis by (simp add: identify_speaker_def identify_speaker_ref_def)
next
  case False
  then obtain i where i: "np_argmin (face_distance dst known e) = Inr i"
    using np_argmin_ok [of "face_distance dst known e"] by auto
  then have fm: "first_min (face_distance dst known e) i" by (rule np_argmin_first_min)
  then have len: "i < length known" by (auto dest: first_min_length)
  from i have i': "np_argmin (map (\<lambda>k. dst k e) known) = Inr i" by (simp add: face_distance_def)
  show ?thesis
    using False len first_min_within [OF fm, of tolerance]
    by (simp add: identify_speaker_def identify_speaker_ref_def Let_def i i'
        compare_faces_nth True_in_compare_faces)
qed

text \<open>
  C1 (refinement). On a registry that satisfies the invariant, the resolution step of
  the detection loop never raises and implements the contract \<open>resolves\<close> on the list of
  reference embeddings: it returns \<^verbatim>\<open>speaker_n\<close> for the number \<open>n\<close> the contract gives,
  leaves the references the contract leaves, and the new registry satisfies the
  invariant again.
\<close>

theorem resolve_speaker_refines:
  assumes "registry_inv reg"
  shows "\<exists>n reg'. resolve_speaker dst e reg = Inr (speaker_name n, reg') \<and>
           resolves dst (known_face_encodings reg) e n (known_face_encodings reg') \<and>
           registry_inv reg'"
  using nearest_dichotomy [of "known_face_encodings reg" dst e]
proof (elim disjE exE conjE)
  assume far: "\<forall>k \<in> set (known_face_encodings reg). tolerance < dst k e"
  let ?c = "speaker_id_counter reg"
  let ?reg' = "register_speaker e (speaker_name ?c) reg"
  from far have "resolve_speaker dst e reg = Inr (speaker_name ?c, ?reg')"
    by (rule resolve_speaker_fresh)
  moreover from far have "resolves dst (known_face_encodings reg) e ?c (known_face_encodings ?reg')"
    by (auto intro: resolves.fresh simp: registry_inv_counter [OF assms])
  moreover from assms have "registry_inv ?reg'"
    by (rule registry_inv_register)
  ultimately show ?thesis by blast
next
  fix i
  assume "first_min (face_distance dst (known_face_encodings reg) e) i"
    and "dst (known_face_encodings reg ! i) e \<le> tolerance"
  with assms show ?thesis
    by (auto simp: resolve_speaker_matched face_distance_def intro!: resolves.matched)
qed

theorem resolve_speaker_refines_witness:
  "registry_inv \<lparr>known_face_encodings = [0::real], known_face_names = [''speaker_1''],
      speaker_id_counter = 2\<rparr> \<and>
   (\<exists>n reg'. resolve_speaker (\<lambda>a b. \<bar>a - b\<bar>) (1 / 2)
        \<lparr>known_face_encodings = [0::real], known_face_names = [''speaker_1''],
          speaker_id_counter = 2\<rparr> = Inr (speaker_name n, reg') \<and>
      resolves (\<lambda>a b. \<bar>a - b\<bar>) [0] (1 / 2) n (known_face_encodings reg') \<and>
      registry_inv reg')"
proof -
  have inv: "registry_inv \<lparr>known_face_encodings = [0::real],
      known_face_names = [''speaker_1''], speaker_id_counter = 2\<rparr>"
    by (simp add: registry_inv_def speaker_name_def str_nat_eval numeral_2_eq_2)
  from resolve_speaker_refines [OF inv, of "\<lambda>a b. \<bar>a - b\<bar>" "1 / 2"] inv show ?thesis
    by simp
qed

section \<open>Errors, and the step seen from outside\<close>

lemma identify_speaker_results:
  "(\<forall>k \<in> set known. tolerance < dst k e) \<and>
     identify_speaker dst e known names next_id = Inr (speaker_name next_id) \<or>
   (\<exists>i. first_min (face_distance dst known e) i \<and> dst (known ! i) e \<le> tolerance \<and>
     identify_speaker dst e known names next_id = py_index names i)"
  using nearest_dichotomy [of known dst e]
  by (auto simp: identify_speaker_fresh identify_speaker_matched)

text \<open>
  C29 (error). \<^verbatim>\<open>identify_speaker\<close> raises in exactly one situation, and then it is an
  \<^verbatim>\<open>IndexError\<close>: the first nearest known encoding is within the tolerance and
  \<^verbatim>\<open>known_names\<close> has no entry at its index. A registry whose two lists have the same
  length never gets there.
\<close>

theorem identify_speaker_raises_iff:
  "identify_speaker dst e known names next_id = Inl err \<longleftrightarrow>
     err = IndexError \<and>
     (\<exists>i. first_min (face_distance dst known e) i \<and> dst (known ! i) e \<le> tolerance \<and>
          length names \<le> i)"
proof
  assume "identify_speaker dst e known names next_id = Inl err"
  with identify_speaker_results [of known dst e names next_id]
  show "err = IndexError \<and>
     (\<exists>i. first_min (face_distance dst known e) i \<and> dst (known ! i) e \<le> tolerance \<and>
          length names \<le> i)"
    by (auto simp: py_index_def split: if_splits)
next
  assume "err = IndexError \<and>
     (\<exists>i. first_min (face_distance dst known e) i \<and> dst (known ! i) e \<le> tolerance \<and>
          length names \<le> i)"
  then show "identify_speaker dst e known names next_id = Inl err"
    by (auto simp: identify_speaker_matched)
qed

lemma resolve_speaker_step:
  assumes "registry_inv reg"
  shows "(\<exists>i < length (known_face_encodings reg).
            resolve_speaker dst e reg = Inr (speaker_name (Suc i), reg)) \<or>
         resolve_speaker dst e reg =
           Inr (speaker_name (speaker_id_counter reg),
                register_speaker e (speaker_name (speaker_id_counter reg)) reg)"
  using nearest_dichotomy [of "known_face_encodings reg" dst e]
proof (elim disjE exE conjE)
  fix i
  assume i: "first_min (face_distance dst (known_face_encodings reg) e) i"
    and "dst (known_face_encodings reg ! i) e \<le> tolerance"
  with assms have "resolve_speaker dst e reg = Inr (speaker_name (Suc i), reg)"
    by (rule resolve_speaker_matched)
  moreover from i have "i < length (known_face_encodings reg)"
    by (auto dest: first_min_length)
  ultimately show ?thesis by blast
qed (simp add: resolve_speaker_fresh)

text \<open>
  C30 (safety). The registry is append-only. A resolution step that returns either
  leaves the registry as it is, or appends the new embedding and the returned name at
  the end of the two lists and increments the counter; the returned name is then the
  one made from the old counter. No existing entry is changed or removed.
\<close>

theorem resolve_speaker_append_only:
  assumes "resolve_speaker dst e reg = Inr (sid, reg')"
  shows "reg' = reg \<or>
     (known_face_encodings reg' = known_face_encodings reg @ [e] \<and>
      known_face_names reg' = known_face_names reg @ [sid] \<and>
      speaker_id_counter reg' = speaker_id_counter reg + 1 \<and>
      sid = speaker_name (speaker_id_counter reg))"
  using assms by (auto simp: resolve_speaker_def split: sum.splits if_splits)

theorem resolve_speaker_append_only_witness:
  "resolve_speaker (\<lambda>a b. \<bar>a - b\<bar>) 1 (init_registry :: real registry) =
     Inr (''speaker_1'', register_speaker 1 ''speaker_1'' init_registry) \<and>
   (register_speaker 1 ''speaker_1'' init_registry = (init_registry :: real registry) \<or>
     (known_face_encodings (register_speaker 1 ''speaker_1'' (init_registry :: real registry)) =
        known_face_encodings (init_registry :: real registry) @ [1] \<and>
      known_face_names (register_speaker 1 ''speaker_1'' (init_registry :: real registry)) =
        known_face_names (init_registry :: real registry) @ [''speaker_1''] \<and>
      speaker_id_counter (register_speaker 1 ''speaker_1'' (init_registry :: real registry)) =
        speaker_id_counter (init_registry :: real registry) + 1 \<and>
      ''speaker_1'' = speaker_name (speaker_id_counter (init_registry :: real registry))))"
proof -
  have r: "resolve_speaker (\<lambda>a b. \<bar>a - b\<bar>) 1 (init_registry :: real registry) =
     Inr (''speaker_1'', register_speaker 1 ''speaker_1'' init_registry)"
    by (simp add: resolve_speaker_def identify_speaker_def init_registry_def speaker_name_def
        str_nat_eval)
  show ?thesis by (rule conjI [OF r resolve_speaker_append_only [OF r]])
qed

text \<open>
  The first embedding ever resolved becomes \<^verbatim>\<open>speaker_1\<close>, whatever
  the distance function: the registry then holds this embedding under this name and
  the counter is 2.
\<close>

theorem first_embedding_is_speaker_1:
  "resolve_speaker dst e init_registry =
     Inr (''speaker_1'',
          \<lparr>known_face_encodings = [e], known_face_names = [''speaker_1''],
           speaker_id_counter = 2\<rparr>)"
  by (simp add: resolve_speaker_def identify_speaker_def init_registry_def speaker_name_def
      str_nat_eval register_speaker_def)

text \<open>
  C36 (functional). After a first speaker is registered with embedding \<open>e1\<close>, a second
  embedding \<open>e2\<close> resolves to \<^verbatim>\<open>speaker_1\<close> and leaves the registry unchanged when its
  distance to \<open>e1\<close> is at most the tolerance (equality included), and becomes
  \<^verbatim>\<open>speaker_2\<close> otherwise.
\<close>

theorem second_embedding_resolution:
  "resolve_speaker dst e2 (register_speaker e1 ''speaker_1'' init_registry) =
     Inr (if dst e1 e2 \<le> tolerance
          then (''speaker_1'', register_speaker e1 ''speaker_1'' init_registry)
          else (''speaker_2'',
                register_speaker e2 ''speaker_2''
                  (register_speaker e1 ''speaker_1'' init_registry)))"
  by (simp add: resolve_speaker_def identify_speaker_def init_registry_def speaker_name_def
      str_nat.simps py_defs register_speaker_def)

section \<open>The Euclidean distance\<close>

lemma sum_sq_nonneg: "0 \<le> (\<Sum>p\<leftarrow>zip u v. (fst p - snd p)\<^sup>2)" for u v :: "real list"
  by (rule sum_list_nonneg) auto

lemma euclidean_nonneg [simp]: "0 \<le> euclidean u v"
  by (simp add: euclidean_def sum_sq_nonneg)

lemma euclidean_self [simp]: "euclidean u u = 0"
  by (induction u) (simp_all add: euclidean_def)

lemma euclidean_commute: "euclidean u v = euclidean v u"
proof -
  have "(\<Sum>p\<leftarrow>zip u v. (fst p - snd p)\<^sup>2) = (\<Sum>p\<leftarrow>zip v u. (fst p - snd p)\<^sup>2)"
    by (induction u v rule: list_induct2') (simp_all add: power2_commute)
  then show ?thesis by (simp add: euclidean_def)
qed

lemma euclidean_eq_0_iff: "length u = length v \<Longrightarrow> euclidean u v = 0 \<longleftrightarrow> u = v"
proof (induction u v rule: list_induct2)
  case Nil
  show ?case by (simp add: euclidean_def)
next
  case (Cons a u b v)
  have nn: "0 \<le> (\<Sum>p\<leftarrow>zip u v. (fst p - snd p)\<^sup>2)" by (rule sum_sq_nonneg)
  have "euclidean (a # u) (b # v) = 0 \<longleftrightarrow> (a - b)\<^sup>2 + (\<Sum>p\<leftarrow>zip u v. (fst p - snd p)\<^sup>2) = 0"
    by (simp add: euclidean_def)
  also have "\<dots> \<longleftrightarrow> a = b \<and> (\<Sum>p\<leftarrow>zip u v. (fst p - snd p)\<^sup>2) = 0"
    using nn by (simp add: add_nonneg_eq_0_iff)
  also have "\<dots> \<longleftrightarrow> a = b \<and> euclidean u v = 0"
    by (simp add: euclidean_def)
  finally show ?case using Cons.IH by simp
qed

text \<open>
  With the Euclidean distance, an embedding that equals a registered
  reference never creates a speaker: it resolves to a registered name whose reference
  is at distance 0, and the registry is unchanged.
\<close>

theorem known_embedding_never_registers:
  assumes "registry_inv reg" "e \<in> set (known_face_encodings reg)"
  shows "\<exists>i < length (known_face_encodings reg).
           resolve_speaker euclidean e reg = Inr (speaker_name (Suc i), reg) \<and>
           euclidean (known_face_encodings reg ! i) e = 0"
proof -
  let ?known = "known_face_encodings reg"
  from assms(2) have ne: "face_distance euclidean ?known e \<noteq> []" by auto
  then obtain i where i: "first_min (face_distance euclidean ?known e) i"
    using first_min_exists by blast
  then have len: "i < length ?known" by (auto dest: first_min_length)
  from assms(2) obtain j where j: "j < length ?known" "?known ! j = e"
    by (auto simp: in_set_conv_nth)
  with i have "face_distance euclidean ?known e ! i \<le> face_distance euclidean ?known e ! j"
    by (intro first_min_le) simp_all
  with len j have "euclidean (?known ! i) e \<le> 0" by simp
  then have zero: "euclidean (?known ! i) e = 0" by (simp add: order_antisym)
  then have "euclidean (?known ! i) e \<le> tolerance" by (simp add: tolerance_def)
  with assms(1) i have "resolve_speaker euclidean e reg = Inr (speaker_name (Suc i), reg)"
    by (rule resolve_speaker_matched)
  with len zero show ?thesis by blast
qed

theorem known_embedding_never_registers_witness:
  "registry_inv (register_speaker [0, 0::real] ''speaker_1'' init_registry) \<and>
   [0, 0] \<in> set (known_face_encodings (register_speaker [0, 0::real] ''speaker_1'' init_registry)) \<and>
   (\<exists>i < length (known_face_encodings (register_speaker [0, 0::real] ''speaker_1'' init_registry)).
       resolve_speaker euclidean [0, 0]
         (register_speaker [0, 0::real] ''speaker_1'' init_registry) =
         Inr (speaker_name (Suc i), register_speaker [0, 0::real] ''speaker_1'' init_registry) \<and>
       euclidean (known_face_encodings
         (register_speaker [0, 0::real] ''speaker_1'' init_registry) ! i) [0, 0] = 0)"
proof -
  let ?reg = "register_speaker [0, 0::real] ''speaker_1'' init_registry"
  have inv: "registry_inv ?reg"
    using registry_inv_register [OF registry_inv_init, of "[0, 0::real]"]
    by (simp add: init_registry_def speaker_name_def str_nat_eval)
  have mem: "[0, 0] \<in> set (known_face_encodings ?reg)" by simp
  from known_embedding_never_registers [OF inv mem] inv mem show ?thesis by blast
qed

end
