(* ===== verification/Face_Data.thy ===== *)
theory Face_Data
  imports Py_Containers
begin

text \<open>
  The detection record: the dictionary \<^verbatim>\<open>face_data\<close> that \<^verbatim>\<open>detect_faces_in_video\<close>
  builds for every face (\<^verbatim>\<open>src/face_detection.py\<close>, lines 94-104) and that the smoother
  and the aggregator read. The keys \<^verbatim>\<open>'x'\<close> and \<^verbatim>\<open>'y'\<close> are the fields \<open>face_x\<close> and
  \<open>face_y\<close>; every other field has its key's name. Pixel coordinates are Python ints
  (\<^typ>\<open>int\<close>), timestamp and confidence are floats (\<^typ>\<open>real\<close>).

  \<open>make_face\<close> is the dictionary literal, with the two derived centre coordinates;
  \<open>face_centered\<close> says that the centre fields of a record are the ones derived from its
  box, which is what \<open>make_face\<close> establishes and the smoother has to keep.
\<close>

section \<open>Definitions\<close>

record face_data =
  timestamp :: real
  face_x :: int
  face_y :: int
  width :: int
  height :: int
  confidence :: real
  speakerId :: string
  center_x :: int
  center_y :: int

definition make_face ::
  "real \<Rightarrow> int \<Rightarrow> int \<Rightarrow> int \<Rightarrow> int \<Rightarrow> real \<Rightarrow> string \<Rightarrow> face_data" where
  "make_face ts x y w h conf speaker_id =
     \<lparr>timestamp = ts, face_x = x, face_y = y, width = w, height = h,
      confidence = conf, speakerId = speaker_id,
      center_x = x + w div 2, center_y = y + h div 2\<rparr>"

definition face_centered :: "face_data \<Rightarrow> bool" where
  "face_centered f \<longleftrightarrow>
     center_x f = face_x f + width f div 2 \<and> center_y f = face_y f + height f div 2"

text \<open>What the smoother never touches: everything but the position.\<close>

definition face_static :: "face_data \<Rightarrow> real \<times> int \<times> int \<times> real \<times> string" where
  "face_static f = (timestamp f, width f, height f, confidence f, speakerId f)"

text \<open>
  The detections of one speaker in a list, and the speakers of a list in the order in
  which they first occur.
\<close>

definition faces_of :: "string \<Rightarrow> face_data list \<Rightarrow> face_data list" where
  "faces_of speaker_id faces = filter (\<lambda>f. speakerId f = speaker_id) faces"

definition speakers_of :: "face_data list \<Rightarrow> string list" where
  "speakers_of faces = first_occs (map speakerId faces)"

section \<open>Lemmas\<close>

lemma make_face_sel [simp]:
  "timestamp (make_face ts x y w h c s) = ts"
  "face_x (make_face ts x y w h c s) = x"
  "face_y (make_face ts x y w h c s) = y"
  "width (make_face ts x y w h c s) = w"
  "height (make_face ts x y w h c s) = h"
  "confidence (make_face ts x y w h c s) = c"
  "speakerId (make_face ts x y w h c s) = s"
  "center_x (make_face ts x y w h c s) = x + w div 2"
  "center_y (make_face ts x y w h c s) = y + h div 2"
  by (simp_all add: make_face_def)

lemma face_centered_make_face [simp]: "face_centered (make_face ts x y w h c s)"
  by (simp add: face_centered_def)

lemma face_static_sel:
  "face_static f = face_static g \<longleftrightarrow>
     timestamp f = timestamp g \<and> width f = width g \<and> height f = height g \<and>
     confidence f = confidence g \<and> speakerId f = speakerId g"
  by (auto simp: face_static_def)

lemma faces_of_simps [simp]:
  "faces_of k [] = []"
  "faces_of k (f # fs) = (if speakerId f = k then f # faces_of k fs else faces_of k fs)"
  by (simp_all add: faces_of_def)

lemma speakerId_faces_of: "f \<in> set (faces_of k faces) \<Longrightarrow> speakerId f = k"
  by (simp add: faces_of_def)

lemma faces_of_append [simp]: "faces_of k (fs @ gs) = faces_of k fs @ faces_of k gs"
  by (simp add: faces_of_def)

lemma faces_of_eq_Nil_iff: "faces_of k faces = [] \<longleftrightarrow> k \<notin> set (speakers_of faces)"
  by (auto simp: faces_of_def speakers_of_def filter_empty_conv)

lemma set_speakers_of [simp]: "set (speakers_of faces) = speakerId ` set faces"
  by (simp add: speakers_of_def)

lemma distinct_speakers_of [simp]: "distinct (speakers_of faces)"
  by (simp add: speakers_of_def)

lemma speakers_of_Nil [simp]: "speakers_of [] = []"
  by (simp add: speakers_of_def)

lemma mset_faces_partition:
  "mset (concat (map (\<lambda>k. faces_of k faces) (speakers_of faces))) = mset faces"
  unfolding faces_of_def speakers_of_def by (rule mset_group_partition)

end
