(* ===== verification/Smoothing.thy ===== *)
theory Smoothing
  imports Face_Data
begin

text \<open>
  The temporal smoother: \<^verbatim>\<open>smooth_face_tracking\<close> (\<^verbatim>\<open>src/face_detection.py\<close>, lines
  234-273). The function groups the detections by speaker in a \<^verbatim>\<open>defaultdict\<close>, sorts
  each group by timestamp, replaces every interior detection of a group by a copy whose
  position is the truncated mean of its own and its two neighbours' positions, and
  sorts the result by timestamp.

  \<^item> \<open>smoothed_face\<close> is the body of the \<^verbatim>\<open>else\<close> branch (lines 259-266), with
    \<^verbatim>\<open>int(sum / 3)\<close> as \<open>py_int\<close> of a real quotient;
  \<^item> \<open>smooth_speaker_list\<close> is the \<^verbatim>\<open>enumerate\<close> loop over one group (lines 253-268),
    written over the indices as the code is;
  \<^item> \<open>smooth_face_tracking\<close> is the whole function.

  \<open>smooth_window\<close> is the reference: the three-point window as a recursion over the
  list. \<open>mean3\<close> is the floor mean \<^verbatim>\<open>(a + b + c) // 3\<close>.
\<close>

section \<open>Definitions\<close>

definition smooth_coord :: "int \<Rightarrow> int \<Rightarrow> int \<Rightarrow> int" where
  "smooth_coord p c n = py_int (real_of_int (p + c + n) / 3)"

definition smoothed_face :: "face_data \<Rightarrow> face_data \<Rightarrow> face_data \<Rightarrow> face_data" where
  "smoothed_face prev_face face next_face =
     (let sx = smooth_coord (face_x prev_face) (face_x face) (face_x next_face);
          sy = smooth_coord (face_y prev_face) (face_y face) (face_y next_face)
      in face\<lparr>face_x := sx, face_y := sy,
              center_x := sx + width face div 2,
              center_y := sy + height face div 2\<rparr>)"

definition smooth_speaker_list :: "face_data list \<Rightarrow> face_data list" where
  "smooth_speaker_list speaker_face_list =
     map (\<lambda>i. if i = 0 \<or> i = length speaker_face_list - 1 then speaker_face_list ! i
              else smoothed_face (speaker_face_list ! (i - 1)) (speaker_face_list ! i)
                     (speaker_face_list ! (i + 1)))
       [0..<length speaker_face_list]"

definition group_by_speaker :: "face_data list \<Rightarrow> (string, face_data list) odict" where
  "group_by_speaker faces = od_group speakerId [] (\<lambda>face l. l @ [face]) faces"

definition smooth_face_tracking :: "face_data list \<Rightarrow> face_data list" where
  "smooth_face_tracking faces =
     (if faces = [] then faces
      else
        let speaker_faces = group_by_speaker faces;
            smoothed_faces =
              concat (map (\<lambda>(speaker_id, speaker_face_list).
                        smooth_speaker_list (py_sort_key timestamp speaker_face_list))
                      speaker_faces)
        in py_sort_key timestamp smoothed_faces)"

text \<open>The reference window filter and the floor mean.\<close>

fun interior3 :: "face_data list \<Rightarrow> face_data list" where
  "interior3 (p # c # n # rest) = smoothed_face p c n # interior3 (c # n # rest)"
| "interior3 _ = []"

definition smooth_window :: "face_data list \<Rightarrow> face_data list" where
  "smooth_window l = (if length l \<le> 2 then l else hd l # interior3 l @ [last l])"

definition mean3 :: "int \<Rightarrow> int \<Rightarrow> int \<Rightarrow> int" where
  "mean3 p c n = (p + c + n) div 3"

text \<open>What the function does to one speaker: sort the speaker's detections, smooth them.\<close>

definition smooth_group :: "string \<Rightarrow> face_data list \<Rightarrow> face_data list" where
  "smooth_group k faces = smooth_speaker_list (py_sort_key timestamp (faces_of k faces))"

section \<open>The smoothed coordinate\<close>

lemma smooth_coord_nonneg: "0 \<le> p + c + n \<Longrightarrow> smooth_coord p c n = mean3 p c n"
  using py_int_div_nonneg [of "p + c + n" 3] by (simp add: smooth_coord_def mean3_def)

lemma smooth_coord_neg: "p + c + n < 0 \<Longrightarrow> smooth_coord p c n = - ((- (p + c + n)) div 3)"
  using py_int_div_neg [of "p + c + n" 3] by (simp add: smooth_coord_def)

lemma smooth_coord_bounds:
  "min p (min c n) \<le> smooth_coord p c n \<and> smooth_coord p c n \<le> max p (max c n)"
proof (cases "0 \<le> p + c + n")
  case True
  then show ?thesis by (simp add: smooth_coord_nonneg mean3_def) linarith
next
  case False
  then show ?thesis by (simp add: smooth_coord_neg) linarith
qed

section \<open>One smoothed detection\<close>

lemma smoothed_face_sel [simp]:
  "timestamp (smoothed_face p c n) = timestamp c"
  "width (smoothed_face p c n) = width c"
  "height (smoothed_face p c n) = height c"
  "confidence (smoothed_face p c n) = confidence c"
  "speakerId (smoothed_face p c n) = speakerId c"
  "face_x (smoothed_face p c n) = smooth_coord (face_x p) (face_x c) (face_x n)"
  "face_y (smoothed_face p c n) = smooth_coord (face_y p) (face_y c) (face_y n)"
  "center_x (smoothed_face p c n) = smooth_coord (face_x p) (face_x c) (face_x n) + width c div 2"
  "center_y (smoothed_face p c n) = smooth_coord (face_y p) (face_y c) (face_y n) + height c div 2"
  by (simp_all add: smoothed_face_def Let_def)

lemma face_static_smoothed [simp]: "face_static (smoothed_face p c n) = face_static c"
  by (simp add: face_static_def)

lemma face_centered_smoothed [simp]: "face_centered (smoothed_face p c n)"
  by (simp add: face_centered_def)

section \<open>One speaker's list\<close>

lemma length_smooth_speaker_list [simp]: "length (smooth_speaker_list l) = length l"
  by (simp add: smooth_speaker_list_def)

lemma smooth_speaker_list_nth:
  "i < length l \<Longrightarrow> smooth_speaker_list l ! i =
     (if i = 0 \<or> i = length l - 1 then l ! i
      else smoothed_face (l ! (i - 1)) (l ! i) (l ! (i + 1)))"
  by (simp add: smooth_speaker_list_def)

lemma map_face_static_smooth [simp]:
  "map face_static (smooth_speaker_list l) = map face_static l"
  by (rule nth_equalityI) (simp_all add: smooth_speaker_list_nth)

lemma face_static_eq_imp:
  "map face_static xs = map face_static ys \<Longrightarrow>
     map timestamp xs = map timestamp ys \<and> map speakerId xs = map speakerId ys"
proof -
  assume eq: "map face_static xs = map face_static ys"
  have "map timestamp zs = map fst (map face_static zs)"
    "map speakerId zs = map (\<lambda>t. snd (snd (snd (snd t)))) (map face_static zs)" for zs
    by (simp_all add: face_static_def comp_def)
  with eq show ?thesis by metis
qed

lemma map_timestamp_smooth [simp]: "map timestamp (smooth_speaker_list l) = map timestamp l"
  using face_static_eq_imp [OF map_face_static_smooth] by blast

lemma map_speakerId_smooth [simp]: "map speakerId (smooth_speaker_list l) = map speakerId l"
  using face_static_eq_imp [OF map_face_static_smooth] by blast

lemma smooth_speaker_list_short: "length l \<le> 2 \<Longrightarrow> smooth_speaker_list l = l"
  by (rule nth_equalityI) (auto simp: smooth_speaker_list_nth)

lemma interior3_nth:
  "length (interior3 l) = length l - 2 \<and>
   (\<forall>i < length l - 2. interior3 l ! i = smoothed_face (l ! i) (l ! Suc i) (l ! Suc (Suc i)))"
proof (induction l rule: interior3.induct)
  case (1 p c n rest)
  then show ?case by (auto simp: nth_Cons split: nat.splits)
qed simp_all

section \<open>The whole function\<close>

lemma group_by_speaker_eq:
  "group_by_speaker faces =
     map (\<lambda>k. (k, faces_of k faces)) (speakers_of faces)"
  by (simp add: group_by_speaker_def od_group_eq faces_of_def speakers_of_def)

lemma smooth_face_tracking_eq:
  "smooth_face_tracking faces =
     py_sort_key timestamp
       (concat (map (\<lambda>k. smooth_group k faces) (speakers_of faces)))"
  by (simp add: smooth_face_tracking_def group_by_speaker_eq Let_def comp_def smooth_group_def)

lemma image_mset_static_smooth_group:
  "image_mset face_static (mset (smooth_group k faces)) =
   image_mset face_static (mset (faces_of k faces))"
proof -
  have "mset (map face_static (smooth_group k faces)) =
      mset (map face_static (py_sort_key timestamp (faces_of k faces)))"
    by (simp only: smooth_group_def map_face_static_smooth)
  then show ?thesis by simp
qed

lemma speakerId_smooth_group: "f \<in> set (smooth_group k faces) \<Longrightarrow> speakerId f = k"
proof -
  assume "f \<in> set (smooth_group k faces)"
  then have "speakerId f \<in> set (map speakerId (smooth_group k faces))" by simp
  then have "speakerId f \<in> speakerId ` set (faces_of k faces)" by (simp add: smooth_group_def)
  then show ?thesis by (auto dest: speakerId_faces_of)
qed

lemma sorted_smooth_group [simp]: "sorted (map timestamp (smooth_group k faces))"
  by (simp add: smooth_group_def)

lemma length_smooth_group [simp]: "length (smooth_group k faces) = length (faces_of k faces)"
  by (simp add: smooth_group_def)

lemma smooth_group_unknown: "k \<notin> speakerId ` set faces \<Longrightarrow> smooth_group k faces = []"
  by (simp add: smooth_group_def faces_of_def filter_eq_Nil_notin smooth_speaker_list_def)

lemma mset_static_groups:
  "mset (map face_static (concat (map (\<lambda>k. smooth_group k faces) ks))) =
   mset (map face_static (concat (map (\<lambda>k. faces_of k faces) ks)))"
  by (induction ks) (simp_all add: image_mset_static_smooth_group)

lemma mset_face_static_smooth:
  "mset (map face_static (smooth_face_tracking faces)) = mset (map face_static faces)"
proof -
  have "mset (map face_static (smooth_face_tracking faces)) =
      image_mset face_static (mset (concat (map (\<lambda>k. faces_of k faces)
        (speakers_of faces))))"
    using mset_static_groups [of faces "speakers_of faces"]
    by (simp add: smooth_face_tracking_eq)
  also have "\<dots> = image_mset face_static (mset faces)"
    by (simp only: mset_faces_partition)
  finally show ?thesis by simp
qed

lemma smooth_preserves_static:
  "mset (map (\<lambda>f. h (face_static f)) (smooth_face_tracking fs)) =
     mset (map (\<lambda>f. h (face_static f)) fs)"
  using arg_cong [OF mset_face_static_smooth, of "image_mset h" fs]
  by (simp add: image_mset.compositionality comp_def)

lemma mset_confidence_smooth:
  "mset (map confidence (smooth_face_tracking fs)) = mset (map confidence fs)"
  using smooth_preserves_static [of "\<lambda>s. fst (snd (snd (snd s)))" fs]
  by (simp add: face_static_def)

lemma mset_speakerId_smooth:
  "mset (map speakerId (smooth_face_tracking fs)) = mset (map speakerId fs)"
  using smooth_preserves_static [of "\<lambda>s. snd (snd (snd (snd s)))" fs]
  by (simp add: face_static_def)

lemma mset_timestamp_smooth:
  "mset (map timestamp (smooth_face_tracking fs)) = mset (map timestamp fs)"
  using smooth_preserves_static [of fst fs]
  by (simp add: face_static_def)

lemma length_smooth_face_tracking [simp]: "length (smooth_face_tracking faces) = length faces"
  using arg_cong [OF mset_face_static_smooth, of size faces] by simp

lemma sorted_smooth_face_tracking [simp]:
  "sorted (map timestamp (smooth_face_tracking faces))"
  by (simp add: smooth_face_tracking_eq)

lemma faces_of_smooth_face_tracking:
  "faces_of k (smooth_face_tracking faces) = smooth_group k faces"
proof -
  let ?ks = "speakers_of faces"
  have sel: "filter (\<lambda>f. speakerId f = k) (smooth_group k' faces) =
      (if k' = k then smooth_group k' faces else [])" for k'
    by (auto simp: filter_empty_conv dest: speakerId_smooth_group intro: filter_True)
  have "faces_of k (smooth_face_tracking faces) =
      py_sort_key timestamp (concat (map (\<lambda>k'. if k' = k then smooth_group k' faces else []) ?ks))"
    by (simp add: faces_of_def smooth_face_tracking_eq filter_py_sort_key filter_concat
        comp_def sel)
  also have "\<dots> = py_sort_key timestamp (if k \<in> set ?ks then smooth_group k faces else [])"
    by (simp add: concat_map_single)
  also have "\<dots> = smooth_group k faces"
    by (auto simp: py_sort_key_sorted_id smooth_group_unknown)
  finally show ?thesis .
qed

lemma face_centered_smooth_speaker_list:
  "list_all face_centered l \<Longrightarrow> list_all face_centered (smooth_speaker_list l)"
  by (auto simp: list_all_length smooth_speaker_list_nth)

lemma face_centered_smooth_face_tracking:
  assumes "list_all face_centered faces"
  shows "list_all face_centered (smooth_face_tracking faces)"
proof -
  have "list_all face_centered (smooth_group k faces)" for k
    unfolding smooth_group_def using assms
    by (intro face_centered_smooth_speaker_list) (simp add: list_all_iff faces_of_def)
  then show ?thesis
    by (simp add: smooth_face_tracking_eq list_all_iff)
qed

section \<open>Properties of the smoother\<close>

text \<open>
  C17 (functional). What \<^verbatim>\<open>smooth_face_tracking\<close> returns for one speaker: the
  detections of speaker \<open>k\<close> in the output, in output order, are the detections of \<open>k\<close>
  in the input, sorted by timestamp (stably) and passed through the loop over the
  speaker's list. Grouping, the order of the groups and the final sort do not mix
  speakers or reorder one speaker's detections.
\<close>

theorem smooth_face_tracking_per_speaker:
  "faces_of k (smooth_face_tracking faces) =
     smooth_speaker_list (py_sort_key timestamp (faces_of k faces))"
  by (simp add: faces_of_smooth_face_tracking smooth_group_def)

text \<open>
  C3 (equivalence). The loop over the indices of one speaker's list is the three-point
  window filter: lists of at most two detections are returned as they are; otherwise
  the first and the last detection pass through and every interior one is replaced by
  \<open>smoothed_face\<close> of its unsmoothed predecessor, itself and its successor.
\<close>

theorem smooth_speaker_list_window: "smooth_speaker_list l = smooth_window l"
proof (cases "length l \<le> 2")
  case True
  then show ?thesis by (simp add: smooth_window_def smooth_speaker_list_short)
next
  case False
  then have ne: "l \<noteq> []" by auto
  show ?thesis
  proof (rule nth_equalityI)
    show "length (smooth_speaker_list l) = length (smooth_window l)"
      using False by (simp add: smooth_window_def interior3_nth)
  next
    fix i assume "i < length (smooth_speaker_list l)"
    then have i: "i < length l" by simp
    consider "i = 0" | "i = length l - 1" | "0 < i" "i < length l - 1" using i by linarith
    then show "smooth_speaker_list l ! i = smooth_window l ! i"
    proof cases
      case 1
      with False ne show ?thesis
        by (simp add: smooth_window_def smooth_speaker_list_nth hd_conv_nth)
    next
      case 2
      with False ne show ?thesis
        by (simp add: smooth_window_def smooth_speaker_list_nth nth_append interior3_nth
            last_conv_nth nth_Cons split: nat.splits)
    next
      case 3
      then obtain j where j: "i = Suc j" "j < length l - 2" by (cases i) auto
      with False 3 show ?thesis
        by (simp add: smooth_window_def smooth_speaker_list_nth nth_append interior3_nth)
    qed
  qed
qed

text \<open>
  C31 (invariant). Smoothing changes positions only: timestamp, width, height,
  confidence and speaker of the detections are the same multiset before and after, the
  number of detections is the same, and the output is in ascending order of timestamp.
\<close>

theorem smooth_face_tracking_static:
  "mset (map face_static (smooth_face_tracking faces)) = mset (map face_static faces) \<and>
   length (smooth_face_tracking faces) = length faces \<and>
   sorted (map timestamp (smooth_face_tracking faces))"
  by (simp add: mset_face_static_smooth del: mset_map)

text \<open>
  A smoothed position does not overshoot: each coordinate of a smoothed
  detection lies between the least and the greatest of the three coordinates it is
  computed from, also when coordinates are negative and \<^verbatim>\<open>int()\<close> truncates towards
  zero.
\<close>

theorem smoothed_face_within_neighbours:
  "min (face_x p) (min (face_x c) (face_x n)) \<le> face_x (smoothed_face p c n) \<and>
   face_x (smoothed_face p c n) \<le> max (face_x p) (max (face_x c) (face_x n)) \<and>
   min (face_y p) (min (face_y c) (face_y n)) \<le> face_y (smoothed_face p c n) \<and>
   face_y (smoothed_face p c n) \<le> max (face_y p) (max (face_y c) (face_y n))"
  using smooth_coord_bounds [of "face_x p" "face_x c" "face_x n"]
    smooth_coord_bounds [of "face_y p" "face_y c" "face_y n"]
  by simp

text \<open>
  C34 (equivalence). \<^verbatim>\<open>int((a + b + c) / 3)\<close> against the floor mean \<^verbatim>\<open>(a + b + c) // 3\<close>:
  the two agree exactly when the sum is not negative or is a multiple of 3. For a
  negative sum that 3 does not divide, the code's value is one above the floor mean.
\<close>

theorem smooth_coord_floor_iff:
  "smooth_coord p c n = mean3 p c n \<longleftrightarrow> 0 \<le> p + c + n \<or> (p + c + n) mod 3 = 0"
proof (cases "0 \<le> p + c + n")
  case True
  then show ?thesis by (simp add: smooth_coord_nonneg)
next
  case False
  then have "smooth_coord p c n = - ((- (p + c + n)) div 3)" by (simp add: smooth_coord_neg)
  with False show ?thesis by (simp add: mean3_def) presburger
qed

text \<open>
  C9 (invariant). Smoothing keeps the centre fields consistent: if in every input
  detection \<^verbatim>\<open>center_x\<close> and \<^verbatim>\<open>center_y\<close> are the ones derived from its box, the same
  holds for every output detection, the smoothed copies included.
\<close>

theorem smooth_face_tracking_centered:
  assumes "list_all face_centered faces"
  shows "list_all face_centered (smooth_face_tracking faces)"
  using assms by (rule face_centered_smooth_face_tracking)

theorem smooth_face_tracking_centered_witness:
  "list_all face_centered [make_face 0 10 5 4 4 50 ''speaker_1''] \<and>
   list_all face_centered (smooth_face_tracking [make_face 0 10 5 4 4 50 ''speaker_1''])"
proof -
  have c: "list_all face_centered [make_face 0 10 5 4 4 50 ''speaker_1'']" by simp
  from smooth_face_tracking_centered [OF c] c show ?thesis by simp
qed

text \<open>
  C40 (functional). When no speaker has more than two detections, smoothing alters no
  detection: the output holds exactly the input detections.
\<close>

theorem smooth_unchanged_small_groups:
  assumes "\<And>k. length (faces_of k faces) \<le> 2"
  shows "mset (smooth_face_tracking faces) = mset faces"
proof -
  have "smooth_group k faces = py_sort_key timestamp (faces_of k faces)" for k
    using assms [of k] by (simp add: smooth_group_def smooth_speaker_list_short)
  then have "mset (smooth_face_tracking faces) =
      mset (concat (map (\<lambda>k. faces_of k faces) (speakers_of faces)))"
    by (simp add: smooth_face_tracking_eq mset_concat comp_def)
  then show ?thesis by (simp only: mset_faces_partition)
qed

theorem smooth_unchanged_small_groups_witness:
  "(\<forall>k. length (faces_of k [make_face 0 10 5 4 4 50 ''speaker_1'',
        make_face 0 90 5 4 4 50 ''speaker_2'']) \<le> 2) \<and>
   mset (smooth_face_tracking [make_face 0 10 5 4 4 50 ''speaker_1'',
        make_face 0 90 5 4 4 50 ''speaker_2'']) =
   mset [make_face 0 10 5 4 4 50 ''speaker_1'', make_face 0 90 5 4 4 50 ''speaker_2'']"
proof -
  have short: "length (faces_of k [make_face 0 10 5 4 4 50 ''speaker_1'',
        make_face 0 90 5 4 4 50 ''speaker_2'']) \<le> 2" for k
    by simp
  from smooth_unchanged_small_groups [OF short] short show ?thesis by blast
qed

text \<open>
  The window on an example: three detections of one speaker at
  \<open>t = 0, 1, 2\<close> with \<open>x = 10, 20, 30\<close> and \<open>y = 5, 9, 6\<close>. The middle detection gets
  \<open>x = 60 // 3 = 20\<close> and \<open>y = int(20 / 3) = 6\<close>, with its centre recomputed; the two
  end points are unchanged.
\<close>

theorem smooth_window_example:
  "smooth_face_tracking
     [make_face 0 10 5 4 4 50 ''speaker_1'', make_face 1 20 9 4 4 50 ''speaker_1'',
      make_face 2 30 6 4 4 50 ''speaker_1''] =
     [make_face 0 10 5 4 4 50 ''speaker_1'', make_face 1 20 6 4 4 50 ''speaker_1'',
      make_face 2 30 6 4 4 50 ''speaker_1'']"
  by (simp add: smooth_face_tracking_def group_by_speaker_def od_group_def Let_def
      smooth_speaker_list_def smoothed_face_def smooth_coord_def make_face_def py_defs
      upt_rec numeral_2_eq_2 numeral_3_eq_3)

end
