(* ===== verification/Summary.thy ===== *)
theory Summary
  imports Py_Float Face_Data
begin

text \<open>
  The speaker aggregator: \<^verbatim>\<open>create_speaker_summary\<close> (\<^verbatim>\<open>src/face_detection.py\<close>, lines
  188-232). The function folds the detections into a \<^verbatim>\<open>defaultdict\<close> of running
  statistics per speaker, turns every entry into a summary and sorts the summaries by
  screen time, longest first.

  \<^item> \<open>speaker_stats\<close> is the dictionary the default factory creates (lines 192-198):
    \<open>avg_confidence_acc\<close> is its key \<^verbatim>\<open>'avg_confidence'\<close>, which holds the running sum,
    \<open>avg_position_acc_x\<close> and \<open>avg_position_acc_y\<close> are the two keys of its nested
    dictionary \<^verbatim>\<open>'avg_position'\<close>, which hold the running sums of the centres;
    \<open>first_appearance\<close> starts at \<^verbatim>\<open>float('inf')\<close> and is a \<open>pyfloat\<close>.
  \<^item> \<open>update_stats\<close> is the body of the first loop (lines 205-210), \<open>collect_stats\<close> the
    loop (lines 201-210).
  \<^item> \<open>speaker_summary\<close> is the dictionary appended per speaker (lines 216-227), with
    \<open>speaker_id\<close> for its key \<^verbatim>\<open>'id'\<close>; \<open>finalize_speaker\<close> is the body of the second
    loop with its guard.
  \<^item> \<open>create_speaker_summary\<close> is the whole function; its second parameter is not used
    by the code.

  \<open>summary_of\<close> is the specification of one summary: counts, means, least and greatest
  timestamp of a speaker's detections, in closed form.
\<close>

section \<open>Definitions\<close>

record speaker_stats =
  total_appearances :: nat
  avg_confidence_acc :: real
  first_appearance :: pyfloat
  last_appearance :: real
  avg_position_acc_x :: int
  avg_position_acc_y :: int

record speaker_summary =
  speaker_id :: string
  appearances :: nat
  avg_confidence :: real
  first_seen :: pyfloat
  last_seen :: real
  screen_time :: pyfloat
  avg_position_x :: real
  avg_position_y :: real

definition default_stats :: speaker_stats where
  "default_stats =
     \<lparr>total_appearances = 0, avg_confidence_acc = 0, first_appearance = PosInf,
      last_appearance = 0, avg_position_acc_x = 0, avg_position_acc_y = 0\<rparr>"

definition update_stats :: "face_data \<Rightarrow> speaker_stats \<Rightarrow> speaker_stats" where
  "update_stats face stats =
     stats\<lparr>total_appearances := total_appearances stats + 1,
           avg_confidence_acc := avg_confidence_acc stats + confidence face,
           first_appearance := min (first_appearance stats) (Fin (timestamp face)),
           last_appearance := max (last_appearance stats) (timestamp face),
           avg_position_acc_x := avg_position_acc_x stats + center_x face,
           avg_position_acc_y := avg_position_acc_y stats + center_y face\<rparr>"

definition collect_stats :: "face_data list \<Rightarrow> (string, speaker_stats) odict" where
  "collect_stats faces = od_group speakerId default_stats update_stats faces"

definition finalize_speaker :: "string \<times> speaker_stats \<Rightarrow> speaker_summary list" where
  "finalize_speaker entry =
     (case entry of (sid, stats) \<Rightarrow>
        if total_appearances stats > 0 then
          [\<lparr>speaker_id = sid,
            appearances = total_appearances stats,
            avg_confidence = avg_confidence_acc stats / real (total_appearances stats),
            first_seen = first_appearance stats,
            last_seen = last_appearance stats,
            screen_time = pyfloat_sub (last_appearance stats) (first_appearance stats),
            avg_position_x = real_of_int (avg_position_acc_x stats) / real (total_appearances stats),
            avg_position_y = real_of_int (avg_position_acc_y stats) / real (total_appearances stats)\<rparr>]
        else [])"

definition create_speaker_summary :: "face_data list \<Rightarrow> string list \<Rightarrow> speaker_summary list" where
  "create_speaker_summary faces known_names =
     py_sort_key_rev screen_time (concat (map finalize_speaker (collect_stats faces)))"

text \<open>The statistics of a list of detections of one speaker, and its summary.\<close>

definition stats_of :: "face_data list \<Rightarrow> speaker_stats" where
  "stats_of fs = foldl (\<lambda>stats face. update_stats face stats) default_stats fs"

definition summary_of :: "string \<Rightarrow> face_data list \<Rightarrow> speaker_summary" where
  "summary_of sid fs =
     \<lparr>speaker_id = sid,
      appearances = length fs,
      avg_confidence = sum_list (map confidence fs) / real (length fs),
      first_seen = Fin (Min (timestamp ` set fs)),
      last_seen = max 0 (Max (timestamp ` set fs)),
      screen_time = Fin (max 0 (Max (timestamp ` set fs)) - Min (timestamp ` set fs)),
      avg_position_x = real_of_int (sum_list (map center_x fs)) / real (length fs),
      avg_position_y = real_of_int (sum_list (map center_y fs)) / real (length fs)\<rparr>"

section \<open>Running statistics\<close>

lemma stats_of_Nil [simp]: "stats_of [] = default_stats"
  by (simp add: stats_of_def)

lemma stats_of_snoc [simp]: "stats_of (fs @ [f]) = update_stats f (stats_of fs)"
  by (simp add: stats_of_def)

lemma stats_of_single [simp]: "stats_of [f] = update_stats f default_stats"
  by (simp add: stats_of_def)

lemma update_stats_sel [simp]:
  "total_appearances (update_stats f s) = Suc (total_appearances s)"
  "avg_confidence_acc (update_stats f s) = avg_confidence_acc s + confidence f"
  "first_appearance (update_stats f s) = min (first_appearance s) (Fin (timestamp f))"
  "last_appearance (update_stats f s) = max (last_appearance s) (timestamp f)"
  "avg_position_acc_x (update_stats f s) = avg_position_acc_x s + center_x f"
  "avg_position_acc_y (update_stats f s) = avg_position_acc_y s + center_y f"
  by (simp_all add: update_stats_def)

lemma default_stats_sel [simp]:
  "total_appearances default_stats = 0"
  "avg_confidence_acc default_stats = 0"
  "first_appearance default_stats = PosInf"
  "last_appearance default_stats = 0"
  "avg_position_acc_x default_stats = 0"
  "avg_position_acc_y default_stats = 0"
  by (simp_all add: default_stats_def)

lemma total_appearances_stats_of [simp]: "total_appearances (stats_of fs) = length fs"
  by (induction fs rule: rev_induct) simp_all

lemma avg_confidence_acc_stats_of [simp]:
  "avg_confidence_acc (stats_of fs) = sum_list (map confidence fs)"
  by (induction fs rule: rev_induct) simp_all

lemma avg_position_acc_stats_of [simp]:
  "avg_position_acc_x (stats_of fs) = sum_list (map center_x fs)"
  "avg_position_acc_y (stats_of fs) = sum_list (map center_y fs)"
  by (induction fs rule: rev_induct) simp_all

lemma first_appearance_stats_of:
  "first_appearance (stats_of fs) = (if fs = [] then PosInf else Fin (Min (timestamp ` set fs)))"
proof (induction fs rule: rev_induct)
  case (snoc f fs)
  then show ?case by (cases "fs = []") (simp_all add: min.commute)
qed simp

lemma last_appearance_stats_of:
  "last_appearance (stats_of fs) = (if fs = [] then 0 else max 0 (Max (timestamp ` set fs)))"
proof (induction fs rule: rev_induct)
  case (snoc f fs)
  then show ?case by (cases "fs = []") (simp_all add: max.commute max.left_commute)
qed simp

section \<open>The loops in closed form\<close>

lemma collect_stats_eq:
  "collect_stats faces = map (\<lambda>k. (k, stats_of (faces_of k faces))) (speakers_of faces)"
  by (simp add: collect_stats_def od_group_eq stats_of_def faces_of_def speakers_of_def)

lemma finalize_stats_of:
  "finalize_speaker (k, stats_of fs) = (if fs = [] then [] else [summary_of k fs])"
  by (simp add: finalize_speaker_def summary_of_def first_appearance_stats_of
      last_appearance_stats_of)

lemma unsorted_summaries:
  "concat (map finalize_speaker (collect_stats faces)) =
     map (\<lambda>k. summary_of k (faces_of k faces)) (speakers_of faces)"
proof -
  have "concat (map (\<lambda>k. finalize_speaker (k, stats_of (faces_of k faces))) ks) =
      map (\<lambda>k. summary_of k (faces_of k faces)) ks" if "set ks \<subseteq> set (speakers_of faces)" for ks
    using that by (induction ks) (simp_all add: finalize_stats_of faces_of_eq_Nil_iff)
  then show ?thesis by (simp add: collect_stats_eq comp_def)
qed

lemma create_speaker_summary_eq:
  "create_speaker_summary faces names =
     py_sort_key_rev screen_time (map (\<lambda>k. summary_of k (faces_of k faces)) (speakers_of faces))"
  by (simp add: create_speaker_summary_def unsorted_summaries)

lemma summary_of_sel [simp]:
  "speaker_id (summary_of k fs) = k"
  "appearances (summary_of k fs) = length fs"
  "avg_confidence (summary_of k fs) = sum_list (map confidence fs) / real (length fs)"
  "first_seen (summary_of k fs) = Fin (Min (timestamp ` set fs))"
  "last_seen (summary_of k fs) = max 0 (Max (timestamp ` set fs))"
  "screen_time (summary_of k fs) = Fin (max 0 (Max (timestamp ` set fs)) - Min (timestamp ` set fs))"
  by (simp_all add: summary_of_def)

section \<open>Who is listed\<close>

lemma mset_speaker_ids:
  "mset (map speaker_id (create_speaker_summary faces names)) = mset (speakers_of faces)"
proof -
  have "mset (map speaker_id (create_speaker_summary faces names)) =
      image_mset speaker_id (mset (map (\<lambda>k. summary_of k (faces_of k faces)) (speakers_of faces)))"
    by (simp add: create_speaker_summary_eq)
  then show ?thesis by (simp add: image_mset.compositionality comp_def)
qed

lemma distinct_speaker_ids: "distinct (map speaker_id (create_speaker_summary faces names))"
  using mset_speaker_ids [of faces names] distinct_speakers_of [of faces]
  by (metis mset_eq_imp_distinct_iff)

lemma set_speaker_ids:
  "set (map speaker_id (create_speaker_summary faces names)) = speakerId ` set faces"
  using mset_speaker_ids [of faces names] by (metis mset_eq_setD set_speakers_of)

lemma sum_appearances:
  "sum_list (map appearances (create_speaker_summary faces names)) = length faces"
proof -
  have "mset (map appearances (create_speaker_summary faces names)) =
      image_mset appearances (mset (map (\<lambda>k. summary_of k (faces_of k faces)) (speakers_of faces)))"
    by (simp add: create_speaker_summary_eq)
  also have "\<dots> = mset (map (\<lambda>k. length (faces_of k faces)) (speakers_of faces))"
    by (simp add: image_mset.compositionality comp_def)
  finally have "sum_list (map appearances (create_speaker_summary faces names)) =
      sum_list (map (\<lambda>k. length (faces_of k faces)) (speakers_of faces))"
    by (metis sum_mset_sum_list)
  also have "\<dots> = length (concat (map (\<lambda>k. faces_of k faces) (speakers_of faces)))"
    by (simp add: length_concat comp_def)
  also have "\<dots> = length faces"
    using arg_cong [OF mset_faces_partition, of size faces] by simp
  finally show ?thesis .
qed

lemma set_create_speaker_summary:
  "set (create_speaker_summary faces names) =
     (\<lambda>k. summary_of k (faces_of k faces)) ` speakerId ` set faces"
  by (simp add: create_speaker_summary_eq)

section \<open>Means\<close>

lemma sum_list_bounds:
  fixes g :: "'a \<Rightarrow> real"
  assumes "\<forall>x \<in> set xs. lo \<le> g x \<and> g x \<le> hi"
  shows "lo * real (length xs) \<le> sum_list (map g xs) \<and> sum_list (map g xs) \<le> hi * real (length xs)"
  using assms by (induction xs) (auto simp: algebra_simps intro: add_mono)

lemma mean_bounds:
  fixes g :: "'a \<Rightarrow> real"
  assumes "xs \<noteq> []" "\<forall>x \<in> set xs. lo \<le> g x \<and> g x \<le> hi"
  shows "lo \<le> sum_list (map g xs) / real (length xs) \<and>
         sum_list (map g xs) / real (length xs) \<le> hi"
  using sum_list_bounds [OF assms(2)] assms(1)
  by (simp add: field_simps)

section \<open>Properties of the aggregator\<close>

text \<open>
  C4 (functional). \<^verbatim>\<open>create_speaker_summary\<close> lists exactly one summary per speaker that
  occurs in the detections, and it is the closed-form summary of that speaker's
  detections: their number, the mean of their confidences, their least timestamp, the
  greater of 0 and their greatest timestamp, the difference of the two, and the means of
  their centre coordinates.
\<close>

theorem summary_entries:
  "s \<in> set (create_speaker_summary faces names) \<longleftrightarrow>
     (\<exists>k \<in> speakerId ` set faces. s = summary_of k (faces_of k faces))"
  by (auto simp: set_create_speaker_summary)

text \<open>
  C18 (functional). The summaries are ranked by screen time, longest first, and the sort
  is stable: the speakers that share a screen time \<open>t\<close> are listed in the order in which
  they first occur in the detections.
\<close>

theorem summary_ranking:
  "sorted (rev (map screen_time (create_speaker_summary faces names))) \<and>
   map speaker_id (filter (\<lambda>s. screen_time s = t) (create_speaker_summary faces names)) =
     filter (\<lambda>k. screen_time (summary_of k (faces_of k faces)) = t) (speakers_of faces)"
  by (simp add: create_speaker_summary_def py_sort_key_rev_stable unsorted_summaries
      filter_map comp_def)

text \<open>
  C32 (invariant). Every detection is counted once: the listed speaker identifiers are
  distinct, they are the speakers of the detections, and their appearance counts add
  up to the number of detections.
\<close>

theorem summary_accounts_for_all_faces:
  "distinct (map speaker_id (create_speaker_summary faces names)) \<and>
   set (map speaker_id (create_speaker_summary faces names)) = speakerId ` set faces \<and>
   sum_list (map appearances (create_speaker_summary faces names)) = length faces"
  using distinct_speaker_ids set_speaker_ids sum_appearances by blast

text \<open>
  C33 (bounds). When no timestamp is negative and every confidence lies in [0, 100],
  every listed summary has at least one appearance, a finite first-seen time that is
  not after the last-seen time, a screen time that is not negative, and a mean
  confidence in [0, 100]. The infinite start value of \<^verbatim>\<open>first_appearance\<close> never
  reaches the output.
\<close>

theorem summary_bounds:
  assumes "\<forall>f \<in> set faces. 0 \<le> timestamp f \<and> 0 \<le> confidence f \<and> confidence f \<le> 100"
    and "s \<in> set (create_speaker_summary faces names)"
  shows "0 < appearances s \<and> is_finite (first_seen s) \<and> first_seen s \<le> Fin (last_seen s) \<and>
         Fin 0 \<le> screen_time s \<and> 0 \<le> avg_confidence s \<and> avg_confidence s \<le> 100"
proof -
  from assms(2) obtain k where k: "k \<in> speakerId ` set faces"
    and s: "s = summary_of k (faces_of k faces)"
    by (auto simp: set_create_speaker_summary)
  let ?fs = "faces_of k faces"
  from k have ne: "?fs \<noteq> []" by (simp add: faces_of_eq_Nil_iff)
  have sub: "f \<in> set ?fs \<Longrightarrow> f \<in> set faces" for f by (simp add: faces_of_def)
  from ne obtain f where f: "f \<in> set ?fs" by (cases ?fs) auto
  then have "Min (timestamp ` set ?fs) \<le> timestamp f" "timestamp f \<le> Max (timestamp ` set ?fs)"
    by simp_all
  then have "Min (timestamp ` set ?fs) \<le> max 0 (Max (timestamp ` set ?fs))" by linarith
  moreover from assms(1) ne sub have "0 \<le> sum_list (map confidence ?fs) / real (length ?fs) \<and>
      sum_list (map confidence ?fs) / real (length ?fs) \<le> 100"
    by (intro mean_bounds) auto
  ultimately show ?thesis using ne s by simp
qed

theorem summary_bounds_witness:
  "list_all (\<lambda>f. 0 \<le> timestamp f \<and> 0 \<le> confidence f \<and> confidence f \<le> 100)
     [make_face 1 0 0 2 2 70 ''speaker_1''] \<and>
   summary_of ''speaker_1'' [make_face 1 0 0 2 2 70 ''speaker_1''] \<in>
     set (create_speaker_summary [make_face 1 0 0 2 2 70 ''speaker_1''] []) \<and>
   is_finite (first_seen (summary_of ''speaker_1'' [make_face 1 0 0 2 2 70 ''speaker_1''])) \<and>
   Fin 0 \<le> screen_time (summary_of ''speaker_1'' [make_face 1 0 0 2 2 70 ''speaker_1'']) \<and>
   avg_confidence (summary_of ''speaker_1'' [make_face 1 0 0 2 2 70 ''speaker_1'']) \<le> 100"
proof -
  let ?faces = "[make_face 1 0 0 2 2 70 ''speaker_1'']"
  have pre: "\<forall>f \<in> set ?faces. 0 \<le> timestamp f \<and> 0 \<le> confidence f \<and> confidence f \<le> 100"
    by simp
  have mem: "summary_of ''speaker_1'' ?faces \<in> set (create_speaker_summary ?faces [])"
    by (simp add: set_create_speaker_summary)
  from summary_bounds [OF pre mem] pre mem show ?thesis by (simp only: list_all_iff)
qed

text \<open>
  Ranking on an example: speaker 1 is seen at 0 s and 2 s, speaker 2
  at 1 s and 6 s. Speaker 2, with a screen time of 5 s, is listed before speaker 1 with
  2 s, although speaker 1 occurs first.
\<close>

theorem summary_ranking_example:
  "create_speaker_summary
     [make_face 0 0 0 2 2 50 ''speaker_1'', make_face 1 0 0 2 2 70 ''speaker_2'',
      make_face 2 0 0 2 2 50 ''speaker_1'', make_face 6 0 0 2 2 90 ''speaker_2''] names =
   [\<lparr>speaker_id = ''speaker_2'', appearances = 2, avg_confidence = 80, first_seen = Fin 1,
      last_seen = 6, screen_time = Fin 5, avg_position_x = 1, avg_position_y = 1\<rparr>,
    \<lparr>speaker_id = ''speaker_1'', appearances = 2, avg_confidence = 50, first_seen = Fin 0,
      last_seen = 2, screen_time = Fin 2, avg_position_x = 1, avg_position_y = 1\<rparr>]"
  by (simp add: create_speaker_summary_def collect_stats_def od_group_def finalize_speaker_def
      update_stats_def default_stats_def py_sort_key_rev_def)

end
