(* ===== verification/Confidence.thy ===== *)
theory Confidence
  imports Py_Prelude
begin

text \<open>
  The confidence scorer: \<^verbatim>\<open>calculate_face_confidence\<close> (\<^verbatim>\<open>src/face_detection.py\<close>, lines
  166-186). \<open>confidence_raw\<close> is the score before clamping (lines 170-185) and
  \<open>calculate_face_confidence\<close> clamps it to [0, 100] (line 186). The frame shape is the
  pair (height, width) that \<^verbatim>\<open>frame_shape[:2]\<close> gives. \<open>np.sqrt\<close> is the real square
  root, and the float arithmetic is real arithmetic.

  A frame with a zero dimension is outside the model: numpy returns an infinity or NaN
  for the divisions there, HOL returns 0. The lemmas that depend on the divisions carry
  the hypothesis that both dimensions are positive, which holds for every frame a video
  decoder returns.

  \<open>box_inside\<close> says that a box is not empty and lies within the frame.
\<close>

section \<open>Definitions\<close>

definition size_factor :: "int \<Rightarrow> int \<Rightarrow> int \<times> int \<Rightarrow> real" where
  "size_factor w h frame_shape =
     (case frame_shape of (frame_height, frame_width) \<Rightarrow>
        real_of_int (w * h) / real_of_int (frame_width * frame_height))"

definition distance_from_center :: "int \<Rightarrow> int \<Rightarrow> int \<Rightarrow> int \<Rightarrow> int \<times> int \<Rightarrow> real" where
  "distance_from_center x y w h frame_shape =
     (case frame_shape of (frame_height, frame_width) \<Rightarrow>
        let center_x = x + w div 2;
            center_y = y + h div 2
        in sqrt ((real_of_int (center_x - frame_width div 2) / real_of_int frame_width)\<^sup>2 +
                 (real_of_int (center_y - frame_height div 2) / real_of_int frame_height)\<^sup>2))"

definition confidence_raw :: "int \<Rightarrow> int \<Rightarrow> int \<Rightarrow> int \<Rightarrow> int \<times> int \<Rightarrow> real" where
  "confidence_raw x y w h frame_shape =
     (let position_factor = 1 - distance_from_center x y w h frame_shape
      in (size_factor w h frame_shape * (7 / 10) + position_factor * (3 / 10)) * 100)"

definition calculate_face_confidence :: "int \<Rightarrow> int \<Rightarrow> int \<Rightarrow> int \<Rightarrow> int \<times> int \<Rightarrow> real" where
  "calculate_face_confidence x y w h frame_shape =
     min 100 (max 0 (confidence_raw x y w h frame_shape))"

definition box_inside :: "int \<Rightarrow> int \<Rightarrow> int \<Rightarrow> int \<Rightarrow> int \<times> int \<Rightarrow> bool" where
  "box_inside x y w h frame_shape =
     (case frame_shape of (frame_height, frame_width) \<Rightarrow>
        0 \<le> x \<and> 0 \<le> y \<and> 1 \<le> w \<and> 1 \<le> h \<and> x + w \<le> frame_width \<and> y + h \<le> frame_height)"

section \<open>The range of the score\<close>


lemma calculate_face_confidence_ge_0 [simp]: "0 \<le> calculate_face_confidence x y w h shape"
  by (simp add: calculate_face_confidence_def)

lemma calculate_face_confidence_le_100 [simp]: "calculate_face_confidence x y w h shape \<le> 100"
  by (simp add: calculate_face_confidence_def)

text \<open>
  C8 (bounds). Whatever the box and the frame shape, the score that
  \<^verbatim>\<open>calculate_face_confidence\<close> returns lies in the closed interval from 0 to 100.
\<close>

theorem confidence_in_range:
  "0 \<le> calculate_face_confidence x y w h shape \<and> calculate_face_confidence x y w h shape \<le> 100"
  by simp

lemma size_factor_full [simp]: "0 < W \<Longrightarrow> 0 < H \<Longrightarrow> size_factor W H (H, W) = 1"
  by (simp add: size_factor_def)

lemma distance_from_center_full [simp]: "distance_from_center 0 0 W H (H, W) = 0"
  by (simp add: distance_from_center_def)

text \<open>
  C39 (functional). A box that covers the whole frame (origin 0, 0 and the frame's width
  and height) has size factor 1 and distance 0 from the centre, so its score is exactly 100.
\<close>

theorem full_frame_confidence:
  "0 < W \<Longrightarrow> 0 < H \<Longrightarrow> calculate_face_confidence 0 0 W H (H, W) = 100"
  by (simp add: calculate_face_confidence_def confidence_raw_def)

lemma distance_nonneg: "0 \<le> distance_from_center x y w h shape"
  by (cases shape) (simp add: distance_from_center_def Let_def)

lemma size_factor_nonneg: "0 \<le> w \<Longrightarrow> 0 \<le> h \<Longrightarrow> 0 \<le> W \<Longrightarrow> 0 \<le> H \<Longrightarrow> 0 \<le> size_factor w h (H, W)"
  by (simp add: size_factor_def)

lemma size_factor_le_1:
  assumes "box_inside x y w h (H, W)"
  shows "0 < size_factor w h (H, W) \<and> size_factor w h (H, W) \<le> 1"
proof -
  from assms have b: "1 \<le> w" "1 \<le> h" "w \<le> W" "h \<le> H" by (auto simp: box_inside_def)
  then have "w * h \<le> W * H" by (intro mult_mono) auto
  moreover from b have "0 < w * h" "0 < W * H" by (auto intro: mult_pos_pos)
  ultimately show ?thesis
    by (simp add: size_factor_def del: of_int_mult)
qed

lemma offset_half:
  assumes "0 \<le> x" "1 \<le> w" "x + w \<le> W"
  shows "\<bar>real_of_int (x + w div 2 - W div 2) / real_of_int W\<bar> \<le> 1 / 2"
proof -
  from assms have W: "0 < W" by linarith
  from assms have "2 * (x + w div 2 - W div 2) \<le> W" by presburger
  moreover from assms have "- W \<le> 2 * (x + w div 2 - W div 2)" by presburger
  ultimately have "2 * \<bar>x + w div 2 - W div 2\<bar> \<le> W" by linarith
  then have "2 * \<bar>real_of_int (x + w div 2 - W div 2)\<bar> \<le> real_of_int W"
    by (metis of_int_abs of_int_le_iff of_int_mult of_int_numeral)
  with W show ?thesis by (simp add: field_simps)
qed

lemma sqrt_sum_squares_half:
  fixes a b :: real
  assumes "\<bar>a\<bar> \<le> 1 / 2" "\<bar>b\<bar> \<le> 1 / 2"
  shows "sqrt (a\<^sup>2 + b\<^sup>2) \<le> sqrt (1 / 2)"
proof -
  from assms have "a\<^sup>2 \<le> (1 / 2)\<^sup>2" "b\<^sup>2 \<le> (1 / 2)\<^sup>2"
    by (simp_all add: abs_le_square_iff [symmetric])
  then have "a\<^sup>2 + b\<^sup>2 \<le> 1 / 2" by (simp add: power2_eq_square)
  then show ?thesis by (rule real_sqrt_le_mono)
qed

lemma distance_inside:
  assumes "box_inside x y w h (H, W)"
  shows "distance_from_center x y w h (H, W) \<le> sqrt (1 / 2)"
proof -
  from assms have bx: "0 \<le> x" "1 \<le> w" "x + w \<le> W" and byy: "0 \<le> y" "1 \<le> h" "y + h \<le> H"
    by (auto simp: box_inside_def)
  have "\<bar>real_of_int (x + w div 2 - W div 2) / real_of_int W\<bar> \<le> 1 / 2"
    using bx by (rule offset_half)
  moreover have "\<bar>real_of_int (y + h div 2 - H div 2) / real_of_int H\<bar> \<le> 1 / 2"
    using byy by (rule offset_half)
  ultimately show ?thesis
    unfolding distance_from_center_def Let_def prod.case by (rule sqrt_sum_squares_half)
qed

lemma score_arith:
  fixes s d :: real
  assumes "0 \<le> d" "d < 1" "0 < s" "s \<le> 1"
  shows "0 < (s * (7 / 10) + (1 - d) * (3 / 10)) * 100 \<and>
         (s * (7 / 10) + (1 - d) * (3 / 10)) * 100 \<le> 100"
proof (intro conjI)
  from assms have "0 < s * (7 / 10)" and "0 < (1 - d) * (3 / 10)" by simp_all
  then have "0 < s * (7 / 10) + (1 - d) * (3 / 10)" by (rule add_pos_pos)
  then show "0 < (s * (7 / 10) + (1 - d) * (3 / 10)) * 100" by (rule mult_pos_pos) simp
  from assms have "s * (7 / 10) \<le> 7 / 10" and "(1 - d) * (3 / 10) \<le> 3 / 10" by simp_all
  then have "s * (7 / 10) + (1 - d) * (3 / 10) \<le> 1" by linarith
  then have "(s * (7 / 10) + (1 - d) * (3 / 10)) * 100 \<le> 1 * 100"
    by (rule mult_right_mono) simp
  then show "(s * (7 / 10) + (1 - d) * (3 / 10)) * 100 \<le> 100" by simp
qed

text \<open>
  C38 (bounds). For a non-empty box that lies inside the frame the clamp of line 186 is
  inactive: the weighted sum of lines 170-185 is already positive and at most 100, because
  the size factor is in (0, 1] and the normalised distance from the centre is at most
  \<open>sqrt (1/2)\<close>, hence below 1.
\<close>

theorem confidence_inside_frame:
  assumes "box_inside x y w h (H, W)"
  shows "calculate_face_confidence x y w h (H, W) = confidence_raw x y w h (H, W) \<and>
         0 < confidence_raw x y w h (H, W) \<and> confidence_raw x y w h (H, W) \<le> 100"
proof -
  have "distance_from_center x y w h (H, W) \<le> sqrt (1 / 2)"
    using assms by (rule distance_inside)
  also have "sqrt (1 / 2) < 1" by simp
  finally have d: "distance_from_center x y w h (H, W) < 1" .
  have d0: "0 \<le> distance_from_center x y w h (H, W)" by (rule distance_nonneg)
  from size_factor_le_1 [OF assms]
  have s: "0 < size_factor w h (H, W)" "size_factor w h (H, W) \<le> 1" by auto
  have "0 < confidence_raw x y w h (H, W) \<and> confidence_raw x y w h (H, W) \<le> 100"
    unfolding confidence_raw_def Let_def by (rule score_arith [OF d0 d s])
  then show ?thesis by (simp add: calculate_face_confidence_def)
qed

theorem full_frame_confidence_witness:
  "(0::int) < 640 \<and> (0::int) < 480 \<and> calculate_face_confidence 0 0 640 480 (480, 640) = 100"
  using full_frame_confidence [of 640 480] by simp

theorem confidence_inside_frame_witness:
  "box_inside 10 10 30 30 (100, 200) \<and>
   calculate_face_confidence 10 10 30 30 (100, 200) = confidence_raw 10 10 30 30 (100, 200) \<and>
   0 < confidence_raw 10 10 30 30 (100, 200) \<and> confidence_raw 10 10 30 30 (100, 200) \<le> 100"
proof -
  have b: "box_inside 10 10 30 30 (100, 200)" by (simp add: box_inside_def)
  from b confidence_inside_frame [OF b] show ?thesis by (rule conjI)
qed

text \<open>
  Between two boxes whose centres are at the same distance from the frame
  centre, the one with the larger area never scores lower: the score is monotone in the
  area of the box.
\<close>

theorem confidence_mono_area:
  assumes "0 < W" "0 < H" "w * h \<le> w' * h'"
    and "distance_from_center x y w h (H, W) = distance_from_center x' y' w' h' (H, W)"
  shows "calculate_face_confidence x y w h (H, W) \<le> calculate_face_confidence x' y' w' h' (H, W)"
proof -
  from assms(1,2) have "0 < real_of_int (W * H)" by (simp del: of_int_mult)
  moreover from assms(3) have "real_of_int (w * h) \<le> real_of_int (w' * h')"
    by (simp only: of_int_le_iff)
  ultimately have "size_factor w h (H, W) \<le> size_factor w' h' (H, W)"
    unfolding size_factor_def prod.case by (simp add: divide_right_mono del: of_int_mult)
  then have "confidence_raw x y w h (H, W) \<le> confidence_raw x' y' w' h' (H, W)"
    by (simp add: confidence_raw_def assms(4))
  then show ?thesis
    unfolding calculate_face_confidence_def by (intro min.mono max.mono) simp_all
qed

theorem confidence_mono_area_witness:
  "(0::int) < 200 \<and> (0::int) < 100 \<and> (20::int) * 20 \<le> 40 * 40 \<and>
   distance_from_center 90 40 20 20 (100, 200) = distance_from_center 80 30 40 40 (100, 200) \<and>
   calculate_face_confidence 90 40 20 20 (100, 200) \<le> calculate_face_confidence 80 30 40 40 (100, 200)"
proof -
  have d: "distance_from_center 90 40 20 20 (100, 200) = distance_from_center 80 30 40 40 (100, 200)"
    by (simp add: distance_from_center_def)
  from confidence_mono_area [of 200 100 20 20 40 40 90 40 80 30, OF _ _ _ d] d
  show ?thesis by simp
qed


end
