(* ===== verification/Sampler.thy ===== *)
theory Sampler
  imports Py_Prelude
begin

text \<open>
  The frame sampler of \<^verbatim>\<open>detect_faces_in_video\<close> (\<^verbatim>\<open>src/face_detection.py\<close>): the number
  \<open>frame_skip\<close> of line 39 (the value is at least 1, so it is a \<^typ>\<open>nat\<close>) and the test
  of line 50, which lets the loop analyse the frames whose index is a multiple of it
  (\<open>sampled\<close>). \<open>sampled_frames skip c fs\<close> are the frames of \<open>fs\<close> that the loop analyses
  when \<open>fs\<close> starts at frame index \<open>c\<close>.

  The lemmas give the value of \<open>frame_skip\<close> (truncation of half the frame rate, 1 below
  4 frames per second), the time between two sampled frames, and the number of sampled
  frames among the first \<open>n\<close>.
\<close>

section \<open>Definitions\<close>

definition frame_skip :: "real \<Rightarrow> nat" where
  "frame_skip fps = nat (max 1 (py_int (fps * (1 / 2))))"

definition sampled :: "nat \<Rightarrow> nat \<Rightarrow> bool" where
  "sampled skip i \<longleftrightarrow> i mod skip = 0"

definition sampled_frames :: "nat \<Rightarrow> nat \<Rightarrow> 'a list \<Rightarrow> 'a list" where
  "sampled_frames skip c fs =
     map snd (filter (\<lambda>p. sampled skip (fst p)) (zip [c..<c + length fs] fs))"

section \<open>One frame in every \<open>frame_skip\<close>\<close>

lemma frame_skip_pos [simp]: "0 < frame_skip fps"
  by (simp add: frame_skip_def)

lemma frame_skip_floor: "2 \<le> fps \<Longrightarrow> int (frame_skip fps) = \<lfloor>fps / 2\<rfloor>"
proof -
  assume "2 \<le> fps"
  then have "1 \<le> \<lfloor>fps / 2\<rfloor>" by (simp add: le_floor_iff)
  moreover from \<open>2 \<le> fps\<close> have "py_int (fps * (1 / 2)) = \<lfloor>fps / 2\<rfloor>" by (simp add: py_int_nonneg)
  ultimately show ?thesis by (simp add: frame_skip_def)
qed

lemma frame_skip_small: "fps < 4 \<Longrightarrow> frame_skip fps = 1"
proof -
  assume "fps < 4"
  then have "fps * (1 / 2) \<le> 2" by simp
  have "py_int (fps * (1 / 2)) \<le> 1"
  proof (cases "0 \<le> fps")
    case True
    with \<open>fps < 4\<close> have "\<lfloor>fps / 2\<rfloor> < 2" by (simp add: floor_less_iff)
    with True show ?thesis by (simp add: py_int_nonneg)
  next
    case False
    then have "py_int (fps * (1 / 2)) \<le> py_int 0" by (intro py_int_mono) simp
    then show ?thesis by (simp add: py_int_def)
  qed
  then show ?thesis by (simp add: frame_skip_def)
qed

text \<open>
  From 2 frames per second on, the sampler takes a frame at most every half
  second and less than one frame period more often than that: the time between two sampled
  frames, \<open>frame_skip fps / fps\<close>, lies in the interval from \<open>1/2 - 1/fps\<close> (excluded) to
  \<open>1/2\<close> (included).
\<close>

theorem sampling_interval:
  assumes "2 \<le> fps"
  shows "real (frame_skip fps) / fps \<le> 1 / 2 \<and> 1 / 2 - 1 / fps < real (frame_skip fps) / fps"
proof -
  from assms have "int (frame_skip fps) = \<lfloor>fps / 2\<rfloor>" by (rule frame_skip_floor)
  then have "real (frame_skip fps) = of_int \<lfloor>fps / 2\<rfloor>"
    by (metis of_int_of_nat_eq)
  moreover have "of_int \<lfloor>fps / 2\<rfloor> \<le> fps / 2" "fps / 2 - 1 < of_int \<lfloor>fps / 2\<rfloor>" by linarith+
  ultimately have "real (frame_skip fps) \<le> fps / 2" "fps / 2 - 1 < real (frame_skip fps)" by simp_all
  moreover from assms have pos: "0 < fps" by simp
  ultimately have "real (frame_skip fps) / fps \<le> fps / 2 / fps"
    and "(fps / 2 - 1) / fps < real (frame_skip fps) / fps"
    by (simp_all add: divide_right_mono divide_strict_right_mono)
  moreover from pos have "fps / 2 / fps = 1 / 2" "(fps / 2 - 1) / fps = 1 / 2 - 1 / fps"
    by (simp_all add: field_simps)
  ultimately show ?thesis by (simp only:)
qed

theorem sampling_interval_witness:
  "(2::real) \<le> 30 \<and> real (frame_skip 30) / 30 \<le> 1 / 2 \<and> 1 / 2 - 1 / 30 < real (frame_skip 30) / 30"
  using sampling_interval [of 30] by simp


section \<open>Counting the sampled frames\<close>

lemma sampled_frames_Nil [simp]: "sampled_frames skip c [] = []"
  by (simp add: sampled_frames_def)

lemma sampled_frames_Cons [simp]:
  "sampled_frames skip c (f # fs) =
     (if sampled skip c then f # sampled_frames skip (Suc c) fs else sampled_frames skip (Suc c) fs)"
proof -
  have "[c..<c + length (f # fs)] = c # [Suc c..<Suc c + length fs]"
    by (simp add: upt_conv_Cons del: upt_Suc)
  then show ?thesis by (simp add: sampled_frames_def del: upt_Suc)
qed

lemma ceil_div:
  fixes s :: nat assumes "0 < s"
  shows "(n + s - Suc 0) div s = (if n mod s = 0 then n div s else Suc (n div s))"
  using assms div_Suc [of "n + s - 1" s] by (simp split: if_splits)

lemma length_sampled_frames:
  "length (sampled_frames skip c fs) = length (filter (sampled skip) [c..<c + length fs])"
proof (induction fs arbitrary: c)
  case Nil
  then show ?case by simp
next
  case (Cons f fs)
  have "[c..<c + length (f # fs)] = c # [Suc c..<Suc c + length fs]"
    by (simp add: upt_conv_Cons del: upt_Suc)
  with Cons [of "Suc c"] show ?case by (simp del: upt_Suc)
qed

lemma count_multiples:
  "0 < skip \<Longrightarrow> length (filter (sampled skip) [0..<n]) = (n + skip - 1) div skip"
  by (induction n) (simp_all add: ceil_div sampled_def)

lemma length_sampled_frames_0:
  "0 < skip \<Longrightarrow> length (sampled_frames skip 0 fs) = (length fs + skip - 1) div skip"
  by (simp add: length_sampled_frames count_multiples)

lemma ten_sampled_iff:
  fixes s n :: nat
  assumes "0 < s"
  shows "10 \<le> (n + s - Suc 0) div s \<longleftrightarrow> 9 * s < n"
  using assms by (simp add: less_eq_div_iff_mult_less_eq) linarith

end
