(* ===== verification/Pipeline.thy ===== *)
theory Pipeline
  imports Identity Confidence Face_Data Sampler
begin

text \<open>
  The detection loop of \<^verbatim>\<open>detect_faces_in_video\<close> (\<^verbatim>\<open>src/face_detection.py\<close>, lines
  33-116).

  \<^bold>\<open>The environment.\<close> The video capture, the face detector and the face encoder are
  libraries the source only calls. The model takes what they return as data: a
  \<open>video\<close> says whether the capture opened, the two properties the code reads
  (\<^verbatim>\<open>CAP_PROP_FPS\<close>, \<^verbatim>\<open>CAP_PROP_FRAME_COUNT\<close>) and the frames that \<^verbatim>\<open>cap.read()\<close> returns
  until its first failure; a \<open>frame\<close> carries its shape and, for every box of
  \<^verbatim>\<open>detectMultiScale\<close> in the order returned, the outcome of \<^verbatim>\<open>face_encodings\<close> on it
  (an embedding, the empty list, or an exception).

  \<^bold>\<open>The state.\<close> \<open>scan_state\<close> holds the variables of lines 33-42 that the loop
  mutates, and the lines printed so far as \<open>event\<close>s. An exception that leaves the
  loop is \<open>Inl\<close>; the lines printed before it are not kept.

  \<^bold>\<open>The operations.\<close> \<open>process_face\<close> is the body of the \<^verbatim>\<open>for\<close> loop with its
  \<^verbatim>\<open>try\<close>/\<^verbatim>\<open>except\<close> (lines 65-109); \<open>process_faces\<close> is the \<^verbatim>\<open>for\<close> loop;
  \<open>report_progress\<close> is lines 111-114; \<open>process_frame\<close> is one iteration of the
  \<^verbatim>\<open>while\<close> loop after a successful read (lines 49-116); \<open>scan\<close> is the loop over the
  frames of a finite video. Theory \<open>Reader\<close> has the loop as the source writes it, over a
  capture that may never fail to deliver a frame.

  \<^bold>\<open>The lemmas\<close> show what one detection, one frame and the whole loop do to the state:
  the invariant \<open>tracks_inv\<close> (the speakers of the detections, in the order of their
  first detection, are the registered names, and the registry satisfies
  \<open>registry_inv\<close>), the well-formedness of every detection (\<open>face_ok\<close>), the order of the
  timestamps (\<open>timeline_inv\<close>), the counters, the number of detections and of error
  lines, and the one way in which the loop raises.
\<close>

section \<open>The environment\<close>

datatype 'e encoding_result = Encoded 'e | NoEncoding | EncoderRaised

type_synonym box = "int \<times> int \<times> int \<times> int"

record 'e frame =
  frame_shape :: "int \<times> int"
  detections :: "(box \<times> 'e encoding_result) list"

record 'e video =
  cap_is_opened :: bool
  cap_fps :: real
  cap_frame_count :: real
  cap_frames :: "'e frame list"

section \<open>State and events\<close>

datatype event =
    CouldNotOpen
  | ProcessingVideo real real int
  | FaceError real
  | Progress real nat
  | DetectionComplete nat nat
  | ResultsSaved

record 'e scan_state =
  all_faces :: "face_data list"
  reg :: "'e registry"
  frame_count :: nat
  processed_frames :: nat
  printed :: "event list"

section \<open>The detection loop\<close>

definition init_scan :: "real \<Rightarrow> real \<Rightarrow> int \<Rightarrow> 'e scan_state" where
  "init_scan duration fps total_frames =
     \<lparr>all_faces = [], reg = init_registry, frame_count = 0, processed_frames = 0,
      printed = [ProcessingVideo duration fps total_frames]\<rparr>"

definition process_face ::
  "('e \<Rightarrow> 'e \<Rightarrow> real) \<Rightarrow> real \<Rightarrow> int \<times> int \<Rightarrow> box \<times> 'e encoding_result \<Rightarrow>
     'e scan_state \<Rightarrow> 'e scan_state" where
  "process_face dst ts shape detection st =
     (case detection of ((x, y, w, h), face_encodings) \<Rightarrow>
        (case face_encodings of
           EncoderRaised \<Rightarrow> st\<lparr>printed := printed st @ [FaceError ts]\<rparr>
         | NoEncoding \<Rightarrow> st
         | Encoded face_encoding \<Rightarrow>
             (case resolve_speaker dst face_encoding (reg st) of
                Inl e \<Rightarrow> st\<lparr>printed := printed st @ [FaceError ts]\<rparr>
              | Inr (name, reg') \<Rightarrow>
                  st\<lparr>reg := reg',
                     all_faces := all_faces st @
                       [make_face ts x y w h (calculate_face_confidence x y w h shape)
                          name]\<rparr>)))"

definition process_faces ::
  "('e \<Rightarrow> 'e \<Rightarrow> real) \<Rightarrow> real \<Rightarrow> 'e frame \<Rightarrow> 'e scan_state \<Rightarrow> 'e scan_state" where
  "process_faces dst ts frame st =
     foldl (\<lambda>s detection. process_face dst ts (frame_shape frame) detection s) st
       (detections frame)"

definition report_progress :: "int \<Rightarrow> 'e scan_state \<Rightarrow> 'e scan_state result" where
  "report_progress total_frames st =
     (if processed_frames st mod 10 = 0 then
        (if total_frames = 0 then Inl ZeroDivisionError
         else Inr (st\<lparr>printed := printed st @
                 [Progress (real (frame_count st) / real_of_int total_frames * 100)
                    (processed_frames st)]\<rparr>))
      else Inr st)"

definition process_frame ::
  "('e \<Rightarrow> 'e \<Rightarrow> real) \<Rightarrow> real \<Rightarrow> int \<Rightarrow> nat \<Rightarrow> 'e frame \<Rightarrow> 'e scan_state \<Rightarrow>
     'e scan_state result" where
  "process_frame dst fps total_frames skip frame st =
     (if frame_count st mod skip \<noteq> 0 then Inr (st\<lparr>frame_count := frame_count st + 1\<rparr>)
      else
        let ts = real (frame_count st) / fps;
            st1 = process_faces dst ts frame st;
            st2 = st1\<lparr>processed_frames := processed_frames st1 + 1\<rparr>
        in (case report_progress total_frames st2 of
              Inl e \<Rightarrow> Inl e
            | Inr st3 \<Rightarrow> Inr (st3\<lparr>frame_count := frame_count st3 + 1\<rparr>)))"

fun scan ::
  "('e \<Rightarrow> 'e \<Rightarrow> real) \<Rightarrow> real \<Rightarrow> int \<Rightarrow> nat \<Rightarrow> 'e frame list \<Rightarrow> 'e scan_state \<Rightarrow>
     'e scan_state result" where
  "scan dst fps total_frames skip [] st = Inr st"
| "scan dst fps total_frames skip (frame # rest) st =
     (case process_frame dst fps total_frames skip frame st of
        Inl e \<Rightarrow> Inl e
      | Inr st' \<Rightarrow> scan dst fps total_frames skip rest st')"

section \<open>Specification\<close>

text \<open>
  The predicates the lemmas are stated with. \<open>is_encoded\<close> and \<open>encoder_raised\<close> classify a
  detection by the encoder's outcome. \<open>face_ok\<close> is the well-formedness of a detection
  record. \<open>tracks_inv\<close> ties the detections to the registry. \<open>emits ts n st st'\<close> says
  that \<open>st'\<close> has \<open>n\<close> more detections than \<open>st\<close>, all well formed and at time \<open>ts\<close>.
  \<open>timeline_inv\<close> says that the detections are in the order of their timestamps and that
  every timestamp is that of a sampled frame already read. \<open>face_errors\<close> counts the
  error lines among the printed lines.
\<close>

definition is_encoded :: "box \<times> 'e encoding_result \<Rightarrow> bool" where
  "is_encoded d \<longleftrightarrow> (case snd d of Encoded e \<Rightarrow> True | _ \<Rightarrow> False)"

definition encoder_raised :: "box \<times> 'e encoding_result \<Rightarrow> bool" where
  "encoder_raised d \<longleftrightarrow> snd d = EncoderRaised"

definition face_ok :: "face_data \<Rightarrow> bool" where
  "face_ok f \<longleftrightarrow> face_centered f \<and> 0 \<le> confidence f \<and> confidence f \<le> 100"

definition tracks_inv :: "'e scan_state \<Rightarrow> bool" where
  "tracks_inv st \<longleftrightarrow>
     registry_inv (reg st) \<and> speakers_of (all_faces st) = known_face_names (reg st)"

definition emits :: "real \<Rightarrow> nat \<Rightarrow> 'e scan_state \<Rightarrow> 'e scan_state \<Rightarrow> bool" where
  "emits ts n st st' \<longleftrightarrow>
     (\<exists>new. all_faces st' = all_faces st @ new \<and> length new = n \<and>
        (\<forall>f \<in> set new. timestamp f = ts \<and> face_ok f))"

definition timeline_inv :: "real \<Rightarrow> nat \<Rightarrow> 'e scan_state \<Rightarrow> bool" where
  "timeline_inv fps skip st \<longleftrightarrow>
     sorted (map timestamp (all_faces st)) \<and>
     (\<forall>f \<in> set (all_faces st). \<exists>k < frame_count st. sampled skip k \<and> timestamp f = real k / fps)"

definition scan_inv :: "'e scan_state \<Rightarrow> bool" where
  "scan_inv st \<longleftrightarrow> tracks_inv st \<and> (\<forall>f \<in> set (all_faces st). face_ok f)"

definition encoded_count :: "'e frame \<Rightarrow> nat" where
  "encoded_count frame = length (filter is_encoded (detections frame))"

definition is_face_error :: "event \<Rightarrow> bool" where
  "is_face_error ev \<longleftrightarrow> (case ev of FaceError ts \<Rightarrow> True | _ \<Rightarrow> False)"

definition face_errors :: "event list \<Rightarrow> nat" where
  "face_errors evs = length (filter is_face_error evs)"

definition raised_count :: "'e frame \<Rightarrow> nat" where
  "raised_count frame = length (filter encoder_raised (detections frame))"

section \<open>One detection and one frame\<close>

lemma process_face_simps:
  "process_face dst ts shape (b, EncoderRaised) st = st\<lparr>printed := printed st @ [FaceError ts]\<rparr>"
  "process_face dst ts shape (b, NoEncoding) st = st"
  by (cases b; simp add: process_face_def)+

lemma process_face_Encoded:
  "resolve_speaker dst e (reg st) = Inr (name, reg') \<Longrightarrow>
   process_face dst ts shape ((x, y, w, h), Encoded e) st =
     st\<lparr>reg := reg',
        all_faces := all_faces st @
          [make_face ts x y w h (calculate_face_confidence x y w h shape) name]\<rparr>"
  by (simp add: process_face_def)

lemma registry_inv_fresh_name:
  "registry_inv r \<Longrightarrow> speaker_name (speaker_id_counter r) \<notin> set (known_face_names r)"
  by (auto simp: registry_inv_def)

lemma registry_inv_known_name:
  "registry_inv r \<Longrightarrow> i < length (known_face_encodings r) \<Longrightarrow>
     speaker_name (Suc i) \<in> set (known_face_names r)"
  by (metis nth_mem registry_inv_length registry_inv_names_nth)

lemma face_ok_make_face [simp]:
  "face_ok (make_face ts x y w h (calculate_face_confidence x y w h shape) name)"
  by (simp add: face_ok_def)

lemma emits_refl [simp]: "emits ts 0 st st"
  by (simp add: emits_def)

lemma emits_trans:
  "emits ts m st st' \<Longrightarrow> emits ts n st' st'' \<Longrightarrow> emits ts (m + n) st st''"
  unfolding emits_def by (elim exE conjE) (rule_tac x = "new @ newa" in exI, auto)

lemma speakers_of_snoc:
  "speakers_of (fs @ [f]) =
     (if speakerId f \<in> set (speakers_of fs) then speakers_of fs
      else speakers_of fs @ [speakerId f])"
  by (simp add: speakers_of_def)

lemma tracks_inv_append:
  assumes "tracks_inv st" "resolve_speaker dst e (reg st) = Inr (name, reg')"
  shows "tracks_inv (st\<lparr>reg := reg', all_faces := all_faces st @ [f\<lparr>speakerId := name\<rparr>]\<rparr>)"
proof -
  from assms(1) have inv: "registry_inv (reg st)"
    and sp: "speakers_of (all_faces st) = known_face_names (reg st)"
    by (simp_all add: tracks_inv_def)
  from resolve_speaker_step [OF inv, of dst e] assms(2)
  consider i where "i < length (known_face_encodings (reg st))" "name = speaker_name (Suc i)" "reg' = reg st"
    | "name = speaker_name (speaker_id_counter (reg st))"
      "reg' = register_speaker e name (reg st)"
    by auto
  then show ?thesis
  proof cases
    case 1
    with inv have "name \<in> set (known_face_names (reg st))" by (simp add: registry_inv_known_name)
    with 1 inv sp show ?thesis by (simp add: tracks_inv_def speakers_of_snoc)
  next
    case 2
    with inv have "name \<notin> set (known_face_names (reg st))" by (simp add: registry_inv_fresh_name)
    moreover from 2 inv have "registry_inv reg'" by (simp add: registry_inv_register)
    ultimately show ?thesis using 2 sp by (simp add: tracks_inv_def speakers_of_snoc)
  qed
qed

lemma process_face_step:
  assumes "tracks_inv st"
  shows "tracks_inv (process_face dst ts shape d st) \<and>
         frame_count (process_face dst ts shape d st) = frame_count st \<and>
         processed_frames (process_face dst ts shape d st) = processed_frames st \<and>
         emits ts (if is_encoded d then 1 else 0) st (process_face dst ts shape d st) \<and>
         printed (process_face dst ts shape d st) =
           printed st @ (if encoder_raised d then [FaceError ts] else [])"
proof -
  obtain x y w h enc where d: "d = ((x, y, w, h), enc)" by (metis prod.exhaust)
  show ?thesis
  proof (cases enc)
    case (Encoded e)
    from assms have "registry_inv (reg st)" by (simp add: tracks_inv_def)
    from resolve_speaker_step [OF this, of dst e]
    obtain name reg' where r: "resolve_speaker dst e (reg st) = Inr (name, reg')" by blast
    let ?f = "make_face ts x y w h (calculate_face_confidence x y w h shape) name"
    have "tracks_inv (st\<lparr>reg := reg', all_faces := all_faces st @ [?f\<lparr>speakerId := name\<rparr>]\<rparr>)"
      using assms r by (rule tracks_inv_append)
    moreover have "?f\<lparr>speakerId := name\<rparr> = ?f" by (simp add: make_face_def)
    ultimately show ?thesis
      using Encoded d r
      by (simp add: process_face_Encoded is_encoded_def encoder_raised_def emits_def)
  next
    case NoEncoding
    with d assms show ?thesis
      by (simp add: process_face_simps is_encoded_def encoder_raised_def)
  next
    case EncoderRaised
    with d assms show ?thesis
      by (simp add: process_face_simps is_encoded_def encoder_raised_def tracks_inv_def emits_def)
  qed
qed

lemma process_faces_fold:
  assumes "tracks_inv st"
  shows "tracks_inv (foldl (\<lambda>s d. process_face dst ts shape d s) st ds) \<and>
         frame_count (foldl (\<lambda>s d. process_face dst ts shape d s) st ds) = frame_count st \<and>
         processed_frames (foldl (\<lambda>s d. process_face dst ts shape d s) st ds) = processed_frames st \<and>
         emits ts (length (filter is_encoded ds)) st (foldl (\<lambda>s d. process_face dst ts shape d s) st ds) \<and>
         printed (foldl (\<lambda>s d. process_face dst ts shape d s) st ds) =
           printed st @ replicate (length (filter encoder_raised ds)) (FaceError ts)"
proof (induction ds rule: rev_induct)
  case Nil
  with assms show ?case by simp
next
  case (snoc d ds)
  let ?st1 = "foldl (\<lambda>s d. process_face dst ts shape d s) st ds"
  from snoc have inv: "tracks_inv ?st1" by simp
  from snoc process_face_step [OF inv, of dst ts shape d]
  show ?case
    by (auto simp: replicate_append_same dest: emits_trans)
qed

lemma process_faces_step:
  assumes "tracks_inv st"
  shows "tracks_inv (process_faces dst ts frame st) \<and>
         frame_count (process_faces dst ts frame st) = frame_count st \<and>
         processed_frames (process_faces dst ts frame st) = processed_frames st \<and>
         emits ts (length (filter is_encoded (detections frame))) st (process_faces dst ts frame st) \<and>
         printed (process_faces dst ts frame st) =
           printed st @ replicate (length (filter encoder_raised (detections frame))) (FaceError ts)"
  unfolding process_faces_def using assms by (rule process_faces_fold)

lemma process_face_counters [simp]:
  "frame_count (process_face dst ts shape d st) = frame_count st"
  "processed_frames (process_face dst ts shape d st) = processed_frames st"
  by (auto simp: process_face_def split: prod.splits encoding_result.splits sum.splits)

lemma process_face_fold_counters:
  "frame_count (foldl (\<lambda>s d. process_face dst ts shape d s) st ds) = frame_count st"
  "processed_frames (foldl (\<lambda>s d. process_face dst ts shape d s) st ds) = processed_frames st"
  by (induction ds rule: rev_induct) simp_all

lemma process_faces_counters [simp]:
  "frame_count (process_faces dst ts frame st) = frame_count st"
  "processed_frames (process_faces dst ts frame st) = processed_frames st"
  by (simp_all add: process_faces_def process_face_fold_counters)

lemma process_frame_skipped:
  "\<not> sampled skip (frame_count st) \<Longrightarrow>
     process_frame dst fps tf skip frame st = Inr (st\<lparr>frame_count := Suc (frame_count st)\<rparr>)"
  by (simp add: process_frame_def sampled_def)

lemma report_progress_cases:
  "report_progress tf st = Inr st' \<Longrightarrow>
     all_faces st' = all_faces st \<and> reg st' = reg st \<and> frame_count st' = frame_count st \<and>
     processed_frames st' = processed_frames st"
  by (auto simp: report_progress_def split: if_splits)

lemma report_progress_Inl_iff:
  "report_progress tf st = Inl e \<longleftrightarrow>
     e = ZeroDivisionError \<and> tf = 0 \<and> processed_frames st mod 10 = 0"
  by (auto simp: report_progress_def)

section \<open>One iteration of the loop\<close>

lemma process_frame_sampled:
  "sampled skip (frame_count st) \<Longrightarrow>
     process_frame dst fps tf skip frame st =
       (case report_progress tf
               ((process_faces dst (real (frame_count st) / fps) frame st)
                  \<lparr>processed_frames := Suc (processed_frames st)\<rparr>) of
          Inl e \<Rightarrow> Inl e
        | Inr st3 \<Rightarrow> Inr (st3\<lparr>frame_count := Suc (frame_count st3)\<rparr>))"
  by (simp add: process_frame_def sampled_def Let_def split: sum.split)

lemma process_frame_Inl_iff:
  "process_frame dst fps tf skip frame st = Inl e \<longleftrightarrow>
     e = ZeroDivisionError \<and> tf = 0 \<and> sampled skip (frame_count st) \<and>
     Suc (processed_frames st) mod 10 = 0"
  by (cases "sampled skip (frame_count st)")
     (auto simp: process_frame_sampled process_frame_skipped report_progress_def
           split: sum.splits if_splits)

lemma process_frame_counters:
  assumes "process_frame dst fps tf skip frame st = Inr st'"
  shows "frame_count st' = Suc (frame_count st) \<and>
         processed_frames st' =
           (if sampled skip (frame_count st) then Suc (processed_frames st)
            else processed_frames st)"
  using assms
  by (cases "sampled skip (frame_count st)")
     (auto simp: process_frame_sampled process_frame_skipped split: sum.splits
           dest!: report_progress_cases)

lemma face_errors_simps [simp]:
  "face_errors [] = 0"
  "face_errors (evs @ evs') = face_errors evs + face_errors evs'"
  "face_errors (replicate n (FaceError ts)) = n"
  "face_errors [Progress p k] = 0"
  "face_errors [ProcessingVideo d f t] = 0"
  by (simp_all add: face_errors_def is_face_error_def)

lemma report_progress_printed:
  "report_progress tf st = Inr st' \<Longrightarrow> face_errors (printed st') = face_errors (printed st)"
  by (auto simp: report_progress_def split: if_splits)

lemma tracks_inv_cong:
  "tracks_inv st \<Longrightarrow> reg st' = reg st \<Longrightarrow> all_faces st' = all_faces st \<Longrightarrow> tracks_inv st'"
  by (simp add: tracks_inv_def)

lemma emits_cong:
  "emits ts n st st' \<Longrightarrow> all_faces st'' = all_faces st' \<Longrightarrow> emits ts n st st''"
  by (simp add: emits_def)

lemma emits_length: "emits ts n st st' \<Longrightarrow> length (all_faces st') = length (all_faces st) + n"
  by (auto simp: emits_def)

lemma emits_face_ok:
  "emits ts n st st' \<Longrightarrow> \<forall>f \<in> set (all_faces st). face_ok f \<Longrightarrow>
     \<forall>f \<in> set (all_faces st'). face_ok f"
  by (auto simp: emits_def)

lemma timeline_inv_emits:
  assumes "timeline_inv fps skip st" "emits (real (frame_count st) / fps) n st st'"
    "frame_count st' = Suc (frame_count st)" "0 < n \<Longrightarrow> sampled skip (frame_count st)" "0 < fps"
  shows "timeline_inv fps skip st'"
proof -
  from assms(2) obtain new where new: "all_faces st' = all_faces st @ new" "length new = n"
    "\<forall>f \<in> set new. timestamp f = real (frame_count st) / fps"
    by (auto simp: emits_def)
  from assms(1) have old: "sorted (map timestamp (all_faces st))"
    "\<forall>f \<in> set (all_faces st). \<exists>k < frame_count st. sampled skip k \<and> timestamp f = real k / fps"
    by (simp_all add: timeline_inv_def)
  have le: "timestamp f \<le> real (frame_count st) / fps" if "f \<in> set (all_faces st)" for f
  proof -
    from old(2) that obtain k where "k < frame_count st" "timestamp f = real k / fps" by blast
    with assms(5) show ?thesis by (simp add: divide_right_mono)
  qed
  from new(3) have "map timestamp new = replicate (length new) (real (frame_count st) / fps)"
    by (simp add: map_replicate_const [symmetric] cong: map_cong)
  then have "sorted (map timestamp new)" by simp
  with old(1) new le have "sorted (map timestamp (all_faces st'))"
    by (auto simp: sorted_append)
  moreover have "\<exists>k < frame_count st'. sampled skip k \<and> timestamp f = real k / fps"
    if "f \<in> set (all_faces st')" for f
  proof (cases "f \<in> set new")
    case True
    with new(2) have "0 < n" by (cases new) auto
    with True new(3) assms(3,4) show ?thesis by auto
  next
    case False
    with that new(1) have "f \<in> set (all_faces st)" by simp
    with old(2) obtain k where "k < frame_count st" "sampled skip k" "timestamp f = real k / fps"
      by blast
    with assms(3) show ?thesis by (intro exI [of _ k]) simp
  qed
  ultimately show ?thesis by (simp add: timeline_inv_def)
qed

lemma process_frame_inv:
  assumes step: "process_frame dst fps tf skip frame st = Inr st'" and t: "tracks_inv st"
  shows "tracks_inv st' \<and>
         emits (real (frame_count st) / fps)
           (if sampled skip (frame_count st) then encoded_count frame else 0) st st' \<and>
         face_errors (printed st') =
           face_errors (printed st) + (if sampled skip (frame_count st) then raised_count frame else 0)"
proof (cases "sampled skip (frame_count st)")
  case False
  with step have "st' = st\<lparr>frame_count := Suc (frame_count st)\<rparr>"
    by (simp add: process_frame_skipped)
  then have eq: "all_faces st' = all_faces st" "reg st' = reg st" "printed st' = printed st"
    by simp_all
  from t eq have "tracks_inv st'" by (auto intro: tracks_inv_cong)
  moreover from eq have "emits (real (frame_count st) / fps) 0 st st'" by (simp add: emits_def)
  ultimately show ?thesis using False eq by simp
next
  case True
  let ?ts = "real (frame_count st) / fps"
  let ?st1 = "process_faces dst ?ts frame st"
  note s1 = process_faces_step [OF t, of dst ?ts frame]
  from step True obtain st3
    where rp: "report_progress tf (?st1\<lparr>processed_frames := Suc (processed_frames st)\<rparr>) = Inr st3"
      and st': "st' = st3\<lparr>frame_count := Suc (frame_count st3)\<rparr>"
    by (auto simp: process_frame_sampled split: sum.splits)
  from report_progress_cases [OF rp] st'
  have eq: "all_faces st' = all_faces ?st1" "reg st' = reg ?st1" by simp_all
  from report_progress_printed [OF rp] st'
  have pr: "face_errors (printed st') = face_errors (printed ?st1)" by simp
  from s1 eq have "tracks_inv st'" by (auto intro: tracks_inv_cong)
  moreover from s1 eq have "emits ?ts (encoded_count frame) st st'"
    unfolding encoded_count_def by (auto intro: emits_cong)
  ultimately show ?thesis using True pr s1 by (simp add: raised_count_def)
qed

section \<open>The whole loop\<close>

lemma scan_Inl:
  "scan dst fps tf skip frames st = Inl e \<Longrightarrow> e = ZeroDivisionError \<and> tf = 0"
  by (induction frames arbitrary: st) (auto simp: process_frame_Inl_iff split: sum.splits)

lemma scan_ok: "tf \<noteq> 0 \<Longrightarrow> \<exists>st'. scan dst fps tf skip frames st = Inr st'"
  by (cases "scan dst fps tf skip frames st") (auto dest: scan_Inl)

lemma scan_counters:
  "scan dst fps tf skip frames st = Inr st' \<Longrightarrow>
     frame_count st' = frame_count st + length frames \<and>
     processed_frames st' =
       processed_frames st + length (sampled_frames skip (frame_count st) frames)"
proof (induction frames arbitrary: st)
  case Nil
  then show ?case by simp
next
  case (Cons frame rest)
  then obtain st1 where 1: "process_frame dst fps tf skip frame st = Inr st1"
    and 2: "scan dst fps tf skip rest st1 = Inr st'"
    by (auto split: sum.splits)
  from Cons.IH [OF 2] process_frame_counters [OF 1] show ?case by simp
qed

lemma scan_inv_preserved:
  assumes "scan dst fps tf skip frames st = Inr st'" "scan_inv st"
  shows "scan_inv st' \<and>
     length (all_faces st') =
       length (all_faces st) +
       sum_list (map encoded_count (sampled_frames skip (frame_count st) frames)) \<and>
     face_errors (printed st') =
       face_errors (printed st) +
       sum_list (map raised_count (sampled_frames skip (frame_count st) frames))"
  using assms
proof (induction frames arbitrary: st)
  case Nil
  then show ?case by simp
next
  case (Cons frame rest)
  then obtain st1 where 1: "process_frame dst fps tf skip frame st = Inr st1"
    and 2: "scan dst fps tf skip rest st1 = Inr st'"
    by (auto split: sum.splits)
  from Cons.prems(2) have t: "tracks_inv st" by (simp add: scan_inv_def)
  note step = process_frame_inv [OF 1 t]
  from step Cons.prems(2) have "scan_inv st1"
    by (auto simp: scan_inv_def dest: emits_face_ok)
  from Cons.IH [OF 2 this] step process_frame_counters [OF 1] show ?case
    by (auto dest!: emits_length)
qed

lemma scan_timeline:
  assumes "scan dst fps tf skip frames st = Inr st'" "tracks_inv st" "timeline_inv fps skip st"
    "0 < fps"
  shows "timeline_inv fps skip st'"
  using assms(1-3)
proof (induction frames arbitrary: st)
  case Nil
  then show ?case by simp
next
  case (Cons frame rest)
  then obtain st1 where 1: "process_frame dst fps tf skip frame st = Inr st1"
    and 2: "scan dst fps tf skip rest st1 = Inr st'"
    by (auto split: sum.splits)
  note step = process_frame_inv [OF 1 Cons.prems(2)]
  from step have em: "emits (real (frame_count st) / fps)
      (if sampled skip (frame_count st) then encoded_count frame else 0) st st1"
    by simp
  from process_frame_counters [OF 1] have fc: "frame_count st1 = Suc (frame_count st)" by simp
  have "timeline_inv fps skip st1"
    using Cons.prems(3) em fc _ assms(4) by (rule timeline_inv_emits) (simp split: if_splits)
  with Cons.IH [OF 2] step show ?case by simp
qed

lemma scan_raises_iff:
  assumes "processed_frames st < 10"
  shows "(\<exists>e. scan dst fps tf skip frames st = Inl e) \<longleftrightarrow>
     tf = 0 \<and> 10 \<le> processed_frames st + length (sampled_frames skip (frame_count st) frames)"
  using assms
proof (induction frames arbitrary: st)
  case Nil
  then show ?case by simp
next
  case (Cons frame rest)
  show ?case
  proof (cases "process_frame dst fps tf skip frame st")
    case (Inl e)
    then have "tf = 0" "sampled skip (frame_count st)" "Suc (processed_frames st) mod 10 = 0"
      by (simp_all add: process_frame_Inl_iff)
    moreover from this(3) Cons.prems have "processed_frames st = 9" by presburger
    ultimately show ?thesis using Inl by simp
  next
    case (Inr st1)
    from Inr have no: "\<not> (tf = 0 \<and> sampled skip (frame_count st) \<and> Suc (processed_frames st) mod 10 = 0)"
      using process_frame_Inl_iff [of dst fps tf skip frame st ZeroDivisionError] by auto
    note c = process_frame_counters [OF Inr]
    show ?thesis
    proof (cases "tf = 0")
      case True
      with no c Cons.prems have "processed_frames st1 < 10" by (auto split: if_splits) presburger
      from Cons.IH [OF this] Inr c show ?thesis by (simp split: if_splits)
    next
      case False
      then show ?thesis using scan_Inl [of dst fps tf skip "frame # rest" st] by auto
    qed
  qed
qed

section \<open>The initial state\<close>

lemma init_scan_sel [simp]:
  "all_faces (init_scan d fps tf) = []"
  "reg (init_scan d fps tf) = init_registry"
  "frame_count (init_scan d fps tf) = 0"
  "processed_frames (init_scan d fps tf) = 0"
  "printed (init_scan d fps tf) = [ProcessingVideo d fps tf]"
  by (simp_all add: init_scan_def)

lemma init_registry_sel [simp]:
  "known_face_encodings init_registry = []"
  "known_face_names init_registry = []"
  "speaker_id_counter init_registry = 1"
  by (simp_all add: init_registry_def)

lemma scan_inv_init [simp]: "scan_inv (init_scan d fps tf)"
  by (simp add: scan_inv_def tracks_inv_def)

lemma timeline_inv_init [simp]: "timeline_inv fps skip (init_scan d fps tf)"
  by (simp add: timeline_inv_def)

end
