(* ===== verification/Reader.thy ===== *)
theory Reader
  imports Pipeline
begin

text \<open>
  The \<^verbatim>\<open>while True\<close> loop of \<^verbatim>\<open>detect_faces_in_video\<close> (\<^verbatim>\<open>src/face_detection.py\<close>, lines
  44-116) as the source writes it: read a frame, leave the loop when the read fails,
  otherwise run the body and read again.

  A \<open>capture\<close> is what the successive calls of \<^verbatim>\<open>cap.read()\<close> return: the frame of the
  \<open>i\<close>-th call, or \<open>None\<close> when that call reports failure. Nothing says that a capture
  ever fails (a camera or a network stream does not), so the loop is a
  \<^theory_text>\<open>partial_function\<close> in the option monad: \<open>None\<close> is "the loop does not end",
  \<open>Some (Inl e)\<close> is "the body raised \<open>e\<close>", \<open>Some (Inr st)\<close> is "the loop ended in state
  \<open>st\<close>". \<open>video_reader\<close> is the capture of a video file with the given frames, and
  \<open>frames_read\<close> are the first \<open>n\<close> frames a capture delivers.

  The lemmas connect the loop with the recursion \<open>scan\<close> of theory \<open>Pipeline\<close> over a list
  of frames, and say exactly when the loop ends.
\<close>

section \<open>Definitions\<close>

type_synonym 'e capture = "nat \<Rightarrow> 'e frame option"

partial_function (option) read_loop ::
  "('e \<Rightarrow> 'e \<Rightarrow> real) \<Rightarrow> real \<Rightarrow> int \<Rightarrow> nat \<Rightarrow> 'e capture \<Rightarrow> nat \<Rightarrow> 'e scan_state \<Rightarrow>
     'e scan_state result option" where
  "read_loop dst fps total_frames skip cap_read pos st =
     (case cap_read pos of
        None \<Rightarrow> Some (Inr st)
      | Some frame \<Rightarrow>
          (case process_frame dst fps total_frames skip frame st of
             Inl e \<Rightarrow> Some (Inl e)
           | Inr st' \<Rightarrow> read_loop dst fps total_frames skip cap_read (Suc pos) st'))"

definition video_reader :: "'e frame list \<Rightarrow> 'e capture" where
  "video_reader frames i = (if i < length frames then Some (frames ! i) else None)"

definition frames_read :: "'e capture \<Rightarrow> nat \<Rightarrow> 'e frame list" where
  "frames_read cap_read n = map (\<lambda>i. the (cap_read i)) [0..<n]"

section \<open>The loop and the list of frames\<close>

lemma read_loop_end:
  "cap_read pos = None \<Longrightarrow> read_loop dst fps tf skip cap_read pos st = Some (Inr st)"
  by (subst read_loop.simps) simp

lemma read_loop_step:
  "cap_read pos = Some frame \<Longrightarrow>
     read_loop dst fps tf skip cap_read pos st =
       (case process_frame dst fps tf skip frame st of
          Inl e \<Rightarrow> Some (Inl e)
        | Inr st' \<Rightarrow> read_loop dst fps tf skip cap_read (Suc pos) st')"
  by (subst read_loop.simps) simp

lemma read_loop_prefix:
  assumes "\<And>i. i < length fs \<Longrightarrow> cap_read (pos + i) = Some (fs ! i)"
  shows "read_loop dst fps tf skip cap_read pos st =
     (case scan dst fps tf skip fs st of
        Inl e \<Rightarrow> Some (Inl e)
      | Inr st' \<Rightarrow> read_loop dst fps tf skip cap_read (pos + length fs) st')"
  using assms
proof (induction fs arbitrary: pos st)
  case Nil
  then show ?case by simp
next
  case (Cons frame rest)
  from Cons.prems [of 0] have hd: "cap_read pos = Some frame" by simp
  have tl: "cap_read (Suc pos + i) = Some (rest ! i)" if "i < length rest" for i
    using Cons.prems [of "Suc i"] that by simp
  from Cons.IH [OF tl] hd show ?case
    by (simp add: read_loop_step [of cap_read pos frame] split: sum.split)
qed

lemma read_loop_finite:
  assumes "\<And>i. i < length fs \<Longrightarrow> cap_read (pos + i) = Some (fs ! i)"
    and "cap_read (pos + length fs) = None"
  shows "read_loop dst fps tf skip cap_read pos st = Some (scan dst fps tf skip fs st)"
  using assms(2) by (simp add: read_loop_prefix [OF assms(1)] read_loop_end split: sum.split)

text \<open>
  C12 (refinement). On a video file the loop of the source and the recursion over the list
  of frames are the same computation: reading a finite video frame by frame until the
  first failed read returns exactly what \<open>scan\<close> returns on the list of its frames, the
  exception included.
\<close>

theorem read_loop_video_reader:
  "read_loop dst fps tf skip (video_reader frames) 0 st = Some (scan dst fps tf skip frames st)"
  by (rule read_loop_finite) (simp_all add: video_reader_def)


lemma read_loop_raises:
  assumes "cap_read pos = Some frame" "process_frame dst fps tf skip frame st = Inl e"
  shows "read_loop dst fps tf skip cap_read pos st = Some (Inl e)"
  using assms by (simp add: read_loop_step [of cap_read pos frame])

lemma read_loop_endless:
  fixes cap_read :: "'e capture"
  assumes endless: "\<And>i. cap_read i \<noteq> None" and tf: "tf \<noteq> 0"
  shows "read_loop dst fps tf skip cap_read pos st = None"
proof (rule ccontr)
  assume "read_loop dst fps tf skip cap_read pos st \<noteq> None"
  then obtain r where ret: "read_loop dst fps tf skip cap_read pos st = Some r" by blast
  have "\<not> (cap_read = cap_read \<and> tf = tf)"
  proof (rule read_loop.raw_induct
      [where P = "\<lambda>dst' fps' tf' skip' rd pos st r. \<not> (rd = cap_read \<and> tf' = tf)", OF _ ret])
    fix f dst' fps' tf' skip' pos' r' and rd :: "'e capture" and st' :: "'e scan_state"
    assume IH: "\<And>dst fps tf' skip rd pos st r.
        f dst fps tf' skip rd pos st = Some r \<Longrightarrow> \<not> (rd = cap_read \<and> tf' = tf)"
      and eq: "(case rd pos' of None \<Rightarrow> Some (Inr st')
         | Some frame \<Rightarrow>
             (case process_frame dst' fps' tf' skip' frame st' of Inl e \<Rightarrow> Some (Inl e)
              | Inr st'' \<Rightarrow> f dst' fps' tf' skip' rd (Suc pos') st'')) = Some r'"
    show "\<not> (rd = cap_read \<and> tf' = tf)"
    proof
      assume a: "rd = cap_read \<and> tf' = tf"
      from endless [of pos'] obtain frame where fr: "cap_read pos' = Some frame" by blast
      from tf have "process_frame dst' fps' tf skip' frame st' \<noteq> Inl e" for e
        by (simp add: process_frame_Inl_iff)
      then obtain st'' where "process_frame dst' fps' tf skip' frame st' = Inr st''"
        by (cases "process_frame dst' fps' tf skip' frame st'") auto
      with eq fr a have "f dst' fps' tf skip' cap_read (Suc pos') st'' = Some r'" by simp
      from IH [OF this] show False by simp
    qed
  qed
  then show False by simp
qed


lemma frames_read_nth:
  "(\<And>i. i < n \<Longrightarrow> cap_read i \<noteq> None) \<Longrightarrow> i < n \<Longrightarrow>
     cap_read (0 + i) = Some (frames_read cap_read n ! i)"
  by (auto simp: frames_read_def)

lemma length_frames_read [simp]: "length (frames_read cap_read n) = n"
  by (simp add: frames_read_def)

lemma read_loop_first_failure:
  assumes "cap_read n = None" "\<And>i. i < n \<Longrightarrow> cap_read i \<noteq> None"
  shows "read_loop dst fps tf skip cap_read 0 st =
     Some (scan dst fps tf skip (frames_read cap_read n) st)"
  using assms by (intro read_loop_finite) (simp_all add: frames_read_nth [simplified])

lemma read_loop_zero_count:
  assumes endless: "\<And>i. cap_read i \<noteq> None" and skip: "0 < skip"
  shows "read_loop dst fps 0 skip cap_read 0 (init_scan d fps 0) = Some (Inl ZeroDivisionError)"
proof -
  let ?n = "Suc (9 * skip)"
  let ?fs = "frames_read cap_read ?n"
  from skip have "\<exists>e. scan dst fps 0 skip ?fs (init_scan d fps 0) = Inl e"
    by (simp add: scan_raises_iff length_sampled_frames_0 ten_sampled_iff)
  then have raises: "scan dst fps 0 skip ?fs (init_scan d fps 0) = Inl ZeroDivisionError"
    by (auto dest: scan_Inl)
  have "cap_read (0 + i) = Some (?fs ! i)" if "i < length ?fs" for i
    using that endless by (intro frames_read_nth) simp_all
  then have "read_loop dst fps 0 skip cap_read 0 (init_scan d fps 0) =
     (case scan dst fps 0 skip ?fs (init_scan d fps 0) of
        Inl e \<Rightarrow> Some (Inl e)
      | Inr st' \<Rightarrow> read_loop dst fps 0 skip cap_read (0 + length ?fs) st')"
    by (rule read_loop_prefix)
  with raises show ?thesis by simp
qed

text \<open>
  C11 (termination). The \<^verbatim>\<open>while True\<close> loop of \<^verbatim>\<open>detect_faces_in_video\<close>, started as the
  function starts it, returns or raises exactly when some read of the capture fails or the
  frame count is 0. On a capture that never fails to deliver a frame (a live stream) the
  loop runs forever when the frame count is not 0; when it is 0 the loop is ended by the
  \<^verbatim>\<open>ZeroDivisionError\<close> of the progress line at the tenth processed frame.
\<close>

theorem read_loop_returns_iff:
  fixes cap_read :: "'e capture"
  shows "(\<exists>r. read_loop dst fps tf (frame_skip fps) cap_read 0 (init_scan d fps tf) = Some r) \<longleftrightarrow>
     (\<exists>n. cap_read n = None) \<or> tf = 0"
proof (cases "\<exists>n. cap_read n = None")
  case True
  define n where "n = (LEAST n. cap_read n = None)"
  from True have "cap_read n = None" unfolding n_def by (rule LeastI_ex)
  moreover have "cap_read i \<noteq> None" if "i < n" for i
    using that unfolding n_def by (rule not_less_Least)
  ultimately have "read_loop dst fps tf (frame_skip fps) cap_read 0 (init_scan d fps tf) =
      Some (scan dst fps tf (frame_skip fps) (frames_read cap_read n) (init_scan d fps tf))"
    by (rule read_loop_first_failure)
  with True show ?thesis by simp
next
  case False
  then have endless: "\<And>i. cap_read i \<noteq> None" by simp
  show ?thesis
  proof (cases "tf = 0")
    case True
    with read_loop_zero_count [OF endless frame_skip_pos] False show ?thesis by simp
  next
    case tf: False
    with read_loop_endless [OF endless tf] False show ?thesis by simp
  qed
qed

text \<open>
  C27 (liveness). The loop gets through the video: when the capture delivers \<open>n\<close> frames
  and then fails, and the frame count is not 0 or at most nine times \<open>frame_skip\<close> frames
  are delivered, the loop ends normally at the first failed read, having counted all \<open>n\<close>
  frames and processed one frame in every \<open>frame_skip\<close>.
\<close>

theorem loop_reaches_end:
  assumes "cap_read n = None" "\<And>i. i < n \<Longrightarrow> cap_read i \<noteq> None"
    and "tf \<noteq> 0 \<or> n \<le> 9 * frame_skip fps"
  shows "\<exists>st. read_loop dst fps tf (frame_skip fps) cap_read 0 (init_scan d fps tf) = Some (Inr st) \<and>
           frame_count st = n \<and>
           processed_frames st = (n + frame_skip fps - 1) div frame_skip fps"
proof -
  let ?fs = "frames_read cap_read n"
  let ?scan = "scan dst fps tf (frame_skip fps) ?fs (init_scan d fps tf)"
  from assms(3) have "\<not> (\<exists>e. ?scan = Inl e)"
    by (auto simp: scan_raises_iff length_sampled_frames_0 ten_sampled_iff)
  then obtain st where st: "?scan = Inr st" by (cases ?scan) auto
  from assms(1,2) have "read_loop dst fps tf (frame_skip fps) cap_read 0 (init_scan d fps tf) =
      Some ?scan"
    by (rule read_loop_first_failure)
  with st scan_counters [OF st] show ?thesis by (simp add: length_sampled_frames_0)
qed

theorem loop_reaches_end_witness:
  "video_reader [\<lparr>frame_shape = (2, 2), detections = []\<rparr>] 1 = (None :: unit frame option) \<and>
   (\<exists>st. read_loop (\<lambda>(a::unit) b. 0) 2 1 (frame_skip 2)
          (video_reader [\<lparr>frame_shape = (2, 2), detections = []\<rparr>]) 0 (init_scan (1 / 2) 2 1) =
        Some (Inr st) \<and>
      frame_count st = 1 \<and> processed_frames st = (1 + frame_skip 2 - 1) div frame_skip 2)"
proof -
  let ?rd = "video_reader [\<lparr>frame_shape = (2, 2), detections = []\<rparr>] :: unit capture"
  have 1: "?rd 1 = None" by (simp add: video_reader_def)
  have "\<exists>st. read_loop (\<lambda>a b. 0) 2 1 (frame_skip 2) ?rd 0 (init_scan (1 / 2) 2 1) = Some (Inr st) \<and>
      frame_count st = 1 \<and> processed_frames st = (1 + frame_skip 2 - 1) div frame_skip 2"
    by (rule loop_reaches_end [of ?rd 1 1 2 "\<lambda>a b. 0" "1 / 2"]) (simp_all add: video_reader_def)
  with 1 show ?thesis by (rule conjI)
qed


end
