(* ===== verification/Report.thy ===== *)
theory Report
  imports Pipeline Smoothing Summary
begin

text \<open>
  The whole of \<^verbatim>\<open>detect_faces_in_video\<close> (\<^verbatim>\<open>src/face_detection.py\<close>, lines 9-144): the
  test of the capture, the video properties, the loop of theory \<open>Pipeline\<close>, the release
  of the capture, the summary, the smoothing, the report and its writing.

  \<open>analysis_result\<close> is the dictionary of lines 127-137. \<open>finish\<close> is what follows the
  loop (lines 118-144). \<open>detect_faces_in_video\<close> is the function; a \<open>run\<close> says how it
  ended (\<open>NotOpened\<close> for the early return of line 20, \<open>Raised\<close> for an exception that
  escapes, \<open>Completed\<close> with the report written and the lines printed), whether line
  118 released the capture, and what lines 140-141 did to the output file
  (\<open>file_effect\<close>: nothing, opened and left incomplete, or the report). What these two lines
  do is a parameter of the function, \<open>save\<close>: for a report it says whether
  \<^verbatim>\<open>open(output_path, 'w')\<close> raised, \<^verbatim>\<open>json.dump\<close> raised after the file was opened, or the
  report was written (\<open>write_result\<close>).

  The lemmas show that the report of a completed run is well formed, that it accounts for
  every encoded box of every sampled frame, which timestamps it holds, when the
  function raises, and when the capture is released.
\<close>

section \<open>Report and outcome\<close>

record processing_info =
  info_fps :: real
  info_frames_processed :: nat
  info_frame_skip :: nat

record report =
  video_duration :: real
  total_faces_detected :: nat
  speakers :: "speaker_summary list"
  faces :: "face_data list"
  processing_info :: processing_info

datatype run_outcome = NotOpened | Raised py_error | Completed report "event list"

datatype write_result = Saved | OpenFailed py_error | DumpFailed py_error

datatype file_effect = Untouched | Truncated | Dumped report

record run =
  outcome :: run_outcome
  capture_released :: bool
  output_file :: file_effect

section \<open>The function\<close>

definition analysis_result ::
  "real \<Rightarrow> speaker_summary list \<Rightarrow> face_data list \<Rightarrow> real \<Rightarrow> nat \<Rightarrow> nat \<Rightarrow> report" where
  "analysis_result duration speaker_list smoothed_faces fps n_processed skip =
     \<lparr>video_duration = duration,
      total_faces_detected = length smoothed_faces,
      speakers = speaker_list,
      faces = smoothed_faces,
      processing_info =
        \<lparr>info_fps = fps, info_frames_processed = n_processed, info_frame_skip = skip\<rparr>\<rparr>"

definition finish :: "real \<Rightarrow> real \<Rightarrow> (report \<Rightarrow> write_result) \<Rightarrow> 'e scan_state \<Rightarrow> run" where
  "finish duration fps save st =
     (let speaker_list = create_speaker_summary (all_faces st) (known_face_names (reg st));
          smoothed_faces = smooth_face_tracking (all_faces st);
          analysis =
            analysis_result duration speaker_list smoothed_faces fps (processed_frames st)
              (frame_skip fps)
      in case save analysis of
           OpenFailed e \<Rightarrow>
             \<lparr>outcome = Raised e, capture_released = True, output_file = Untouched\<rparr>
         | DumpFailed e \<Rightarrow>
             \<lparr>outcome = Raised e, capture_released = True, output_file = Truncated\<rparr>
         | Saved \<Rightarrow>
             \<lparr>outcome =
                Completed analysis
                  (printed st @
                     [DetectionComplete (length speaker_list) (length smoothed_faces),
                      ResultsSaved]),
              capture_released = True, output_file = Dumped analysis\<rparr>)"

definition detect_faces_in_video ::
  "('e \<Rightarrow> 'e \<Rightarrow> real) \<Rightarrow> 'e video \<Rightarrow> (report \<Rightarrow> write_result) \<Rightarrow> run" where
  "detect_faces_in_video dst cap save =
     (if \<not> cap_is_opened cap
      then \<lparr>outcome = NotOpened, capture_released = False, output_file = Untouched\<rparr>
      else
        let fps = cap_fps cap;
            total_frames = py_int (cap_frame_count cap)
        in (case py_truediv (real_of_int total_frames) fps of
              Inl e \<Rightarrow> \<lparr>outcome = Raised e, capture_released = False, output_file = Untouched\<rparr>
            | Inr duration \<Rightarrow>
                (case scan dst fps total_frames (frame_skip fps) (cap_frames cap)
                        (init_scan duration fps total_frames) of
                   Inl e \<Rightarrow>
                     \<lparr>outcome = Raised e, capture_released = False, output_file = Untouched\<rparr>
                 | Inr st \<Rightarrow> finish duration fps save st)))"

text \<open>
  \<open>saves\<close> is an output file that can be opened and a \<^verbatim>\<open>json.dump\<close> that serialises every
  report; \<open>write_error\<close> is the exception of a \<open>write_result\<close>, if any.
\<close>

definition saves :: "report \<Rightarrow> write_result" where
  "saves r = Saved"

definition write_error :: "write_result \<Rightarrow> py_error option" where
  "write_error w = (case w of Saved \<Rightarrow> None | OpenFailed e \<Rightarrow> Some e | DumpFailed e \<Rightarrow> Some e)"

section \<open>Abbreviations and an example video\<close>

definition single_face_video :: "real video" where
  "single_face_video =
     \<lparr>cap_is_opened = True, cap_fps = 2, cap_frame_count = 1,
      cap_frames = [\<lparr>frame_shape = (2, 2), detections = [((0, 0, 2, 2), Encoded 0)]\<rparr>]\<rparr>"

abbreviation cap_duration :: "'e video \<Rightarrow> real" where
  "cap_duration cap \<equiv> real_of_int (py_int (cap_frame_count cap)) / cap_fps cap"

abbreviation scan_video :: "('e \<Rightarrow> 'e \<Rightarrow> real) \<Rightarrow> 'e video \<Rightarrow> 'e scan_state result" where
  "scan_video dst cap \<equiv>
     scan dst (cap_fps cap) (py_int (cap_frame_count cap)) (frame_skip (cap_fps cap))
       (cap_frames cap) (init_scan (cap_duration cap) (cap_fps cap) (py_int (cap_frame_count cap)))"

abbreviation report_of :: "real \<Rightarrow> real \<Rightarrow> 'e scan_state \<Rightarrow> report" where
  "report_of d fps st \<equiv>
     analysis_result d (create_speaker_summary (all_faces st) (known_face_names (reg st)))
       (smooth_face_tracking (all_faces st)) fps (processed_frames st) (frame_skip fps)"

abbreviation final_report :: "'e video \<Rightarrow> 'e scan_state \<Rightarrow> report" where
  "final_report cap st \<equiv> report_of (cap_duration cap) (cap_fps cap) st"

abbreviation final_lines :: "'e scan_state \<Rightarrow> event list" where
  "final_lines st \<equiv>
     printed st @
       [DetectionComplete (length (create_speaker_summary (all_faces st) (known_face_names (reg st))))
          (length (all_faces st)),
        ResultsSaved]"

definition abs_dist :: "real \<Rightarrow> real \<Rightarrow> real" where
  "abs_dist a b = \<bar>a - b\<bar>"

section \<open>The whole run\<close>

lemma face_ok_smooth_face_tracking:
  assumes "\<forall>f \<in> set fs. face_ok f"
  shows "\<forall>f \<in> set (smooth_face_tracking fs). face_ok f"
proof
  fix f assume f: "f \<in> set (smooth_face_tracking fs)"
  from assms have "list_all face_centered fs" by (simp add: list_all_iff face_ok_def)
  then have "list_all face_centered (smooth_face_tracking fs)"
    by (rule face_centered_smooth_face_tracking)
  with f have c: "face_centered f" by (simp add: list_all_iff)
  from f have "confidence f \<in> set (map confidence (smooth_face_tracking fs))" by simp
  then have "confidence f \<in> set (map confidence fs)"
    by (metis mset_confidence_smooth set_mset_mset)
  then obtain g where "g \<in> set fs" "confidence g = confidence f" by auto
  with assms c show "face_ok f" by (auto simp: face_ok_def)
qed

lemma detect_not_opened:
  "\<not> cap_is_opened cap \<Longrightarrow>
     detect_faces_in_video dst cap oe = \<lparr>outcome = NotOpened, capture_released = False, output_file = Untouched\<rparr>"
  by (simp add: detect_faces_in_video_def)

lemma detect_fps_0:
  "cap_is_opened cap \<Longrightarrow> cap_fps cap = 0 \<Longrightarrow>
     detect_faces_in_video dst cap oe = \<lparr>outcome = Raised ZeroDivisionError, capture_released = False,
       output_file = Untouched\<rparr>"
  by (simp add: detect_faces_in_video_def)

lemma detect_scan:
  "cap_is_opened cap \<Longrightarrow> cap_fps cap \<noteq> 0 \<Longrightarrow>
     detect_faces_in_video dst cap oe =
       (case scan dst (cap_fps cap) (py_int (cap_frame_count cap)) (frame_skip (cap_fps cap))
               (cap_frames cap)
               (init_scan (real_of_int (py_int (cap_frame_count cap)) / cap_fps cap) (cap_fps cap)
                  (py_int (cap_frame_count cap))) of
          Inl e \<Rightarrow> \<lparr>outcome = Raised e, capture_released = False, output_file = Untouched\<rparr>
        | Inr st \<Rightarrow>
            finish (real_of_int (py_int (cap_frame_count cap)) / cap_fps cap) (cap_fps cap) oe st)"
  by (simp add: detect_faces_in_video_def Let_def)

lemma outcome_finish:
  "outcome (finish d fps oe st) =
     (case oe (report_of d fps st) of
        Saved \<Rightarrow> Completed (report_of d fps st) (final_lines st)
      | OpenFailed e \<Rightarrow> Raised e
      | DumpFailed e \<Rightarrow> Raised e)"
  "capture_released (finish d fps oe st)"
  "output_file (finish d fps oe st) =
     (case oe (report_of d fps st) of
        Saved \<Rightarrow> Dumped (report_of d fps st)
      | OpenFailed e \<Rightarrow> Untouched
      | DumpFailed e \<Rightarrow> Truncated)"
  by (simp_all add: finish_def Let_def split: write_result.splits)

lemma write_error_simps [simp]:
  "write_error Saved = None" "write_error (OpenFailed e) = Some e"
  "write_error (DumpFailed e) = Some e" "write_error (saves r) = None"
  by (simp_all add: write_error_def saves_def)

lemma write_error_None_iff: "write_error w = None \<longleftrightarrow> w = Saved"
  by (cases w) simp_all

lemma detect_Completed:
  assumes "outcome (detect_faces_in_video dst cap oe) = Completed r evs"
  shows "\<exists>st. cap_is_opened cap \<and> cap_fps cap \<noteq> 0 \<and> scan_video dst cap = Inr st \<and>
     oe (final_report cap st) = Saved \<and> r = final_report cap st \<and> evs = final_lines st"
proof -
  from assms have o: "cap_is_opened cap" by (rule contrapos_pp) (simp add: detect_not_opened)
  from assms have f: "cap_fps cap \<noteq> 0" by (rule contrapos_pn) (simp add: detect_fps_0 o)
  from assms show ?thesis
    unfolding detect_scan [OF o f] using o f
    by (auto simp: outcome_finish split: sum.splits write_result.splits)
qed

lemma single_face_video_sel [simp]:
  "cap_is_opened single_face_video" "cap_fps single_face_video = 2"
  "cap_frame_count single_face_video = 1"
  "cap_frames single_face_video =
     [\<lparr>frame_shape = (2, 2), detections = [((0, 0, 2, 2), Encoded 0)]\<rparr>]"
  by (simp_all add: single_face_video_def)

lemma analysis_result_sel [simp]:
  "video_duration (analysis_result d sp fs fps n k) = d"
  "total_faces_detected (analysis_result d sp fs fps n k) = length fs"
  "speakers (analysis_result d sp fs fps n k) = sp"
  "faces (analysis_result d sp fs fps n k) = fs"
  "info_fps (processing_info (analysis_result d sp fs fps n k)) = fps"
  "info_frames_processed (processing_info (analysis_result d sp fs fps n k)) = n"
  "info_frame_skip (processing_info (analysis_result d sp fs fps n k)) = k"
  by (simp_all add: analysis_result_def)

lemma detect_completes:
  assumes "cap_is_opened cap" "cap_fps cap \<noteq> 0" "py_int (cap_frame_count cap) \<noteq> 0"
  shows "\<exists>r evs. outcome (detect_faces_in_video dst cap saves) = Completed r evs"
proof -
  from scan_ok [OF assms(3)] obtain st where
    "scan_video dst cap = Inr st"
    by blast
  then show ?thesis by (simp add: detect_scan [OF assms(1,2)] outcome_finish saves_def)
qed

lemma single_face_video_completes:
  "\<exists>r evs. outcome (detect_faces_in_video abs_dist single_face_video saves) = Completed r evs"
  by (rule detect_completes) simp_all

lemma detect_final_state:
  assumes "outcome (detect_faces_in_video dst cap oe) = Completed r evs"
  obtains st where
    "scan_video dst cap = Inr st"
    "r = final_report cap st"
    "face_errors evs = face_errors (printed st)"
    "cap_fps cap \<noteq> 0"
  using detect_Completed [OF assms]
  by (auto simp: face_errors_def is_face_error_def)

lemma scan_inv_speakers:
  assumes "scan_inv st"
  shows "\<exists>n. speakers_of (all_faces st) = map speaker_name [1..<Suc n]"
proof -
  from assms have "speakers_of (all_faces st) = map speaker_name [1..<speaker_id_counter (reg st)]"
    and "1 \<le> speaker_id_counter (reg st)"
    by (simp_all add: scan_inv_def tracks_inv_def registry_inv_def)
  then show ?thesis by (cases "speaker_id_counter (reg st)") auto
qed

text \<open>
  C5 (invariant). The report of a completed run is well formed: the number of detections it
  announces is the length of its list of detections, the detections are in the order of
  their timestamps, each has its centre consistent with its box and a confidence between 0
  and 100, the appearances of the speakers add up to the number of detections, and for some
  \<open>n\<close> the speakers of the summaries and of the detections are exactly
  \<^verbatim>\<open>speaker_1\<close>, ..., \<^verbatim>\<open>speaker_n\<close>, each once in the summaries.
\<close>

theorem report_well_formed:
  assumes "outcome (detect_faces_in_video dst cap oe) = Completed r evs"
  shows "total_faces_detected r = length (faces r) \<and>
         sorted (map timestamp (faces r)) \<and>
         (\<forall>f \<in> set (faces r). face_ok f) \<and>
         sum_list (map appearances (speakers r)) = total_faces_detected r \<and>
         (\<exists>n. mset (map speaker_id (speakers r)) = mset (map speaker_name [1..<Suc n]) \<and>
              speakerId ` set (faces r) = speaker_name ` {1..<Suc n})"
proof -
  from assms obtain st where st: "scan_video dst cap = Inr st" and r: "r = final_report cap st"
    by (rule detect_final_state)
  from scan_inv_preserved [OF st] have inv: "scan_inv st" by simp
  then have ok: "\<forall>f \<in> set (all_faces st). face_ok f" by (simp add: scan_inv_def)
  from scan_inv_speakers [OF inv] obtain n
    where sp: "speakers_of (all_faces st) = map speaker_name [1..<Suc n]" by blast
  have "mset (map speaker_id (speakers r)) = mset (speakers_of (all_faces st))"
    unfolding r analysis_result_sel by (rule mset_speaker_ids)
  then have ids: "mset (map speaker_id (speakers r)) = mset (map speaker_name [1..<Suc n])"
    by (simp only: sp)
  have fids: "speakerId ` set (faces r) = speaker_name ` {1..<Suc n}"
  proof -
    have "speakerId ` set (faces r) = set (map speakerId (smooth_face_tracking (all_faces st)))"
      by (simp add: r)
    also have "\<dots> = set (map speakerId (all_faces st))"
      by (metis mset_speakerId_smooth set_mset_mset)
    also have "\<dots> = set (speakers_of (all_faces st))" by simp
    also have "\<dots> = speaker_name ` {1..<Suc n}" by (simp only: sp set_map set_upt)
    finally show ?thesis .
  qed
  show ?thesis
  proof (intro conjI)
    show "total_faces_detected r = length (faces r)" by (simp add: r)
    show "sorted (map timestamp (faces r))" by (simp add: r)
    from ok show "\<forall>f \<in> set (faces r). face_ok f"
      by (simp add: r face_ok_smooth_face_tracking)
    show "sum_list (map appearances (speakers r)) = total_faces_detected r"
      by (simp add: r sum_appearances)
    from ids fids
    show "\<exists>n. mset (map speaker_id (speakers r)) = mset (map speaker_name [1..<Suc n]) \<and>
              speakerId ` set (faces r) = speaker_name ` {1..<Suc n}"
      by blast
  qed
qed

theorem report_well_formed_witness:
  "\<exists>r evs. outcome (detect_faces_in_video abs_dist single_face_video saves) = Completed r evs \<and>
     total_faces_detected r = length (faces r) \<and>
     sorted (map timestamp (faces r)) \<and>
     (\<forall>f \<in> set (faces r). face_ok f) \<and>
     sum_list (map appearances (speakers r)) = total_faces_detected r \<and>
     (\<exists>n. mset (map speaker_id (speakers r)) = mset (map speaker_name [1..<Suc n]) \<and>
          speakerId ` set (faces r) = speaker_name ` {1..<Suc n})"
proof -
  from single_face_video_completes obtain r evs
    where c: "outcome (detect_faces_in_video abs_dist single_face_video saves) = Completed r evs"
    by blast
  from c report_well_formed [OF c] show ?thesis by blast
qed

text \<open>
  C6 (functional). Per-detection failures are isolated and nothing else is lost: in a
  completed run the report holds exactly one detection for every box of a sampled frame
  for which the encoder returned an embedding, one error line was printed for every box on
  which the encoder raised, and the number of frames processed is the number of frame
  indices below the number of frames read that are multiples of \<open>frame_skip\<close>.
\<close>

theorem detections_accounted:
  assumes "outcome (detect_faces_in_video dst cap oe) = Completed r evs"
  shows "total_faces_detected r =
           sum_list (map encoded_count (sampled_frames (frame_skip (cap_fps cap)) 0 (cap_frames cap))) \<and>
         face_errors evs =
           sum_list (map raised_count (sampled_frames (frame_skip (cap_fps cap)) 0 (cap_frames cap))) \<and>
         info_frames_processed (processing_info r) =
           (length (cap_frames cap) + frame_skip (cap_fps cap) - 1) div frame_skip (cap_fps cap)"
proof -
  from assms obtain st where st: "scan_video dst cap = Inr st" and r: "r = final_report cap st"
    and evs: "face_errors evs = face_errors (printed st)"
    by (rule detect_final_state)
  from scan_inv_preserved [OF st] scan_counters [OF st] evs show ?thesis
    by (simp add: r length_sampled_frames_0)
qed

theorem detections_accounted_witness:
  "\<exists>r evs. outcome (detect_faces_in_video abs_dist single_face_video saves) = Completed r evs \<and>
     total_faces_detected r = 1 \<and> face_errors evs = 0 \<and>
     info_frames_processed (processing_info r) = 1"
proof -
  from single_face_video_completes obtain r evs
    where c: "outcome (detect_faces_in_video abs_dist single_face_video saves) = Completed r evs"
    by blast
  from detections_accounted [OF c] have "total_faces_detected r = 1 \<and> face_errors evs = 0 \<and>
     info_frames_processed (processing_info r) = 1"
    by (simp add: frame_skip_small sampled_def encoded_count_def raised_count_def is_encoded_def
        encoder_raised_def)
  with c show ?thesis by blast
qed

text \<open>
  C28 (safety). With a positive frame rate, every detection of the report carries the
  timestamp of a sampled frame that was read: \<open>k / fps\<close> for a frame index \<open>k\<close> below the
  number of frames that is a multiple of \<open>frame_skip\<close>.
\<close>

theorem report_timestamps:
  assumes "outcome (detect_faces_in_video dst cap oe) = Completed r evs" "0 < cap_fps cap"
  shows "\<forall>f \<in> set (faces r). \<exists>k < length (cap_frames cap).
           sampled (frame_skip (cap_fps cap)) k \<and> timestamp f = real k / cap_fps cap"
proof
  fix f assume f: "f \<in> set (faces r)"
  from assms(1) obtain st where st: "scan_video dst cap = Inr st" and r: "r = final_report cap st"
    by (rule detect_final_state)
  have "timeline_inv (cap_fps cap) (frame_skip (cap_fps cap)) st"
    using st _ _ assms(2) by (rule scan_timeline) (simp_all add: tracks_inv_def)
  moreover from scan_counters [OF st] have "frame_count st = length (cap_frames cap)" by simp
  moreover from f have "timestamp f \<in> set (map timestamp (smooth_face_tracking (all_faces st)))"
    by (simp add: r)
  then have "timestamp f \<in> set (map timestamp (all_faces st))"
    by (metis mset_timestamp_smooth set_mset_mset)
  ultimately show "\<exists>k < length (cap_frames cap).
      sampled (frame_skip (cap_fps cap)) k \<and> timestamp f = real k / cap_fps cap"
    by (auto simp: timeline_inv_def)
qed

theorem report_timestamps_witness:
  "\<exists>r evs. outcome (detect_faces_in_video abs_dist single_face_video saves) = Completed r evs \<and>
     0 < cap_fps single_face_video \<and>
     (\<forall>f \<in> set (faces r). \<exists>k < length (cap_frames single_face_video).
        sampled (frame_skip (cap_fps single_face_video)) k \<and>
        timestamp f = real k / cap_fps single_face_video)"
proof -
  from single_face_video_completes obtain r evs
    where c: "outcome (detect_faces_in_video abs_dist single_face_video saves) = Completed r evs"
    by blast
  have p: "0 < cap_fps single_face_video" by simp
  from c p report_timestamps [OF c p] show ?thesis by blast
qed

lemma detect_cases:
  "\<not> cap_is_opened cap \<and>
     detect_faces_in_video dst cap oe =
       \<lparr>outcome = NotOpened, capture_released = False, output_file = Untouched\<rparr> \<or>
   cap_is_opened cap \<and> cap_fps cap = 0 \<and>
     detect_faces_in_video dst cap oe =
       \<lparr>outcome = Raised ZeroDivisionError, capture_released = False, output_file = Untouched\<rparr> \<or>
   cap_is_opened cap \<and> cap_fps cap \<noteq> 0 \<and> scan_video dst cap = Inl ZeroDivisionError \<and>
     detect_faces_in_video dst cap oe =
       \<lparr>outcome = Raised ZeroDivisionError, capture_released = False, output_file = Untouched\<rparr> \<or>
   (\<exists>st. cap_is_opened cap \<and> cap_fps cap \<noteq> 0 \<and> scan_video dst cap = Inr st \<and>
     detect_faces_in_video dst cap oe = finish (cap_duration cap) (cap_fps cap) oe st)"
proof (cases "cap_is_opened cap \<and> cap_fps cap \<noteq> 0")
  case False
  then show ?thesis by (cases "cap_is_opened cap") (simp_all add: detect_not_opened detect_fps_0)
next
  case True
  then show ?thesis
    by (cases "scan_video dst cap") (auto simp: detect_scan dest: scan_Inl)
qed

lemma detect_Completed_Saved:
  "outcome (detect_faces_in_video dst cap oe) = Completed r evs \<Longrightarrow> oe r = Saved"
  by (drule detect_Completed) blast

lemma detect_saves:
  assumes "outcome (detect_faces_in_video dst cap oe) = Completed r evs"
  shows "detect_faces_in_video dst cap saves = detect_faces_in_video dst cap oe"
proof -
  from detect_Completed [OF assms] obtain st where "cap_is_opened cap" "cap_fps cap \<noteq> 0"
    "scan_video dst cap = Inr st" "oe (final_report cap st) = Saved"
    by blast
  then show ?thesis by (simp add: detect_scan finish_def Let_def saves_def)
qed

lemma detect_NotOpened_iff:
  "outcome (detect_faces_in_video dst cap oe) = NotOpened \<longleftrightarrow> \<not> cap_is_opened cap"
  using detect_cases [of cap dst oe]
  by (auto simp: outcome_finish split: write_result.splits)

lemma output_file_Completed:
  "outcome (detect_faces_in_video dst cap oe) = Completed r evs \<Longrightarrow>
     output_file (detect_faces_in_video dst cap oe) = Dumped r"
  using detect_cases [of cap dst oe]
  by (auto simp: outcome_finish split: write_result.splits)

lemma output_file_NotOpened:
  "\<not> cap_is_opened cap \<Longrightarrow> output_file (detect_faces_in_video dst cap oe) = Untouched"
  by (simp add: detect_not_opened)

lemma output_file_Untouched:
  assumes "outcome (detect_faces_in_video dst cap oe) = Raised e" "\<And>r e'. oe r \<noteq> DumpFailed e'"
  shows "output_file (detect_faces_in_video dst cap oe) = Untouched"
  using detect_cases [of cap dst oe] assms
  by (auto simp: outcome_finish split: write_result.splits)

lemma detect_dump_failed:
  assumes "outcome (detect_faces_in_video dst cap saves) = Completed r evs" "oe r = DumpFailed e"
  shows "detect_faces_in_video dst cap oe =
     \<lparr>outcome = Raised e, capture_released = True, output_file = Truncated\<rparr>"
proof -
  from detect_Completed [OF assms(1)] obtain st where "cap_is_opened cap" "cap_fps cap \<noteq> 0"
    "scan_video dst cap = Inr st" "r = final_report cap st"
    by blast
  with assms(2) show ?thesis by (simp add: detect_scan finish_def Let_def)
qed

lemma scan_video_raises_iff:
  "(\<exists>e. scan_video dst cap = Inl e) \<longleftrightarrow>
     py_int (cap_frame_count cap) = 0 \<and> 9 * frame_skip (cap_fps cap) < length (cap_frames cap)"
  using scan_raises_iff [of "init_scan (cap_duration cap) (cap_fps cap) (py_int (cap_frame_count cap))"
      dst "cap_fps cap" "py_int (cap_frame_count cap)" "frame_skip (cap_fps cap)" "cap_frames cap"]
  by (simp add: length_sampled_frames_0 ten_sampled_iff)

text \<open>
  C7 (error). \<^verbatim>\<open>detect_faces_in_video\<close> lets an exception escape in exactly three
  situations. The capture opened but reports a frame rate of 0: the division of line 25
  raises \<^verbatim>\<open>ZeroDivisionError\<close>. It reports a frame count of 0 and delivers more than nine
  times \<open>frame_skip\<close> frames: a tenth frame is processed and the progress line divides by
  the frame count (line 113), again a \<^verbatim>\<open>ZeroDivisionError\<close>. Or the loop ends and opening
  the output file (line 140) or \<^verbatim>\<open>json.dump\<close> on the report (line 141) raises: that exception
  escapes.
\<close>

theorem detect_raises_iff:
  "outcome (detect_faces_in_video dst cap oe) = Raised e \<longleftrightarrow>
     cap_is_opened cap \<and>
     (if cap_fps cap = 0 \<or>
         py_int (cap_frame_count cap) = 0 \<and> 9 * frame_skip (cap_fps cap) < length (cap_frames cap)
      then e = ZeroDivisionError
      else \<exists>st. scan_video dst cap = Inr st \<and> write_error (oe (final_report cap st)) = Some e)"
  using detect_cases [of cap dst oe] scan_video_raises_iff [of dst cap]
  by (elim disjE exE conjE) (auto simp: outcome_finish split: write_result.splits)

text \<open>
  C19 (safety). The capture is released (line 118) exactly when the loop ends without an
  exception: not when the capture did not open, and not when one of the two divisions by
  zero escapes. A failure to open or to write the output file comes after the release.
\<close>

theorem capture_released_iff:
  "capture_released (detect_faces_in_video dst cap oe) \<longleftrightarrow>
     cap_is_opened cap \<and> cap_fps cap \<noteq> 0 \<and>
     \<not> (py_int (cap_frame_count cap) = 0 \<and>
        9 * frame_skip (cap_fps cap) < length (cap_frames cap))"
  using detect_cases [of cap dst oe] scan_video_raises_iff [of dst cap]
  by (elim disjE exE conjE) (auto simp: outcome_finish)

end
