(* ===== verification/Schema.thy ===== *)
theory Schema
  imports Report
begin

text \<open>
  The detections of a report against the data model: where each detection comes from, and
  that it is a record of the shape the consumers of the report rely on.

  \<open>face_measure\<close> is what the program measures for a detection (timestamp, box and
  confidence; the speaker is resolved, not measured). \<open>detection_measure\<close>,
  \<open>frame_measures\<close> and \<open>scan_measures\<close> say what the loop of \<^verbatim>\<open>detect_faces_in_video\<close>
  (\<^verbatim>\<open>src/face_detection.py\<close>, lines 44-116) has to measure on a box, on a sampled frame and
  on a sequence of frames: one entry for every box with an embedding, at the time of its
  frame, with the confidence of its box in its frame. \<open>detection_wf\<close> is the detection of
  the data model: a timestamp and a box that are not negative, a confidence between 0 and
  100, and a centre derived from the box.
\<close>

section \<open>Definitions\<close>

definition face_measure :: "face_data \<Rightarrow> real \<times> box \<times> real" where
  "face_measure f = (timestamp f, (face_x f, face_y f, width f, height f), confidence f)"

definition detection_measure ::
  "real \<Rightarrow> int \<times> int \<Rightarrow> box \<times> 'e encoding_result \<Rightarrow> real \<times> box \<times> real" where
  "detection_measure ts shape d =
     (case d of ((x, y, w, h), enc) \<Rightarrow> (ts, (x, y, w, h), calculate_face_confidence x y w h shape))"

definition frame_measures :: "real \<Rightarrow> nat \<Rightarrow> 'e frame \<Rightarrow> (real \<times> box \<times> real) list" where
  "frame_measures fps k frame =
     map (detection_measure (real k / fps) (frame_shape frame))
       (filter is_encoded (detections frame))"

fun scan_measures :: "real \<Rightarrow> nat \<Rightarrow> nat \<Rightarrow> 'e frame list \<Rightarrow> (real \<times> box \<times> real) list" where
  "scan_measures fps skip k [] = []"
| "scan_measures fps skip k (frame # rest) =
     (if sampled skip k then frame_measures fps k frame else []) @
     scan_measures fps skip (Suc k) rest"

definition box_nonneg :: "box \<Rightarrow> bool" where
  "box_nonneg b \<longleftrightarrow> (case b of (x, y, w, h) \<Rightarrow> 0 \<le> x \<and> 0 \<le> y \<and> 0 \<le> w \<and> 0 \<le> h)"

definition detection_wf :: "face_data \<Rightarrow> bool" where
  "detection_wf f \<longleftrightarrow>
     0 \<le> timestamp f \<and> box_nonneg (face_x f, face_y f, width f, height f) \<and>
     0 \<le> confidence f \<and> confidence f \<le> 100 \<and> face_centered f"

section \<open>What the loop measures\<close>

text \<open>
  While the registry invariant holds the resolver never raises, so every box with an
  embedding adds exactly one detection with the measures of that box.
\<close>

lemma face_measure_make_face [simp]:
  "face_measure (make_face ts x y w h c s) = (ts, (x, y, w, h), c)"
  by (simp add: face_measure_def)

lemma tracks_inv_init [simp]: "tracks_inv (init_scan d fps tf)"
  using scan_inv_init [of d fps tf] by (simp add: scan_inv_def)

lemma process_face_measures:
  assumes "tracks_inv st"
  shows "map face_measure (all_faces (process_face dst ts shape d st)) =
     map face_measure (all_faces st) @ (if is_encoded d then [detection_measure ts shape d] else [])"
proof -
  obtain x y w h enc where d: "d = ((x, y, w, h), enc)" by (metis prod.exhaust)
  show ?thesis
  proof (cases enc)
    case (Encoded e)
    from assms have "registry_inv (reg st)" by (simp add: tracks_inv_def)
    from resolve_speaker_step [OF this, of dst e]
    obtain name reg' where "resolve_speaker dst e (reg st) = Inr (name, reg')" by blast
    with Encoded d show ?thesis
      by (simp add: process_face_Encoded is_encoded_def detection_measure_def)
  qed (simp_all add: d process_face_simps is_encoded_def)
qed

lemma process_faces_measures:
  assumes "tracks_inv st"
  shows "map face_measure (all_faces (process_faces dst (real k / fps) frame st)) =
     map face_measure (all_faces st) @ frame_measures fps k frame"
  unfolding process_faces_def frame_measures_def
proof (induction "detections frame" arbitrary: frame rule: rev_induct)
  case Nil
  then show ?case by simp
next
  case (snoc d ds)
  let ?st1 = "foldl (\<lambda>s d. process_face dst (real k / fps) (frame_shape frame) d s) st ds"
  from process_faces_fold [OF assms] have "tracks_inv ?st1" by simp
  from process_face_measures [OF this, of dst "real k / fps" "frame_shape frame" d]
    snoc(1) [of "frame\<lparr>detections := ds\<rparr>"] snoc(2) [symmetric]
  show ?case by simp
qed

lemma process_frame_measures:
  assumes "process_frame dst fps tf skip frame st = Inr st'" "tracks_inv st"
  shows "map face_measure (all_faces st') =
     map face_measure (all_faces st) @
     (if sampled skip (frame_count st) then frame_measures fps (frame_count st) frame else [])"
  using assms process_faces_measures [OF assms(2), of dst "frame_count st" fps frame]
  by (auto simp: process_frame_def sampled_def Let_def report_progress_def
      split: if_splits sum.splits)

lemma scan_measures_eq:
  assumes "scan dst fps tf skip frames st = Inr st'" "tracks_inv st"
  shows "map face_measure (all_faces st') =
     map face_measure (all_faces st) @ scan_measures fps skip (frame_count st) frames"
  using assms
proof (induction frames arbitrary: st)
  case Nil
  then show ?case by simp
next
  case (Cons frame rest)
  then obtain st1 where 1: "process_frame dst fps tf skip frame st = Inr st1"
    and 2: "scan dst fps tf skip rest st1 = Inr st'"
    by (auto split: sum.splits)
  from process_frame_inv [OF 1 Cons.prems(2)] have "tracks_inv st1" by simp
  from Cons.IH [OF 2 this] process_frame_measures [OF 1 Cons.prems(2)]
    process_frame_counters [OF 1]
  show ?case by simp
qed

lemma scan_measures_mem:
  assumes "m \<in> set (scan_measures fps skip k frames)"
  obtains i frame d where "frame \<in> set frames" "d \<in> set (detections frame)"
    "m = detection_measure (real i / fps) (frame_shape frame) d"
  using assms
proof (induction frames arbitrary: k thesis)
  case Nil
  then show ?case by simp
next
  case (Cons frame rest)
  from Cons.prems(2) consider "m \<in> set (frame_measures fps k frame)"
    | "m \<in> set (scan_measures fps skip (Suc k) rest)"
    by (auto split: if_splits)
  then show ?case
  proof cases
    case 1
    then obtain d where "d \<in> set (detections frame)"
      "m = detection_measure (real k / fps) (frame_shape frame) d"
      by (auto simp: frame_measures_def)
    then show ?thesis by (intro Cons.prems(1) [of frame d k]) simp_all
  next
    case 2
    show ?thesis by (rule Cons.IH [OF _ 2]) (rule Cons.prems(1), simp_all)
  qed
qed

text \<open>
  C14 (functional). What the detections of a report are: in a completed run, the
  timestamps, widths, heights and confidences of the detections of the report are, as a
  multiset, those measured on the boxes with an embedding of the sampled frames: the time
  is the frame index divided by the frame rate, the size is that of the detector's box
  and the confidence is \<^verbatim>\<open>calculate_face_confidence\<close> of the box in its frame. Smoothing
  changes positions only.
\<close>

theorem detections_content:
  assumes "outcome (detect_faces_in_video dst cap oe) = Completed r evs"
  shows "mset (map (\<lambda>f. (timestamp f, width f, height f, confidence f)) (faces r)) =
         mset (map (\<lambda>(ts, (x, y, w, h), c). (ts, w, h, c))
                 (scan_measures (cap_fps cap) (frame_skip (cap_fps cap)) 0 (cap_frames cap)))"
proof -
  from assms(1) obtain st where st: "scan_video dst cap = Inr st" and r: "r = final_report cap st"
    by (rule detect_final_state)
  let ?core = "\<lambda>f. (timestamp f, width f, height f, confidence f)"
  let ?g = "\<lambda>(ts, w, h, c, s). (ts, w, h, c)" and ?h = "\<lambda>(ts, (x, y, w, h), c). (ts, w, h, c)"
  have g: "mset (map ?core fs) = image_mset ?g (mset (map face_static fs))" for fs
    by (simp add: face_static_def multiset.map_comp comp_def)
  have h: "map ?core fs = map ?h (map face_measure fs)" for fs
    by (simp add: face_measure_def)
  have "mset (map ?core (faces r)) = mset (map ?core (all_faces st))"
    unfolding g by (simp only: r analysis_result_sel mset_face_static_smooth)
  also have "\<dots> = mset (map ?h (map face_measure (all_faces st)))"
    by (simp only: h)
  also have "map face_measure (all_faces st) =
      scan_measures (cap_fps cap) (frame_skip (cap_fps cap)) 0 (cap_frames cap)"
    using scan_measures_eq [OF st] by simp
  finally show ?thesis .
qed

theorem detections_content_witness:
  "\<exists>r evs. outcome (detect_faces_in_video abs_dist single_face_video saves) = Completed r evs \<and>
     mset (map (\<lambda>f. (timestamp f, width f, height f, confidence f)) (faces r)) =
       {#(0, 2, 2, calculate_face_confidence 0 0 2 2 (2, 2))#}"
proof -
  from single_face_video_completes obtain r evs
    where c: "outcome (detect_faces_in_video abs_dist single_face_video saves) = Completed r evs"
    by blast
  from detections_content [OF c] c show ?thesis
    by (simp add: frame_skip_def frame_measures_def detection_measure_def is_encoded_def
        sampled_def)
qed

section \<open>The detections of a report are well formed\<close>

lemma smooth_speaker_list_pred:
  assumes "list_all P l" "\<And>p c n. P p \<Longrightarrow> P c \<Longrightarrow> P n \<Longrightarrow> P (smoothed_face p c n)"
  shows "list_all P (smooth_speaker_list l)"
  using assms by (auto simp: list_all_length smooth_speaker_list_nth)

lemma smooth_face_tracking_pred:
  assumes "list_all P fs" "\<And>p c n. P p \<Longrightarrow> P c \<Longrightarrow> P n \<Longrightarrow> P (smoothed_face p c n)"
  shows "list_all P (smooth_face_tracking fs)"
proof -
  have "list_all P (smooth_group k fs)" for k
    unfolding smooth_group_def using assms
    by (intro smooth_speaker_list_pred) (simp_all add: list_all_iff faces_of_def)
  then show ?thesis
    by (simp add: smooth_face_tracking_eq list_all_iff)
qed

lemma smooth_coord_ge_0: "0 \<le> p \<Longrightarrow> 0 \<le> c \<Longrightarrow> 0 \<le> n \<Longrightarrow> 0 \<le> smooth_coord p c n"
  by (simp add: smooth_coord_nonneg mean3_def)

lemma detection_wf_smoothed:
  "detection_wf p \<Longrightarrow> detection_wf c \<Longrightarrow> detection_wf n \<Longrightarrow> detection_wf (smoothed_face p c n)"
  by (simp add: detection_wf_def box_nonneg_def smooth_coord_ge_0)

lemma detection_wf_iff:
  "detection_wf f \<longleftrightarrow>
     face_ok f \<and> 0 \<le> timestamp f \<and> box_nonneg (fst (snd (face_measure f)))"
  by (auto simp: detection_wf_def face_ok_def face_measure_def)

lemma scan_detection_wf:
  assumes "scan dst fps tf skip frames (init_scan d fps tf) = Inr st" "0 < fps"
    and "\<forall>frame \<in> set frames. \<forall>d \<in> set (detections frame). box_nonneg (fst d)"
  shows "list_all detection_wf (all_faces st)"
proof -
  from scan_inv_preserved [OF assms(1) scan_inv_init] have ok: "\<forall>f \<in> set (all_faces st). face_ok f"
    by (simp add: scan_inv_def)
  have "map face_measure (all_faces st) = scan_measures fps skip 0 frames"
    using scan_measures_eq [OF assms(1)] by simp
  then have "face_measure ` set (all_faces st) = set (scan_measures fps skip 0 frames)"
    by (metis list.set_map)
  then have "\<forall>f \<in> set (all_faces st). \<exists>i frame d. frame \<in> set frames \<and>
      d \<in> set (detections frame) \<and> face_measure f = detection_measure (real i / fps) (frame_shape frame) d"
    by (blast elim: scan_measures_mem)
  with assms(2,3) have "\<forall>f \<in> set (all_faces st). 0 \<le> timestamp f \<and> box_nonneg (fst (snd (face_measure f)))"
    by (fastforce simp: face_measure_def detection_measure_def split: prod.splits)
  with ok show ?thesis by (simp add: list_all_iff detection_wf_iff)
qed

text \<open>
  C13 (type). Every detection of a report is a detection of the data model. In a
  completed run on a video with a positive frame rate whose detector returns boxes with
  non-negative coordinates and sizes, every detection of the report has a timestamp, a
  position and a size that are not negative, a confidence between 0 and 100 and the centre
  of its box, also after smoothing has replaced its position.
\<close>

theorem report_detections_typed:
  assumes "outcome (detect_faces_in_video dst cap oe) = Completed r evs" "0 < cap_fps cap"
    and "\<forall>frame \<in> set (cap_frames cap). \<forall>d \<in> set (detections frame). box_nonneg (fst d)"
  shows "list_all detection_wf (faces r)"
proof -
  from assms(1) obtain st where st: "scan_video dst cap = Inr st" and r: "r = final_report cap st"
    by (rule detect_final_state)
  from scan_detection_wf [OF st assms(2,3)] have "list_all detection_wf (all_faces st)" .
  then have "list_all detection_wf (smooth_face_tracking (all_faces st))"
    by (rule smooth_face_tracking_pred) (rule detection_wf_smoothed)
  then show ?thesis by (simp add: r)
qed

theorem report_detections_typed_witness:
  "\<exists>r evs. outcome (detect_faces_in_video abs_dist single_face_video saves) = Completed r evs \<and>
     list_all detection_wf (faces r)"
proof -
  from single_face_video_completes obtain r evs
    where c: "outcome (detect_faces_in_video abs_dist single_face_video saves) = Completed r evs"
    by blast
  from report_detections_typed [OF c] c show ?thesis by (auto simp: box_nonneg_def)
qed

text \<open>
  The positions are not bounded from above by this: a smoothed box keeps its width and can
  end beyond the frame its neighbours were found in. Three detections of one speaker in a
  frame 100 pixels wide, each inside the frame; the second one is 100 pixels wide and is
  moved to \<open>x = 53\<close>.
\<close>

lemma smoothed_box_leaves_frame:
  "map (\<lambda>f. face_x f + width f)
     (smooth_face_tracking
        [make_face 0 80 0 20 20 50 ''speaker_1'', make_face 1 0 0 100 20 50 ''speaker_1'',
         make_face 2 80 0 20 20 50 ''speaker_1'']) = [100, 153, 100]"
  by (simp add: smooth_face_tracking_def group_by_speaker_def od_group_def
      smooth_speaker_list_def smoothed_face_def smooth_coord_def make_face_def py_defs
      Let_def upt_rec numeral_3_eq_3)

end
