(* ===== verification/Subject.thy ===== *)
theory Subject
  imports Schema
begin

text \<open>
  One person in front of the camera: the identity resolver, the detection loop and the
  aggregator together.

  \<open>frame_encodings\<close> lists the embeddings the encoder returns on a frame and
  \<open>one_subject\<close> says that any two embeddings of a video are within the tolerance of each
  other, which is what the encoder is expected to deliver for pictures of one face.
  \<open>one_entry\<close> is the invariant of the registry on such a video: at most one reference,
  taken from the video. \<open>spec_example_video\<close> is a video of 10 seconds at 10 frames per
  second with one face in frames 0 to 49 and none afterwards.

  The lemmas \<open>process_face_reg\<close> to \<open>scan_reg\<close> lift a property of the registry that every
  resolution step keeps to the whole loop of \<^verbatim>\<open>detect_faces_in_video\<close>.
\<close>

section \<open>Definitions\<close>

definition frame_encodings :: "'e frame \<Rightarrow> 'e list" where
  "frame_encodings frame =
     concat (map (\<lambda>d. case snd d of Encoded e \<Rightarrow> [e] | _ \<Rightarrow> []) (detections frame))"

definition one_subject :: "('e \<Rightarrow> 'e \<Rightarrow> real) \<Rightarrow> 'e frame list \<Rightarrow> bool" where
  "one_subject dst frames \<longleftrightarrow>
     (\<forall>e \<in> set (concat (map frame_encodings frames)).
        \<forall>e' \<in> set (concat (map frame_encodings frames)). dst e e' \<le> tolerance)"

definition one_entry :: "'e set \<Rightarrow> 'e registry \<Rightarrow> bool" where
  "one_entry E r \<longleftrightarrow>
     registry_inv r \<and> length (known_face_encodings r) \<le> 1 \<and> set (known_face_encodings r) \<subseteq> E"

definition spec_example_video :: "real video" where
  "spec_example_video =
     \<lparr>cap_is_opened = True, cap_fps = 10, cap_frame_count = 100,
      cap_frames =
        replicate 50 \<lparr>frame_shape = (2, 2), detections = [((0, 0, 2, 2), Encoded 0)]\<rparr> @
        replicate 50 \<lparr>frame_shape = (2, 2), detections = []\<rparr>\<rparr>"

section \<open>Properties of the registry along the loop\<close>

lemma process_face_reg:
  assumes "J (reg st)"
    and "\<And>r e name r'. J r \<Longrightarrow> snd d = Encoded e \<Longrightarrow> resolve_speaker dst e r = Inr (name, r') \<Longrightarrow> J r'"
  shows "J (reg (process_face dst ts shape d st))"
proof -
  obtain b enc where d: "d = (b, enc)" by (cases d)
  show ?thesis
  proof (cases enc)
    case (Encoded e)
    show ?thesis
    proof (cases "resolve_speaker dst e (reg st)")
      case (Inl err)
      with Encoded d assms(1) show ?thesis by (cases b) (simp add: process_face_def)
    next
      case (Inr p)
      obtain name r' where p: "p = (name, r')" by (cases p)
      from assms(2) [of "reg st" e name r'] assms(1) Encoded d Inr p have "J r'" by simp
      with Encoded d Inr p show ?thesis by (cases b) (simp add: process_face_def)
    qed
  qed (use assms(1) d in \<open>simp_all add: process_face_simps\<close>)
qed

lemma process_faces_reg:
  assumes "J (reg st)"
    and "\<And>r e name r'. J r \<Longrightarrow> e \<in> set (frame_encodings frame) \<Longrightarrow>
           resolve_speaker dst e r = Inr (name, r') \<Longrightarrow> J r'"
  shows "J (reg (process_faces dst ts frame st))"
proof -
  have "J (reg (foldl (\<lambda>s d. process_face dst ts (frame_shape frame) d s) st ds))"
    if "set ds \<subseteq> set (detections frame)" for ds
    using that
  proof (induction ds rule: rev_induct)
    case Nil
    from assms(1) show ?case by simp
  next
    case (snoc d ds)
    let ?st1 = "foldl (\<lambda>s d. process_face dst ts (frame_shape frame) d s) st ds"
    from snoc have d: "d \<in> set (detections frame)" and 1: "J (reg ?st1)" by simp_all
    have enc: "e \<in> set (frame_encodings frame)" if "snd d = Encoded e" for e
      using d that by (force simp: frame_encodings_def)
    from 1 have "J (reg (process_face dst ts (frame_shape frame) d ?st1))"
    proof (rule process_face_reg [where J = J])
      fix r e name r'
      assume "J r" "snd d = Encoded e" "resolve_speaker dst e r = Inr (name, r')"
      with enc show "J r'" using assms(2) [of r e name r'] by simp
    qed
    then show ?case by simp
  qed
  then show ?thesis by (simp add: process_faces_def)
qed

lemma process_frame_reg:
  assumes "process_frame dst fps tf skip frame st = Inr st'" "J (reg st)"
    and "\<And>r e name r'. J r \<Longrightarrow> e \<in> set (frame_encodings frame) \<Longrightarrow>
           resolve_speaker dst e r = Inr (name, r') \<Longrightarrow> J r'"
  shows "J (reg st')"
proof (cases "frame_count st mod skip \<noteq> 0")
  case True
  with assms(1,2) show ?thesis by (auto simp: process_frame_def)
next
  case False
  let ?st1 = "process_faces dst (real (frame_count st) / fps) frame st"
  from assms(2,3) have "J (reg ?st1)" by (rule process_faces_reg [where J = J])
  moreover from False assms(1) have "reg st' = reg ?st1"
    by (auto simp: process_frame_def report_progress_def Let_def split: if_splits sum.splits)
  ultimately show ?thesis by simp
qed

lemma scan_reg:
  assumes "scan dst fps tf skip frames st = Inr st'" "J (reg st)"
    and "set (concat (map frame_encodings frames)) \<subseteq> E"
    and step: "\<And>r e name r'. J r \<Longrightarrow> e \<in> E \<Longrightarrow> resolve_speaker dst e r = Inr (name, r') \<Longrightarrow> J r'"
  shows "J (reg st')"
  using assms(1-3)
proof (induction frames arbitrary: st)
  case Nil
  then show ?case by simp
next
  case (Cons frame rest)
  then obtain st1 where 1: "process_frame dst fps tf skip frame st = Inr st1"
    and 2: "scan dst fps tf skip rest st1 = Inr st'"
    by (auto split: sum.splits)
  from Cons.prems(3) have sub: "set (frame_encodings frame) \<subseteq> E"
    "set (concat (map frame_encodings rest)) \<subseteq> E" by auto
  from 1 Cons.prems(2) have "J (reg st1)"
  proof (rule process_frame_reg [where J = J])
    fix r e name r'
    assume "J r" "e \<in> set (frame_encodings frame)" "resolve_speaker dst e r = Inr (name, r')"
    with sub(1) show "J r'" using step [of r e name r'] by blast
  qed
  from Cons.IH [OF 2 this sub(2)] show ?case .
qed

lemma one_entry_step:
  assumes "one_entry E r" "e \<in> E" "\<forall>a \<in> E. \<forall>b \<in> E. dst a b \<le> tolerance"
    and "resolve_speaker dst e r = Inr (name, r')"
  shows "one_entry E r'"
proof (cases "known_face_encodings r = []")
  case True
  then have "resolve_speaker dst e r =
      Inr (speaker_name (speaker_id_counter r), register_speaker e (speaker_name (speaker_id_counter r)) r)"
    by (intro resolve_speaker_fresh) simp
  with assms True show ?thesis by (auto simp: one_entry_def registry_inv_register)
next
  case False
  then obtain i where i: "first_min (face_distance dst (known_face_encodings r) e) i"
    using first_min_exists [of "face_distance dst (known_face_encodings r) e"] by auto
  then have "i < length (known_face_encodings r)" by (auto dest: first_min_length)
  with assms(1) have "known_face_encodings r ! i \<in> E" by (auto simp: one_entry_def)
  with assms(2,3) have "dst (known_face_encodings r ! i) e \<le> tolerance" by blast
  with assms(1) i have "resolve_speaker dst e r = Inr (speaker_name (Suc i), r)"
    by (intro resolve_speaker_matched) (simp_all add: one_entry_def)
  with assms(1,4) show ?thesis by simp
qed

lemma one_subject_names:
  assumes "scan dst fps tf skip frames (init_scan d fps tf) = Inr st" "one_subject dst frames"
  shows "speakers_of (all_faces st) = (if all_faces st = [] then [] else [speaker_name 1])"
proof -
  let ?E = "set (concat (map frame_encodings frames))"
  have "one_entry ?E (reg (init_scan d fps tf))" by (simp add: one_entry_def)
  with assms(1) have "one_entry ?E (reg st)"
  proof (rule scan_reg [where J = "one_entry ?E" and E = ?E])
    fix r e name r'
    assume "one_entry ?E r" "e \<in> ?E" "resolve_speaker dst e r = Inr (name, r')"
    moreover from assms(2) have "\<forall>a \<in> ?E. \<forall>b \<in> ?E. dst a b \<le> tolerance"
      by (simp only: one_subject_def)
    ultimately show "one_entry ?E r'" by (intro one_entry_step [of ?E r e dst name r'])
  qed simp
  moreover from scan_inv_preserved [OF assms(1) scan_inv_init]
  have "speakers_of (all_faces st) = known_face_names (reg st)"
    by (simp add: scan_inv_def tracks_inv_def)
  ultimately have names: "speakers_of (all_faces st) = known_face_names (reg st)"
    and inv: "registry_inv (reg st)" and le: "length (known_face_encodings (reg st)) \<le> 1"
    by (simp_all add: one_entry_def)
  from inv le have "length (known_face_names (reg st)) \<le> 1" by (simp add: registry_inv_length)
  moreover from inv have "known_face_names (reg st) ! 0 = speaker_name 1"
    if "known_face_names (reg st) \<noteq> []"
    using that registry_inv_names_nth [OF inv, of 0] registry_inv_length [OF inv]
    by (cases "known_face_encodings (reg st)") auto
  ultimately consider "speakers_of (all_faces st) = []" | "speakers_of (all_faces st) = [speaker_name 1]"
    unfolding names by (cases "known_face_names (reg st)") auto
  then show ?thesis
  proof cases
    case 1
    then have "speakerId ` set (all_faces st) = {}" by (metis set_speakers_of list.set(1))
    with 1 show ?thesis by simp
  next
    case 2
    then show ?thesis by auto
  qed
qed

section \<open>The report on one subject\<close>

lemma create_speaker_summary_single:
  assumes "fs \<noteq> []" "speakers_of fs = [k]"
  shows "create_speaker_summary fs names = [summary_of k fs]"
proof -
  from arg_cong [OF assms(2), of set] have "speakerId ` set fs = {k}" by simp
  then have "faces_of k fs = fs" by (auto simp: faces_of_def intro: filter_True)
  with assms(2) show ?thesis by (simp add: create_speaker_summary_eq py_sort_key_rev_def)
qed

lemma timestamps_smooth: "timestamp ` set (smooth_face_tracking fs) = timestamp ` set fs"
  using mset_timestamp_smooth [of fs] by (metis list.set_map set_mset_mset)

lemma scan_measures_append:
  "scan_measures fps skip k (xs @ ys) =
     scan_measures fps skip k xs @ scan_measures fps skip (k + length xs) ys"
  by (induction xs arbitrary: k) simp_all

lemma scan_measures_replicate:
  "scan_measures fps skip k (replicate n frame) =
     concat (map (\<lambda>i. frame_measures fps i frame) (filter (sampled skip) [k..<k + n]))"
proof (induction n arbitrary: k)
  case 0
  show ?case by simp
next
  case (Suc n)
  have "[k..<k + Suc n] = k # [Suc k..<Suc k + n]" by (simp add: upt_conv_Cons del: upt_Suc)
  with Suc [of "Suc k"] show ?case by (simp del: upt_Suc)
qed

lemma timestamps_report:
  assumes "outcome (detect_faces_in_video dst cap oe) = Completed r evs"
  shows "mset (map timestamp (faces r)) =
     mset (map fst (scan_measures (cap_fps cap) (frame_skip (cap_fps cap)) 0 (cap_frames cap)))"
proof -
  from assms(1) obtain st where st: "scan_video dst cap = Inr st" and r: "r = final_report cap st"
    by (rule detect_final_state)
  have "mset (map timestamp (faces r)) = mset (map timestamp (all_faces st))"
    by (simp only: r analysis_result_sel mset_timestamp_smooth)
  also have "map timestamp (all_faces st) = map fst (map face_measure (all_faces st))"
    by (simp add: face_measure_def)
  also have "map face_measure (all_faces st) =
      scan_measures (cap_fps cap) (frame_skip (cap_fps cap)) 0 (cap_frames cap)"
    using scan_measures_eq [OF st] by simp
  finally show ?thesis .
qed

lemma spec_example_sel [simp]:
  "cap_is_opened spec_example_video" "cap_fps spec_example_video = 10"
  "cap_frame_count spec_example_video = 100" "frame_skip 10 = 5"
  "cap_frames spec_example_video =
     replicate 50 \<lparr>frame_shape = (2, 2), detections = [((0, 0, 2, 2), Encoded 0)]\<rparr> @
     replicate 50 \<lparr>frame_shape = (2, 2), detections = []\<rparr>"
  by (simp_all add: spec_example_video_def frame_skip_def)

lemma spec_example_timestamps:
  "map fst (scan_measures 10 5 0 (cap_frames spec_example_video)) =
     map (\<lambda>i. real i / 10) (filter (sampled 5) [0..<50])"
  by (simp add: scan_measures_append scan_measures_replicate frame_measures_def is_encoded_def
      detection_measure_def map_concat comp_def del: upt_Suc)

lemma spec_example_subject: "one_subject abs_dist (cap_frames spec_example_video)"
  by (auto simp: one_subject_def frame_encodings_def abs_dist_def tolerance_def)

lemma spec_example_times:
  fixes T :: "real set"
  assumes "T = (\<lambda>i. real i / 10) ` {i. i < 50 \<and> i mod 5 = 0}"
  shows "Min T = 0" "Max T = 9 / 2"
proof -
  have fin: "finite T" unfolding assms by simp
  have "i \<le> 45" if "i < 50" "i mod 5 = 0" for i :: nat
    using that by presburger
  then have "t \<le> 9 / 2" if "t \<in> T" for t
    using that unfolding assms by auto
  moreover have "9 / 2 \<in> T" unfolding assms by (rule image_eqI [of _ _ 45]) simp_all
  ultimately show "Max T = 9 / 2" using fin by (intro Max_eqI)
  have "0 \<in> T" unfolding assms by (rule image_eqI [of _ _ 0]) simp_all
  moreover have "0 \<le> t" if "t \<in> T" for t using that unfolding assms by auto
  ultimately show "Min T = 0" using fin by (intro Min_eqI)
qed

text \<open>
  C15 (functional). One subject gives one speaker. In a completed run on a video whose
  embeddings are pairwise within the tolerance, the report lists no speaker when there is
  no detection, and otherwise exactly one, \<^verbatim>\<open>speaker_1\<close>, to whom every detection is
  attributed: its appearances are all the detections, it is first seen at the earliest
  and last seen at the latest timestamp of the report, and its screen time is their
  difference. On the video of 10 seconds at 10 frames per second with a face in frames 0
  to 49, sampled every 5 frames, this is 10 appearances between 0 and 4.5 seconds.
\<close>

theorem one_subject_one_speaker:
  assumes "outcome (detect_faces_in_video dst cap oe) = Completed r evs"
    and "one_subject dst (cap_frames cap)"
  shows "if faces r = [] then speakers r = []
         else \<exists>s. speakers r = [s] \<and> speaker_id s = speaker_name 1 \<and>
                appearances s = total_faces_detected r \<and>
                first_seen s = Fin (Min (timestamp ` set (faces r))) \<and>
                last_seen s = max 0 (Max (timestamp ` set (faces r))) \<and>
                screen_time s = Fin (last_seen s - Min (timestamp ` set (faces r))) \<and>
                (\<forall>f \<in> set (faces r). speakerId f = speaker_name 1)"
proof -
  from assms(1) obtain st where st: "scan_video dst cap = Inr st" and r: "r = final_report cap st"
    by (rule detect_final_state)
  note names = one_subject_names [OF st assms(2)]
  show ?thesis
  proof (cases "all_faces st = []")
    case True
    then show ?thesis
      by (simp add: r smooth_face_tracking_def create_speaker_summary_eq py_sort_key_rev_def)
  next
    case False
    with names have sp: "speakers_of (all_faces st) = [speaker_name 1]" by simp
    let ?s = "summary_of (speaker_name 1) (all_faces st)"
    have "set (map speakerId (faces r)) = set (map speakerId (all_faces st))"
      unfolding r analysis_result_sel by (metis mset_speakerId_smooth set_mset_mset)
    with arg_cong [OF sp, of set] have ids: "\<forall>f \<in> set (faces r). speakerId f = speaker_name 1"
      by auto
    from False have "length (faces r) \<noteq> 0" by (simp add: r)
    then have ne: "faces r \<noteq> []" by auto
    have ts: "timestamp ` set (faces r) = timestamp ` set (all_faces st)"
      by (simp add: r timestamps_smooth)
    have "speakers r = [?s]"
      using create_speaker_summary_single [OF False sp] by (simp add: r)
    moreover have "appearances ?s = total_faces_detected r" by (simp add: r)
    moreover have "first_seen ?s = Fin (Min (timestamp ` set (faces r)))"
      and "last_seen ?s = max 0 (Max (timestamp ` set (faces r)))"
      and "screen_time ?s = Fin (last_seen ?s - Min (timestamp ` set (faces r)))"
      by (simp_all only: ts summary_of_sel)
    ultimately show ?thesis using ne ids by simp
  qed
qed

theorem one_subject_one_speaker_witness:
  "\<exists>r evs. outcome (detect_faces_in_video abs_dist spec_example_video saves) = Completed r evs \<and>
     (\<exists>s. speakers r = [s] \<and> speaker_id s = ''speaker_1'' \<and> appearances s = 10 \<and>
          first_seen s = Fin 0 \<and> last_seen s = 9 / 2 \<and> screen_time s = Fin (9 / 2))"
proof -
  from detect_completes [of spec_example_video abs_dist] obtain r evs
    where c: "outcome (detect_faces_in_video abs_dist spec_example_video saves) = Completed r evs"
    by auto
  have ts: "mset (map timestamp (faces r)) =
      mset (map (\<lambda>i. real i / 10) (filter (sampled 5) [0..<50]))"
    using timestamps_report [OF c] by (simp only: spec_example_sel(2,4) spec_example_timestamps)
  from mset_eq_setD [OF ts]
  have T: "timestamp ` set (faces r) = (\<lambda>i. real i / 10) ` {i. i < 50 \<and> i mod 5 = 0}"
    by (auto simp: sampled_def)
  from mset_eq_length [OF ts] have len: "length (faces r) = 10"
    by (simp add: count_multiples del: upt_Suc)
  from c obtain st where "r = final_report spec_example_video st" by (rule detect_final_state)
  with len have total: "total_faces_detected r = 10" by simp
  from len have "faces r \<noteq> []" by auto
  with one_subject_one_speaker [OF c spec_example_subject] obtain s where s: "speakers r = [s]"
    "speaker_id s = speaker_name 1" "appearances s = total_faces_detected r"
    "first_seen s = Fin (Min (timestamp ` set (faces r)))"
    "last_seen s = max 0 (Max (timestamp ` set (faces r)))"
    "screen_time s = Fin (last_seen s - Min (timestamp ` set (faces r)))"
    by auto
  note times = spec_example_times [OF T]
  from s(5) times have "last_seen s = 9 / 2" by simp
  moreover from s(2) have "speaker_id s = ''speaker_1''" by (simp add: speaker_name_def str_nat_eval)
  moreover note s(1) c
  ultimately show ?thesis using s(3,4,6) total times by auto
qed

end
