(* ===== verification/Document.thy ===== *)
theory Document
  imports Report "HOL-Library.Monad_Syntax"
begin

text \<open>
  The report as the value that line 141 hands to \<^verbatim>\<open>json.dump\<close>: nested dictionaries and
  lists with the keys the source writes.

  \<open>json\<close> is the Python value as far as the report needs it: an int, a float that may be
  infinite, a string, a list, and a dictionary as the list of its items in insertion
  order. \<open>face_dict\<close> is the dictionary literal of lines 94-104, \<open>speaker_dict\<close> that of
  lines 216-227 and \<open>report_dict\<close> that of lines 127-137. In the other theories the three
  dictionaries are records with one field per key; the round trip below shows that
  nothing is lost or added by that. Whether \<^verbatim>\<open>last_seen\<close> is printed as the int \<^verbatim>\<open>0\<close> it
  starts as or as a float is not told apart.

  \<open>json_valid\<close> says that a value has a JSON text: every float is finite (\<^verbatim>\<open>json.dump\<close>
  prints \<^verbatim>\<open>Infinity\<close> otherwise, which no JSON parser has to accept) and the keys of every
  dictionary are distinct. \<open>dict_face\<close>, \<open>dict_speaker\<close> and \<open>dict_report\<close> read the
  dictionaries back, as a consumer of the document does.
\<close>

section \<open>The dictionaries\<close>

datatype json = JInt int | JFloat pyfloat | JStr string | JList "json list"
  | JDict "(string \<times> json) list"

definition face_dict :: "face_data \<Rightarrow> json" where
  "face_dict face =
     JDict [(''timestamp'', JFloat (Fin (timestamp face))),
            (''x'', JInt (face_x face)),
            (''y'', JInt (face_y face)),
            (''width'', JInt (width face)),
            (''height'', JInt (height face)),
            (''confidence'', JFloat (Fin (confidence face))),
            (''speakerId'', JStr (speakerId face)),
            (''center_x'', JInt (center_x face)),
            (''center_y'', JInt (center_y face))]"

definition speaker_dict :: "speaker_summary \<Rightarrow> json" where
  "speaker_dict s =
     JDict [(''id'', JStr (speaker_id s)),
            (''appearances'', JInt (int (appearances s))),
            (''avg_confidence'', JFloat (Fin (avg_confidence s))),
            (''first_seen'', JFloat (first_seen s)),
            (''last_seen'', JFloat (Fin (last_seen s))),
            (''screen_time'', JFloat (screen_time s)),
            (''avg_position'',
               JDict [(''x'', JFloat (Fin (avg_position_x s))),
                      (''y'', JFloat (Fin (avg_position_y s)))])]"

definition report_dict :: "report \<Rightarrow> json" where
  "report_dict r =
     JDict [(''video_duration'', JFloat (Fin (video_duration r))),
            (''total_faces_detected'', JInt (int (total_faces_detected r))),
            (''speakers'', JList (map speaker_dict (speakers r))),
            (''faces'', JList (map face_dict (faces r))),
            (''processing_info'',
               JDict [(''fps'', JFloat (Fin (info_fps (processing_info r)))),
                      (''frames_processed'', JInt (int (info_frames_processed (processing_info r)))),
                      (''frame_skip'', JInt (int (info_frame_skip (processing_info r))))])]"

section \<open>Reading a document\<close>

fun json_valid :: "json \<Rightarrow> bool" where
  "json_valid (JInt n) = True"
| "json_valid (JFloat a) = is_finite a"
| "json_valid (JStr s) = True"
| "json_valid (JList vs) = list_all json_valid vs"
| "json_valid (JDict kvs) = (distinct (map fst kvs) \<and> list_all (\<lambda>kv. json_valid (snd kv)) kvs)"

definition dict_get :: "json \<Rightarrow> string \<Rightarrow> json option" where
  "dict_get d k = (case d of JDict kvs \<Rightarrow> map_of kvs k | _ \<Rightarrow> None)"

definition dict_keys :: "json \<Rightarrow> string list" where
  "dict_keys d = (case d of JDict kvs \<Rightarrow> map fst kvs | _ \<Rightarrow> [])"

fun as_int :: "json \<Rightarrow> int option" where
  "as_int (JInt n) = Some n"
| "as_int _ = None"

fun as_nat :: "json \<Rightarrow> nat option" where
  "as_nat (JInt n) = (if 0 \<le> n then Some (nat n) else None)"
| "as_nat _ = None"

fun as_float :: "json \<Rightarrow> pyfloat option" where
  "as_float (JFloat a) = Some a"
| "as_float _ = None"

fun as_real :: "json \<Rightarrow> real option" where
  "as_real (JFloat (Fin a)) = Some a"
| "as_real _ = None"

fun as_str :: "json \<Rightarrow> string option" where
  "as_str (JStr s) = Some s"
| "as_str _ = None"


definition field :: "(json \<Rightarrow> 'a option) \<Rightarrow> json \<Rightarrow> string \<Rightarrow> 'a option" where
  "field as d k = dict_get d k \<bind> as"

definition dict_face :: "json \<Rightarrow> face_data option" where
  "dict_face d = do {
     ts \<leftarrow> field as_real d ''timestamp'';
     x \<leftarrow> field as_int d ''x'';
     y \<leftarrow> field as_int d ''y'';
     w \<leftarrow> field as_int d ''width'';
     h \<leftarrow> field as_int d ''height'';
     c \<leftarrow> field as_real d ''confidence'';
     s \<leftarrow> field as_str d ''speakerId'';
     cx \<leftarrow> field as_int d ''center_x'';
     cy \<leftarrow> field as_int d ''center_y'';
     Some \<lparr>timestamp = ts, face_x = x, face_y = y, width = w, height = h, confidence = c,
           speakerId = s, center_x = cx, center_y = cy\<rparr>
   }"

definition dict_speaker :: "json \<Rightarrow> speaker_summary option" where
  "dict_speaker d = do {
     k \<leftarrow> field as_str d ''id'';
     n \<leftarrow> field as_nat d ''appearances'';
     c \<leftarrow> field as_real d ''avg_confidence'';
     a \<leftarrow> field as_float d ''first_seen'';
     b \<leftarrow> field as_real d ''last_seen'';
     t \<leftarrow> field as_float d ''screen_time'';
     p \<leftarrow> dict_get d ''avg_position'';
     px \<leftarrow> field as_real p ''x'';
     py \<leftarrow> field as_real p ''y'';
     Some \<lparr>speaker_id = k, appearances = n, avg_confidence = c, first_seen = a, last_seen = b,
           screen_time = t, avg_position_x = px, avg_position_y = py\<rparr>
   }"


section \<open>Round trip\<close>


lemma dict_face_face_dict [simp]: "dict_face (face_dict f) = Some f"
  by (simp add: dict_face_def face_dict_def field_def dict_get_def)

lemma dict_speaker_speaker_dict [simp]: "dict_speaker (speaker_dict s) = Some s"
  by (simp add: dict_speaker_def speaker_dict_def field_def dict_get_def)


section \<open>The document is valid JSON\<close>

text \<open>
  \<^verbatim>\<open>first_appearance\<close> starts as \<^verbatim>\<open>float('inf')\<close> (line 195), and \<^verbatim>\<open>screen_time\<close> is computed from
  it. A speaker is listed only with at least one appearance, and then the minimum with a
  timestamp has made it finite.
\<close>

lemma json_valid_face_dict [simp]: "json_valid (face_dict f)"
  by (simp add: face_dict_def)

lemma json_valid_speaker_dict:
  "json_valid (speaker_dict s) \<longleftrightarrow> is_finite (first_seen s) \<and> is_finite (screen_time s)"
  by (simp add: speaker_dict_def)

lemma json_valid_report_dict:
  "json_valid (report_dict r) \<longleftrightarrow>
     (\<forall>s \<in> set (speakers r). is_finite (first_seen s) \<and> is_finite (screen_time s))"
  by (simp add: report_dict_def list_all_iff json_valid_speaker_dict)

lemma summaries_finite:
  assumes "s \<in> set (create_speaker_summary fs names)"
  shows "is_finite (first_seen s) \<and> is_finite (screen_time s)"
  using assms by (auto simp: set_create_speaker_summary)

text \<open>
  C26 (safety). The document of a completed run is valid JSON: no number in it is
  infinite, although the aggregator starts its minimum at \<^verbatim>\<open>float('inf')\<close>, and no
  dictionary has a key twice.
\<close>

theorem report_document_valid:
  assumes "outcome (detect_faces_in_video dst cap oe) = Completed r evs"
  shows "json_valid (report_dict r)"
proof -
  from assms obtain st where "r = final_report cap st" by (rule detect_final_state)
  then show ?thesis by (simp add: json_valid_report_dict summaries_finite)
qed

theorem report_document_valid_witness:
  "\<exists>r evs. outcome (detect_faces_in_video abs_dist single_face_video saves) = Completed r evs \<and>
     json_valid (report_dict r)"
proof -
  from single_face_video_completes obtain r evs
    where c: "outcome (detect_faces_in_video abs_dist single_face_video saves) = Completed r evs"
    by blast
  from report_document_valid [OF c] c show ?thesis by blast
qed

section \<open>The keys\<close>

text \<open>
  The keys a consumer finds, in the order written. A lookup of a key in another spelling
  (\<^verbatim>\<open>videoDuration\<close>, \<^verbatim>\<open>centerX\<close>) finds nothing.
\<close>

lemma report_dict_keys:
  "dict_keys (report_dict r) =
     [''video_duration'', ''total_faces_detected'', ''speakers'', ''faces'', ''processing_info'']"
  "dict_keys (face_dict f) =
     [''timestamp'', ''x'', ''y'', ''width'', ''height'', ''confidence'', ''speakerId'',
      ''center_x'', ''center_y'']"
  "dict_keys (speaker_dict s) =
     [''id'', ''appearances'', ''avg_confidence'', ''first_seen'', ''last_seen'', ''screen_time'',
      ''avg_position'']"
  by (simp_all add: dict_keys_def report_dict_def face_dict_def speaker_dict_def)

lemma camel_case_keys_missing:
  "dict_get (report_dict r) ''videoDuration'' = None"
  "dict_get (report_dict r) ''totalFacesDetected'' = None"
  "dict_get (report_dict r) ''processingInfo'' = None"
  "dict_get (face_dict f) ''centerX'' = None"
  "dict_get (speaker_dict s) ''screenTime'' = None"
  by (simp_all add: dict_get_def report_dict_def face_dict_def speaker_dict_def)

end
