(* ===== verification/Cli.thy ===== *)
theory Cli
  imports Report
begin

text \<open>
  The two command-line entry points: \<^verbatim>\<open>main\<close> of \<^verbatim>\<open>src/face_detection.py\<close> (lines
  275-294) and the script of \<^verbatim>\<open>src/download.py\<close> (lines 32-58).

  \<^bold>\<open>The file system.\<close> \<open>file_system\<close> holds what the program can observe and change: the
  regular files that exist, each with what \<^verbatim>\<open>cv2.VideoCapture\<close> makes of it (\<open>fs_videos\<close>),
  the directories (\<open>fs_dirs\<close>), the paths the process may not create or write
  (\<open>fs_denied\<close>) and the files the program has written (\<open>fs_documents\<close>: a \<open>Document\<close> with
  the report, or \<open>Partial\<close> when \<^verbatim>\<open>json.dump\<close> raised after the file was opened and
  truncated). The current directory,
  which the empty directory name stands for, always exists. \<open>dirname\<close> is
  \<^verbatim>\<open>os.path.dirname\<close> on POSIX paths. \<open>makedirs\<close> is \<^verbatim>\<open>os.makedirs(d, exist_ok=True)\<close>,
  \<open>open_for_writing\<close> says whether \<^verbatim>\<open>open(path, 'w')\<close> raises, \<open>save_to\<close> is what lines
  140-141 do with a report on this file system, given what \<^verbatim>\<open>json.dump\<close> does with it, and
  \<open>write_document\<close> is their effect on the file.

  \<^bold>\<open>The entry points.\<close> \<open>detect_faces_in_video_at\<close> is \<^verbatim>\<open>detect_faces_in_video\<close> with its
  two path arguments, on a file system. \<open>main\<close> is \<^verbatim>\<open>main\<close>: a \<open>process_result\<close> holds how
  the process ends (\<open>Exit\<close> with a status, or \<open>Traceback\<close> for an exception nobody catches,
  which the interpreter reports with status 1), the lines printed and the file system
  left behind. \<open>download_video\<close> and \<open>download_main\<close> are the function and the script of
  \<^verbatim>\<open>src/download.py\<close> over a record \<open>ydl\<close> of the three \<^verbatim>\<open>yt_dlp\<close> calls.
\<close>

section \<open>Paths\<close>

definition dirname :: "string \<Rightarrow> string" where
  "dirname p =
     (let head = rev (dropWhile (\<lambda>c. c \<noteq> CHR ''/'') (rev p))
      in if head \<noteq> [] \<and> head \<noteq> replicate (length head) CHR ''/''
         then rev (dropWhile (\<lambda>c. c = CHR ''/'') (rev head))
         else head)"

text \<open>
  A directory name is never longer than the path, and it is shorter unless the path is
  empty or consists of slashes only: taking directory names repeatedly ends.
\<close>

lemma dirname_no_slash: "CHR ''/'' \<notin> set p \<Longrightarrow> dirname p = []"
  by (auto simp: dirname_def)

lemma length_dropWhile_rev_le: "length (dropWhile P (rev p)) \<le> length p"
  using length_dropWhile_le [of P "rev p"] by simp

lemma path_split:
  "p = rev (dropWhile (\<lambda>c. c \<noteq> CHR ''/'') (rev p)) @ rev (takeWhile (\<lambda>c. c \<noteq> CHR ''/'') (rev p))"
  by (metis rev_append rev_rev_ident takeWhile_dropWhile_id)

lemma length_dirname_le: "length (dirname p) \<le> length p"
proof -
  have "length (dropWhile P (dropWhile Q (rev p))) \<le> length p" for P Q
    using length_dropWhile_le [of P "dropWhile Q (rev p)"] length_dropWhile_rev_le [of Q p]
    by linarith
  then show ?thesis by (simp add: dirname_def Let_def length_dropWhile_rev_le)
qed

lemma dirname_shorter:
  assumes "dirname p \<noteq> p"
  shows "length (dirname p) < length p"
proof -
  let ?head = "rev (dropWhile (\<lambda>c. c \<noteq> CHR ''/'') (rev p))"
  let ?tail = "rev (takeWhile (\<lambda>c. c \<noteq> CHR ''/'') (rev p))"
  have p: "p = ?head @ ?tail" by (rule path_split)
  show ?thesis
  proof (cases "?head \<noteq> [] \<and> ?head \<noteq> replicate (length ?head) CHR ''/''")
    case True
    then have d: "dirname p = rev (dropWhile (\<lambda>c. c = CHR ''/'') (rev ?head))"
      by (simp add: dirname_def)
    from True have "hd (rev ?head) = CHR ''/''"
      using hd_dropWhile [of "\<lambda>c. c \<noteq> CHR ''/''" "rev p"] by auto
    with True have "length (dropWhile (\<lambda>c. c = CHR ''/'') (rev ?head)) < length (rev ?head)"
      by (cases "rev ?head") (auto intro: le_imp_less_Suc length_dropWhile_le)
    then have "length (dirname p) < length ?head" by (simp add: d)
    also have "\<dots> \<le> length p" by (simp add: length_dropWhile_rev_le)
    finally show ?thesis .
  next
    case False
    then have d: "dirname p = ?head" by (auto simp: dirname_def)
    with assms p have "?tail \<noteq> []" by auto
    then have "length ?head < length ?head + length ?tail" by simp
    also have "\<dots> = length p" by (metis length_append p)
    finally show ?thesis by (simp add: d)
  qed
qed

section \<open>The file system\<close>

datatype document = Partial | Document report

record 'e file_system =
  fs_videos :: "string \<Rightarrow> 'e video option"
  fs_dirs :: "string set"
  fs_denied :: "string set"
  fs_documents :: "string \<Rightarrow> document option"

definition path_exists :: "'e file_system \<Rightarrow> string \<Rightarrow> bool" where
  "path_exists fs p \<longleftrightarrow>
     p \<in> dom (fs_videos fs) \<or> p \<in> dom (fs_documents fs) \<or> p \<in> fs_dirs fs"

definition closed_capture :: "'e video" where
  "closed_capture = \<lparr>cap_is_opened = False, cap_fps = 0, cap_frame_count = 0, cap_frames = []\<rparr>"

definition capture_of :: "'e file_system \<Rightarrow> string \<Rightarrow> 'e video" where
  "capture_of fs p = (case fs_videos fs p of Some v \<Rightarrow> v | None \<Rightarrow> closed_capture)"

function ancestors :: "string \<Rightarrow> string list" where
  "ancestors p = (if dirname p = [] \<or> dirname p = p then [] else dirname p # ancestors (dirname p))"
  by pat_completeness auto

termination
  by (relation "measure length") (auto simp: dirname_shorter)

declare ancestors.simps [simp del]

definition makedirs :: "'e file_system \<Rightarrow> string \<Rightarrow> 'e file_system result" where
  "makedirs fs d =
     (if d = [] then Inl FileNotFoundError
      else if d \<in> fs_dirs fs then Inr fs
      else if d \<in> dom (fs_videos fs) \<or> d \<in> dom (fs_documents fs) then Inl FileExistsError
      else if d \<in> fs_denied fs then Inl PermissionError
      else Inr (fs\<lparr>fs_dirs := fs_dirs fs \<union> {d} \<union> set (ancestors d)\<rparr>))"

definition open_for_writing :: "'e file_system \<Rightarrow> string \<Rightarrow> py_error option" where
  "open_for_writing fs p =
     (if p = [] then Some FileNotFoundError
      else if p \<in> fs_dirs fs then Some IsADirectoryError
      else if dirname p \<noteq> [] \<and> dirname p \<notin> fs_dirs fs then Some FileNotFoundError
      else if p \<in> fs_denied fs then Some PermissionError
      else None)"

definition save_to ::
  "(report \<Rightarrow> py_error option) \<Rightarrow> 'e file_system \<Rightarrow> string \<Rightarrow> report \<Rightarrow> write_result" where
  "save_to json_dump fs p analysis =
     (case open_for_writing fs p of
        Some e \<Rightarrow> OpenFailed e
      | None \<Rightarrow> (case json_dump analysis of Some e \<Rightarrow> DumpFailed e | None \<Rightarrow> Saved))"

definition write_document :: "'e file_system \<Rightarrow> string \<Rightarrow> file_effect \<Rightarrow> 'e file_system" where
  "write_document fs p effect =
     (case effect of
        Untouched \<Rightarrow> fs
      | Truncated \<Rightarrow>
          fs\<lparr>fs_videos := (fs_videos fs)(p := None),
             fs_documents := (fs_documents fs)(p \<mapsto> Partial)\<rparr>
      | Dumped analysis \<Rightarrow>
          fs\<lparr>fs_videos := (fs_videos fs)(p := None),
             fs_documents := (fs_documents fs)(p \<mapsto> Document analysis)\<rparr>)"

section \<open>The entry point of the face tracker\<close>

datatype exit_kind = Exit nat | Traceback py_error

definition exit_status :: "exit_kind \<Rightarrow> nat" where
  "exit_status k = (case k of Exit n \<Rightarrow> n | Traceback e \<Rightarrow> 1)"

datatype cli_line = Usage | VideoNotFound string | DetectionFailed py_error | Line event

record 'e process_result =
  proc_status :: exit_kind
  proc_stdout :: "cli_line list"
  proc_fs :: "'e file_system"

definition detect_faces_in_video_at ::
  "('e \<Rightarrow> 'e \<Rightarrow> real) \<Rightarrow> (report \<Rightarrow> py_error option) \<Rightarrow> 'e file_system \<Rightarrow> string \<Rightarrow> string \<Rightarrow>
     run \<times> 'e file_system" where
  "detect_faces_in_video_at dst json_dump fs video_path output_path =
     (let r = detect_faces_in_video dst (capture_of fs video_path)
                (save_to json_dump fs output_path)
      in (r, write_document fs output_path (output_file r)))"

definition main ::
  "('e \<Rightarrow> 'e \<Rightarrow> real) \<Rightarrow> (report \<Rightarrow> py_error option) \<Rightarrow> string list \<Rightarrow> 'e file_system \<Rightarrow>
     'e process_result" where
  "main dst json_dump argv fs =
     (if length argv \<noteq> 3
      then \<lparr>proc_status = Exit 1, proc_stdout = [Usage], proc_fs = fs\<rparr>
      else
        let video_path = argv ! 1;
            output_path = argv ! 2
        in if \<not> path_exists fs video_path
           then \<lparr>proc_status = Exit 1, proc_stdout = [VideoNotFound video_path], proc_fs = fs\<rparr>
           else
             (case makedirs fs (dirname output_path) of
                Inl e \<Rightarrow> \<lparr>proc_status = Traceback e, proc_stdout = [], proc_fs = fs\<rparr>
              | Inr fs1 \<Rightarrow>
                  (case detect_faces_in_video_at dst json_dump fs1 video_path output_path of
                     (r, fs2) \<Rightarrow>
                       (case outcome r of
                          Raised e \<Rightarrow>
                            \<lparr>proc_status = Exit 1, proc_stdout = [DetectionFailed e],
                             proc_fs = fs2\<rparr>
                        | NotOpened \<Rightarrow>
                            \<lparr>proc_status = Exit 0, proc_stdout = [Line CouldNotOpen],
                             proc_fs = fs2\<rparr>
                        | Completed analysis evs \<Rightarrow>
                            \<lparr>proc_status = Exit 0, proc_stdout = map Line evs,
                             proc_fs = fs2\<rparr>))))"

section \<open>The download script\<close>

record 'i ydl =
  ydl_download :: "string list \<Rightarrow> py_error option"
  ydl_extract_info :: "string \<Rightarrow> 'i result"
  ydl_prepare_filename :: "'i \<Rightarrow> string"

datatype download_line = MissingUrl | VideoPath string | DownloadFailed py_error

definition download_video :: "'i ydl \<Rightarrow> string \<Rightarrow> string result" where
  "download_video lib url =
     (case ydl_download lib [url] of
        Some e \<Rightarrow> Inl e
      | None \<Rightarrow>
          (case ydl_extract_info lib url of
             Inl e \<Rightarrow> Inl e
           | Inr info \<Rightarrow> Inr (ydl_prepare_filename lib info)))"

definition download_main :: "'i ydl \<Rightarrow> string list \<Rightarrow> exit_kind \<times> download_line list" where
  "download_main lib argv =
     (if length argv \<noteq> 2 then (Exit 1, [MissingUrl])
      else
        (case download_video lib (argv ! 1) of
           Inr path \<Rightarrow> (Exit 0, [VideoPath path])
         | Inl e \<Rightarrow> (Exit 1, [DownloadFailed e])))"

section \<open>A file system for the examples\<close>

text \<open>
  One video file \<^verbatim>\<open>in.mp4\<close> in the current directory, beside an empty directory
  \<^verbatim>\<open>out\<close>; nothing is write-protected.
\<close>

definition fs_with :: "'e video \<Rightarrow> 'e file_system" where
  "fs_with v =
     \<lparr>fs_videos = (\<lambda>p. if p = ''in.mp4'' then Some v else None),
      fs_dirs = {''out''}, fs_denied = {}, fs_documents = (\<lambda>p. None)\<rparr>"

lemma fs_with_simps [simp]:
  "path_exists (fs_with v) ''in.mp4''"
  "capture_of (fs_with v) ''in.mp4'' = v"
  "makedirs (fs_with v) ''out'' = Inr (fs_with v)"
  "open_for_writing (fs_with v) ''out/report.json'' = None"
  "fs_documents (fs_with v) = (\<lambda>p. None)"
  by (simp_all add: fs_with_def path_exists_def capture_of_def makedirs_def dom_def
      open_for_writing_def dirname_def)

section \<open>Directory names\<close>

lemma ancestors_no_slash [simp]: "CHR ''/'' \<notin> set p \<Longrightarrow> ancestors p = []"
  by (subst ancestors.simps) (simp add: dirname_no_slash)

lemma ancestors_shorter: "a \<in> set (ancestors p) \<Longrightarrow> length a < length p"
proof (induction p rule: ancestors.induct)
  case (1 p)
  show ?case
  proof (cases "dirname p = [] \<or> dirname p = p")
    case True
    with "1.prems" show ?thesis by (simp add: ancestors.simps [of p])
  next
    case False
    then have less: "length (dirname p) < length p" by (simp add: dirname_shorter)
    from False "1.prems" have "a = dirname p \<or> a \<in> set (ancestors (dirname p))"
      by (simp add: ancestors.simps [of p])
    with "1.IH" [OF False] less show ?thesis by auto
  qed
qed

text \<open>
  \<open>dirname\<close> undoes joining: the directory name of \<^verbatim>\<open>d/b\<close> is \<open>d\<close> when \<open>d\<close> is not empty and
  does not end in a slash and \<open>b\<close> has no slash. This is the directory line 288 creates.
\<close>

lemma dirname_join:
  assumes "d \<noteq> []" "last d \<noteq> CHR ''/''" "CHR ''/'' \<notin> set b"
  shows "dirname (d @ ''/'' @ b) = d"
proof -
  from assms(3) have "\<And>x. x \<in> set (rev b) \<Longrightarrow> x \<noteq> CHR ''/''" by auto
  then have "dropWhile (\<lambda>c. c \<noteq> CHR ''/'') (rev b @ ''/'' @ rev d) =
      dropWhile (\<lambda>c. c \<noteq> CHR ''/'') (''/'' @ rev d)"
    by (rule dropWhile_append2)
  then have "dropWhile (\<lambda>c. c \<noteq> CHR ''/'') (rev b @ ''/'' @ rev d) = ''/'' @ rev d"
    by simp
  then have head: "rev (dropWhile (\<lambda>c. c \<noteq> CHR ''/'') (rev (d @ ''/'' @ b))) = d @ ''/''"
    by simp
  from assms(1) have "last d \<in> set (d @ ''/'')" by simp
  with assms(2) have ne: "d @ ''/'' \<noteq> replicate n CHR ''/''" for n
    by (metis in_set_replicate)
  from assms(1,2) have strip: "dropWhile (\<lambda>c. c = CHR ''/'') (rev (d @ ''/'')) = rev d"
    by (cases d rule: rev_cases) auto
  have "dirname (d @ ''/'' @ b) =
      (if d @ ''/'' \<noteq> [] \<and> d @ ''/'' \<noteq> replicate (length (d @ ''/'')) CHR ''/''
       then rev (dropWhile (\<lambda>c. c = CHR ''/'') (rev (d @ ''/''))) else d @ ''/'')"
    unfolding dirname_def head Let_def ..
  also have "\<dots> = rev (dropWhile (\<lambda>c. c = CHR ''/'') (rev (d @ ''/'')))"
    by (rule if_P) (intro conjI, simp, rule ne)
  also have "\<dots> = d" by (simp only: strip rev_rev_ident)
  finally show ?thesis .
qed

lemma dirname_examples:
  "dirname ''out/report.json'' = ''out''"
  "dirname ''report.json'' = []"
  "dirname ''/report.json'' = ''/''"
  "dirname ''a//b/c'' = ''a//b''"
  by (simp_all add: dirname_def)

section \<open>Creating the output directory\<close>

text \<open>
  \<^verbatim>\<open>os.makedirs\<close> changes the directories only, raises on the empty name, and once it has
  succeeded the directory exists: a second call changes nothing, and opening a file in it
  does not fail for a missing directory.
\<close>

lemma makedirs_Inr:
  assumes "makedirs fs d = Inr fs1"
  shows "fs_videos fs1 = fs_videos fs" "fs_documents fs1 = fs_documents fs"
    "fs_denied fs1 = fs_denied fs" "fs_dirs fs \<subseteq> fs_dirs fs1" "d \<in> fs_dirs fs1"
  using assms by (auto simp: makedirs_def split: if_splits)

lemma makedirs_empty [simp]: "makedirs fs [] = Inl FileNotFoundError"
  by (simp add: makedirs_def)

lemma makedirs_Inl_iff:
  "makedirs fs d = Inl e \<longleftrightarrow>
     (if d = [] then e = FileNotFoundError
      else d \<notin> fs_dirs fs \<and>
        (if d \<in> dom (fs_videos fs) \<or> d \<in> dom (fs_documents fs) then e = FileExistsError
         else d \<in> fs_denied fs \<and> e = PermissionError))"
  by (auto simp: makedirs_def)

lemma makedirs_idempotent: "makedirs fs d = Inr fs1 \<Longrightarrow> makedirs fs1 d = Inr fs1"
  by (auto simp: makedirs_def split: if_splits)

lemma open_after_makedirs:
  assumes "makedirs fs (dirname p) = Inr fs1"
  shows "open_for_writing fs1 p \<in> {None, Some IsADirectoryError, Some PermissionError}"
proof -
  from assms have "dirname p \<noteq> []" by (auto simp: makedirs_def)
  then have "p \<noteq> []" by (auto simp: dirname_def)
  with makedirs_Inr(5) [OF assms] show ?thesis by (simp add: open_for_writing_def)
qed

lemma capture_of_cong: "fs_videos fs1 = fs_videos fs \<Longrightarrow> capture_of fs1 p = capture_of fs p"
  by (simp add: capture_of_def)

lemma write_document_simps [simp]:
  "write_document fs p Untouched = fs"
  "fs_documents (write_document fs p Truncated) = (fs_documents fs)(p \<mapsto> Partial)"
  "fs_documents (write_document fs p (Dumped r)) = (fs_documents fs)(p \<mapsto> Document r)"
  "fs_dirs (write_document fs p effect) = fs_dirs fs"
  "fs_denied (write_document fs p effect) = fs_denied fs"
  by (simp_all add: write_document_def split: file_effect.split)


lemma save_to_never_dump_failed:
  "(\<And>r. json_dump r = None) \<Longrightarrow> save_to json_dump fs p r \<noteq> DumpFailed e"
  by (simp add: save_to_def split: option.split)

section \<open>The branches of \<open>main\<close>\<close>

text \<open>
  \<open>main\<close> ends in one of four ways, told apart by its arguments and the file system:
  the usage message, the missing video, an exception of \<^verbatim>\<open>os.makedirs\<close> that nothing
  catches, and the call of \<^verbatim>\<open>detect_faces_in_video\<close> inside the \<^verbatim>\<open>try\<close>.
\<close>

lemma main_usage:
  "length argv \<noteq> 3 \<Longrightarrow>
     main dst json_dump argv fs = \<lparr>proc_status = Exit 1, proc_stdout = [Usage], proc_fs = fs\<rparr>"
  by (simp add: main_def)

lemma main_not_found:
  "length argv = 3 \<Longrightarrow> \<not> path_exists fs (argv ! 1) \<Longrightarrow>
     main dst json_dump argv fs =
       \<lparr>proc_status = Exit 1, proc_stdout = [VideoNotFound (argv ! 1)], proc_fs = fs\<rparr>"
  by (simp add: main_def)

lemma main_makedirs_raises:
  "length argv = 3 \<Longrightarrow> path_exists fs (argv ! 1) \<Longrightarrow> makedirs fs (dirname (argv ! 2)) = Inl e \<Longrightarrow>
     main dst json_dump argv fs = \<lparr>proc_status = Traceback e, proc_stdout = [], proc_fs = fs\<rparr>"
  by (simp add: main_def)

lemma main_detect:
  assumes "length argv = 3" "path_exists fs (argv ! 1)" "makedirs fs (dirname (argv ! 2)) = Inr fs1"
  shows "main dst json_dump argv fs =
     (let r = detect_faces_in_video dst (capture_of fs (argv ! 1))
                (save_to json_dump fs1 (argv ! 2))
      in \<lparr>proc_status = (case outcome r of Raised e \<Rightarrow> Exit 1 | _ \<Rightarrow> Exit 0),
          proc_stdout =
            (case outcome r of
               Raised e \<Rightarrow> [DetectionFailed e]
             | NotOpened \<Rightarrow> [Line CouldNotOpen]
             | Completed analysis evs \<Rightarrow> map Line evs),
          proc_fs = write_document fs1 (argv ! 2) (output_file r)\<rparr>)"
proof -
  have "capture_of fs1 (argv ! 1) = capture_of fs (argv ! 1)"
    using makedirs_Inr(1) [OF assms(3)] by (rule capture_of_cong)
  with assms show ?thesis
    by (simp add: main_def detect_faces_in_video_at_def Let_def split: run_outcome.split)
qed

lemma main_status:
  assumes "length argv = 3" "path_exists fs (argv ! 1)" "makedirs fs (dirname (argv ! 2)) = Inr fs1"
  shows "proc_status (main dst json_dump argv fs) =
     (case outcome (detect_faces_in_video dst (capture_of fs (argv ! 1))
                      (save_to json_dump fs1 (argv ! 2))) of
        Raised e \<Rightarrow> Exit 1 | _ \<Rightarrow> Exit 0)"
  by (simp add: main_detect [OF assms] Let_def)

lemma main_cases [case_names usage not_found makedirs_raises detect]:
  fixes argv :: "string list" and fs :: "'e file_system"
  obtains "length argv \<noteq> 3"
  | "length argv = 3" "\<not> path_exists fs (argv ! 1)"
  | e where "length argv = 3" "path_exists fs (argv ! 1)"
      "makedirs fs (dirname (argv ! 2)) = Inl e"
  | fs1 where "length argv = 3" "path_exists fs (argv ! 1)"
      "makedirs fs (dirname (argv ! 2)) = Inr fs1"
  by (cases "makedirs fs (dirname (argv ! 2))") auto

text \<open>
  C10 (error). The exit status of \<^verbatim>\<open>face_detection.py\<close>. The process ends with status 0
  exactly when it was given two arguments, the video path exists, \<^verbatim>\<open>os.makedirs\<close> on the
  directory name of the output path succeeds, and no exception leaves
  \<^verbatim>\<open>detect_faces_in_video\<close>. In every other case the status is 1, by \<^verbatim>\<open>sys.exit(1)\<close> or by
  the traceback of the interpreter.
\<close>

theorem main_exit_0_iff:
  "proc_status (main dst json_dump argv fs) = Exit 0 \<longleftrightarrow>
     length argv = 3 \<and> path_exists fs (argv ! 1) \<and>
     (\<exists>fs1. makedirs fs (dirname (argv ! 2)) = Inr fs1 \<and>
        (\<nexists>e. outcome (detect_faces_in_video dst (capture_of fs (argv ! 1))
                        (save_to json_dump fs1 (argv ! 2))) = Raised e))"
proof (cases rule: main_cases [where argv = argv and fs = fs])
  case usage
  then show ?thesis by (simp add: main_usage)
next
  case not_found
  from main_not_found [OF this] not_found show ?thesis by simp
next
  case (makedirs_raises e)
  from main_makedirs_raises [OF this] makedirs_raises show ?thesis by simp
next
  case (detect fs1)
  from main_status [OF this] detect show ?thesis by (simp split: run_outcome.split)
qed

text \<open>
  C21 (error). A video file that exists but that \<^verbatim>\<open>cv2.VideoCapture\<close> cannot open: line
  18 prints a message and returns \<^verbatim>\<open>None\<close>, no exception is raised, so \<open>main\<close> ends with
  status 0, and no report is written. The only change to the file system is the output
  directory that line 288 created.
\<close>

theorem main_unreadable_video:
  assumes "length argv = 3" "path_exists fs (argv ! 1)"
    and "\<not> cap_is_opened (capture_of fs (argv ! 1))"
    and "makedirs fs (dirname (argv ! 2)) = Inr fs1"
  shows "main dst json_dump argv fs =
    \<lparr>proc_status = Exit 0, proc_stdout = [Line CouldNotOpen], proc_fs = fs1\<rparr>"
  using main_detect [OF assms(1,2,4)] assms(3) by (simp add: detect_not_opened)

theorem main_unreadable_video_witness:
  "main (\<lambda>(a::unit) b. 0) (\<lambda>r. None) [''face_detection.py'', ''in.mp4'', ''out/report.json'']
       (fs_with closed_capture) =
     \<lparr>proc_status = Exit 0, proc_stdout = [Line CouldNotOpen],
      proc_fs = fs_with closed_capture\<rparr>"
  by (rule main_unreadable_video) (simp_all add: closed_capture_def dirname_def)

text \<open>
  C22 (error). An output path without a directory part, such as \<^verbatim>\<open>report.json\<close>: its
  directory name is the empty string, on which \<^verbatim>\<open>os.makedirs\<close> raises
  \<^verbatim>\<open>FileNotFoundError\<close>. Line 288 is outside the \<^verbatim>\<open>try\<close>, so the process ends with a
  traceback before the video is looked at; nothing is printed by the program and the
  file system is unchanged.
\<close>

theorem main_bare_output_name:
  assumes "length argv = 3" "path_exists fs (argv ! 1)" "CHR ''/'' \<notin> set (argv ! 2)"
  shows "main dst json_dump argv fs =
    \<lparr>proc_status = Traceback FileNotFoundError, proc_stdout = [], proc_fs = fs\<rparr>"
  using main_makedirs_raises [OF assms(1,2), of FileNotFoundError] assms(3)
  by (simp add: dirname_no_slash)

theorem main_bare_output_name_witness:
  "main (\<lambda>(a::unit) b. 0) (\<lambda>r. None) [''face_detection.py'', ''in.mp4'', ''report.json'']
       (fs_with closed_capture) =
     \<lparr>proc_status = Traceback FileNotFoundError, proc_stdout = [],
      proc_fs = fs_with closed_capture\<rparr>"
  by (rule main_bare_output_name) simp_all

lemma main_zero_fps_video:
  "proc_status (main (\<lambda>(a::unit) b. 0) (\<lambda>r. None)
     [''face_detection.py'', ''in.mp4'', ''out/report.json'']
     (fs_with (closed_capture\<lparr>cap_is_opened := True\<rparr>))) = Exit 1"
  by (subst main_status [where ?fs1.0 = "fs_with (closed_capture\<lparr>cap_is_opened := True\<rparr>)"])
    (simp_all add: dirname_def detect_fps_0 closed_capture_def)

text \<open>
  C23 (safety). When \<^verbatim>\<open>json.dump\<close> serialises every report, a run that does not end with
  status 0 leaves every file as it was: no report is written or overwritten and no video
  is changed. (Directories may have been created by line 288.)
\<close>

theorem main_failure_keeps_files:
  assumes "proc_status (main dst json_dump argv fs) \<noteq> Exit 0" "\<And>r. json_dump r = None"
  shows "fs_documents (proc_fs (main dst json_dump argv fs)) = fs_documents fs \<and>
         fs_videos (proc_fs (main dst json_dump argv fs)) = fs_videos fs"
proof (cases rule: main_cases [where argv = argv and fs = fs])
  case usage
  then show ?thesis by (simp add: main_usage)
next
  case not_found
  from main_not_found [OF this] show ?thesis by simp
next
  case (makedirs_raises e)
  from main_makedirs_raises [OF this] show ?thesis by simp
next
  case (detect fs1)
  let ?r = "detect_faces_in_video dst (capture_of fs (argv ! 1)) (save_to json_dump fs1 (argv ! 2))"
  from assms(1) main_status [OF detect] obtain e where "outcome ?r = Raised e"
    by (cases "outcome ?r") simp_all
  then have "output_file ?r = Untouched"
    by (rule output_file_Untouched) (rule save_to_never_dump_failed, rule assms(2))
  with main_detect [OF detect] makedirs_Inr(1,2) [OF detect(3)] show ?thesis
    by (simp add: Let_def)
qed

theorem main_failure_keeps_files_witness:
  "fs_documents (proc_fs (main (\<lambda>(a::unit) b. 0) (\<lambda>r. None)
       [''face_detection.py'', ''in.mp4'', ''out/report.json'']
       (fs_with (closed_capture\<lparr>cap_is_opened := True\<rparr>)))) = (\<lambda>p. None)"
  using main_failure_keeps_files [of "\<lambda>(a::unit) b. 0" "\<lambda>r. None"
      "[''face_detection.py'', ''in.mp4'', ''out/report.json'']"
      "fs_with (closed_capture\<lparr>cap_is_opened := True\<rparr>)"]
  by (simp add: main_zero_fps_video)


lemma main_single_face_video:
  "proc_status (main abs_dist (\<lambda>r. None) [''face_detection.py'', ''in.mp4'', ''out/report.json'']
     (fs_with single_face_video)) = Exit 0"
proof -
  have "save_to (\<lambda>r. None) (fs_with single_face_video) ''out/report.json'' = saves"
    by (rule ext) (simp add: save_to_def saves_def)
  with single_face_video_completes show ?thesis
    by (subst main_status [where ?fs1.0 = "fs_with single_face_video"]) (auto simp: dirname_def)
qed


text \<open>
  C24 (functional). A run on a video that opens and that ends with status 0 has written
  the report to the output path: the document there is the analysis result of
  \<^verbatim>\<open>detect_faces_in_video\<close> on the capture of the video, and the lines printed are the
  messages of that run.
\<close>

theorem main_writes_report:
  assumes "proc_status (main dst json_dump argv fs) = Exit 0"
    and "cap_is_opened (capture_of fs (argv ! 1))"
  shows "\<exists>analysis evs.
     outcome (detect_faces_in_video dst (capture_of fs (argv ! 1)) saves) = Completed analysis evs \<and>
     fs_documents (proc_fs (main dst json_dump argv fs)) (argv ! 2) = Some (Document analysis) \<and>
     proc_stdout (main dst json_dump argv fs) = map Line evs"
proof (cases rule: main_cases [where argv = argv and fs = fs])
  case usage
  with assms show ?thesis by (simp add: main_usage)
next
  case not_found
  from main_not_found [OF this] assms show ?thesis by simp
next
  case (makedirs_raises e)
  from main_makedirs_raises [OF this] assms show ?thesis by simp
next
  case (detect fs1)
  let ?r = "detect_faces_in_video dst (capture_of fs (argv ! 1)) (save_to json_dump fs1 (argv ! 2))"
  from assms main_status [OF detect] obtain analysis evs where
    c: "outcome ?r = Completed analysis evs"
    by (cases "outcome ?r") (simp_all add: detect_NotOpened_iff)
  from detect_saves [OF c] output_file_Completed [OF c] c main_detect [OF detect]
  show ?thesis by (simp add: Let_def)
qed

theorem main_writes_report_witness:
  "\<exists>analysis evs.
     fs_documents (proc_fs (main abs_dist (\<lambda>r. None)
       [''face_detection.py'', ''in.mp4'', ''out/report.json''] (fs_with single_face_video)))
       ''out/report.json'' = Some (Document analysis) \<and>
     proc_stdout (main abs_dist (\<lambda>r. None)
       [''face_detection.py'', ''in.mp4'', ''out/report.json''] (fs_with single_face_video)) =
       map Line evs"
proof -
  from main_writes_report [of abs_dist "\<lambda>r. None"
      "[''face_detection.py'', ''in.mp4'', ''out/report.json'']" "fs_with single_face_video"]
    main_single_face_video
  obtain analysis evs where
    "fs_documents (proc_fs (main abs_dist (\<lambda>r. None)
       [''face_detection.py'', ''in.mp4'', ''out/report.json''] (fs_with single_face_video)))
       ''out/report.json'' = Some (Document analysis)"
    and "proc_stdout (main abs_dist (\<lambda>r. None)
       [''face_detection.py'', ''in.mp4'', ''out/report.json''] (fs_with single_face_video)) =
       map Line evs"
    by auto
  then show ?thesis by blast
qed

section \<open>The download script\<close>

lemma download_video_Inl_iff:
  "download_video lib url = Inl e \<longleftrightarrow>
     ydl_download lib [url] = Some e \<or>
     ydl_download lib [url] = None \<and> ydl_extract_info lib url = Inl e"
  by (simp add: download_video_def split: option.split sum.split)

lemma download_main_cases:
  "download_main lib argv =
     (if length argv \<noteq> 2 then (Exit 1, [MissingUrl])
      else case ydl_download lib [argv ! 1] of
        Some e \<Rightarrow> (Exit 1, [DownloadFailed e])
      | None \<Rightarrow> (case ydl_extract_info lib (argv ! 1) of
          Inl e \<Rightarrow> (Exit 1, [DownloadFailed e])
        | Inr info \<Rightarrow> (Exit 0, [VideoPath (ydl_prepare_filename lib info)])))"
  by (simp add: download_main_def download_video_def split: option.split sum.split)

text \<open>
  C37 (functional). The download script prints exactly one line, and it ends with status
  0 exactly when it was given one argument, \<^verbatim>\<open>ydl.download\<close> did not raise and
  \<^verbatim>\<open>ydl.extract_info\<close> returned; the line is then \<^verbatim>\<open>VIDEO_PATH:\<close> with the file name that
  \<^verbatim>\<open>ydl.prepare_filename\<close> gives for that information.
\<close>

theorem download_main_exit_0_iff:
  "length (snd (download_main lib argv)) = 1 \<and>
   (fst (download_main lib argv) = Exit 0 \<longleftrightarrow>
      length argv = 2 \<and> ydl_download lib [argv ! 1] = None \<and>
      is_ok (ydl_extract_info lib (argv ! 1))) \<and>
   (download_main lib argv = (Exit 0, [VideoPath p]) \<longleftrightarrow>
      length argv = 2 \<and> ydl_download lib [argv ! 1] = None \<and>
      (\<exists>info. ydl_extract_info lib (argv ! 1) = Inr info \<and> p = ydl_prepare_filename lib info))"
  by (auto simp: download_main_cases split: option.split sum.split)

end
