(* ===== verification/Spec2Isabelle.thy ===== *)
theory Spec2Isabelle
  imports Py_Prelude Py_Containers Py_Float Identity Face_Data Smoothing Summary Confidence
    Sampler Pipeline Reader Report Schema Subject Document Cli
begin

text \<open>
  \<^bold>\<open>MagicClips face tracking: a verification development.\<close>

  \<^bold>\<open>The program.\<close> \<^verbatim>\<open>src/face_detection.py\<close> scans a video file. Its function
  \<^verbatim>\<open>detect_faces_in_video\<close> opens the capture, reads the frame rate and the frame count,
  and reads the frames one by one. One frame in every \<^verbatim>\<open>frame_skip\<close> is analysed: the face
  detector returns boxes, the face encoder returns an embedding for a box (or nothing, or
  it raises), \<^verbatim>\<open>identify_speaker\<close> resolves the embedding against the embeddings
  registered so far, the loop registers the embedding when the name is new,
  \<^verbatim>\<open>calculate_face_confidence\<close> scores the box, and a detection record is appended.
  After the loop \<^verbatim>\<open>create_speaker_summary\<close> aggregates the detections per speaker,
  \<^verbatim>\<open>smooth_face_tracking\<close> smooths each speaker's positions, and the report is written as
  JSON. \<^verbatim>\<open>src/download.py\<close> fetches a video by URL with \<^verbatim>\<open>yt_dlp\<close>.

  \<^bold>\<open>The model.\<close> A shallow embedding: every function of the source is a HOL function of
  the same name, with the source's local names for its intermediate values.

  \<^item> \<open>Py_Prelude\<close>: Python values and builtins. Exceptions are values (\<open>py_error\<close>, a
    computation that may raise returns \<open>py_error + 'a\<close>); \<^verbatim>\<open>int(x)\<close> on a float is
    \<open>py_int\<close> (truncation towards zero); \<^verbatim>\<open>xs[i]\<close> is \<open>py_index\<close>; the decimal printer of
    the f-string \<^verbatim>\<open>speaker_{n}\<close> is \<open>str_nat\<close> with its parser \<open>parse_nat\<close>.
  \<^item> \<open>Py_Containers\<close>: \<^verbatim>\<open>list.sort(key=...)\<close> as \<open>py_sort_key\<close> (stable) and with
    \<^verbatim>\<open>reverse=True\<close> as \<open>py_sort_key_rev\<close>; a \<^verbatim>\<open>dict\<close> or \<^verbatim>\<open>defaultdict\<close> that is filled in a
    loop and then iterated, as an association list in insertion order (\<open>od_modify\<close>,
    \<open>od_group\<close>). The theorem \<open>od_group_eq\<close> characterises the grouping loop: one entry
    per key, in the order of first occurrence, holding the fold over the elements of that
    key.
  \<^item> \<open>Py_Float\<close>: the floats extended with the two infinities (\<open>pyfloat\<close>), for the
    \<^verbatim>\<open>float('inf')\<close> with which \<^verbatim>\<open>create_speaker_summary\<close> starts its minimum.
  \<^item> \<open>Identity\<close>: the identity resolver, lines 146-164 (\<open>identify_speaker\<close>, with the
    library calls \<open>compare_faces\<close>, \<open>face_distance\<close>, \<open>np_argmin\<close>) and the registry of
    lines 34-36 and 82-88 (\<open>registry\<close>, \<open>init_registry\<close>, \<open>register_speaker\<close>,
    \<open>resolve_speaker\<close>). The embedding type and the distance are parameters. Its lemmas
    show that the resolver is the nearest-neighbour rule with first-minimum tie-break
    (\<open>identify_speaker_equiv\<close>), that one step refines the inductive contract \<open>resolves\<close>
    and keeps the invariant \<open>registry_inv\<close> (names \<^verbatim>\<open>speaker_1\<close>, \<^verbatim>\<open>speaker_2\<close>, ... in
    order, counter the next number), when it raises, and that the registry only grows.
  \<^item> \<open>Face_Data\<close>: the detection record of lines 94-104 (\<open>face_data\<close>, \<open>make_face\<close>) and
    the projections the other theories share (\<open>faces_of\<close>, \<open>speakers_of\<close>,
    \<open>face_static\<close>).
  \<^item> \<open>Smoothing\<close>: the temporal smoother, lines 234-273 (\<open>smooth_face_tracking\<close>, with
    \<open>group_by_speaker\<close>, \<open>smooth_speaker_list\<close>, \<open>smoothed_face\<close>, \<open>smooth_coord\<close>). Its
    lemmas show that each speaker's detections are smoothed independently, that the
    index loop is the three-point window over the unsmoothed neighbours, what the
    smoother leaves unchanged, that the result is ordered by timestamp, and where
    \<^verbatim>\<open>int(sum / 3)\<close> differs from floor division.
  \<^item> \<open>Summary\<close>: the speaker aggregator, lines 188-232 (\<open>create_speaker_summary\<close>, with
    \<open>default_stats\<close>, \<open>update_stats\<close>, \<open>collect_stats\<close>, \<open>finalize_speaker\<close>). Its lemmas
    give the closed form of every entry (\<open>summary_of\<close>), the ranking by screen time with
    its stable ties, and the bounds of the means.
  \<^item> \<open>Confidence\<close>: the confidence scorer, lines 166-186
    (\<open>calculate_face_confidence\<close>), with the range of the score and the cases in which the
    clamp is inactive.
  \<^item> \<open>Sampler\<close>: the frame sampler, lines 39 and 50 (\<open>frame_skip\<close>, \<open>sampled\<close>), with the
    sampling interval it gives and the number of sampled frames among the first \<open>n\<close>.
  \<^item> \<open>Pipeline\<close>: the detection loop, lines 33-116 (\<open>init_scan\<close>, \<open>process_face\<close>,
    \<open>process_faces\<close>, \<open>report_progress\<close>, \<open>process_frame\<close>, \<open>scan\<close>). The capture, the
    detector and the encoder are data of the model: a \<open>video\<close> lists the frames read and
    each frame lists its boxes with the encoder's outcome (\<open>encoding_result\<close>: an
    embedding, none, or an exception). The state of the loop is the record \<open>scan_state\<close>,
    which also collects the printed lines as \<open>event\<close>s. Its lemmas show the invariants of
    the loop (\<open>tracks_inv\<close>, \<open>scan_inv\<close>, \<open>timeline_inv\<close>), the exact counts of detections,
    error lines and processed frames, and when the loop raises.
  \<^item> \<open>Reader\<close>: the same loop over \<^verbatim>\<open>cap.read()\<close>, lines 44-116, for a capture that need
    not be a file: \<open>read_loop\<close> is a \<open>partial_function\<close> in the option monad, so a loop
    that never ends has the value \<open>None\<close>. Its lemmas show that on a file it is \<open>scan\<close>,
    that in general it is \<open>scan\<close> on the frames before the first failed read, and that it
    returns exactly when a read fails or the frame count is 0.
  \<^item> \<open>Report\<close>: the rest of \<^verbatim>\<open>detect_faces_in_video\<close>, lines 9-31 and 118-144
    (\<open>detect_faces_in_video\<close>, \<open>finish\<close>, \<open>analysis_result\<close>), with the outcome of a run
    (\<open>run_outcome\<close>: not opened, an exception, or a report with the printed lines),
    whether the capture was released, and what was done to the output file
    (\<open>file_effect\<close>). What \<^verbatim>\<open>open(output_path, 'w')\<close> and \<^verbatim>\<open>json.dump\<close> do with a report
    (\<open>write_result\<close>: written, or which of the two raised) is an argument of the
    function. Its lemmas show that a report is well formed, that it accounts for every
    box of a sampled frame, which timestamps it holds, when an exception escapes and
    when the capture is released.
  \<^item> \<open>Schema\<close>: what the loop measures on each box (\<open>scan_measures\<close>) and the detection of
    the data model (\<open>detection_wf\<close>): the detections of a report are those measures, and
    they are well formed also after smoothing.
  \<^item> \<open>Subject\<close>: resolver, loop and aggregator together on a video of one subject: one
    speaker, with every detection; the end-to-end example of the specification is its
    instance.
  \<^item> \<open>Document\<close>: the three dictionary literals of the source with their keys
    (\<open>face_dict\<close>, lines 94-104; \<open>speaker_dict\<close>, lines 216-227; \<open>report_dict\<close>, lines
    127-137) as a value of type \<open>json\<close>, the value handed to \<^verbatim>\<open>json.dump\<close>. Its lemmas show
    that the records of the other theories and these dictionaries carry the same
    information (a round trip through the readers \<open>dict_report\<close>, \<open>dict_speaker\<close>,
    \<open>dict_face\<close>), that the document of a run holds no infinite number, and which keys a
    consumer finds.
  \<^item> \<open>Cli\<close>: the entry points, \<^verbatim>\<open>main\<close> of \<^verbatim>\<open>src/face_detection.py\<close> (lines 275-294) and
    \<^verbatim>\<open>src/download.py\<close> (\<open>download_video\<close>, lines 32-47, and the script, lines 49-58,
    as \<open>download_main\<close>), over a record \<open>file_system\<close> (videos, directories, protected
    paths, documents written) with \<open>dirname\<close>, \<open>path_exists\<close>, \<open>makedirs\<close>,
    \<open>open_for_writing\<close>, \<open>save_to\<close> and \<open>write_document\<close> for the calls of \<^verbatim>\<open>os\<close>, \<^verbatim>\<open>open\<close>
    and \<^verbatim>\<open>json.dump\<close>, and a record \<open>ydl\<close> of the three \<^verbatim>\<open>yt_dlp\<close> calls. What \<^verbatim>\<open>json.dump\<close>
    does with a report (nothing, or the exception it raises) is a parameter of \<open>main\<close>. A
    \<open>process_result\<close> is the exit status (or the traceback of an exception nobody
    catches), the lines printed and the file system left behind. Its lemmas show when
    the exit status is 0, that a failed run writes no file as long as \<^verbatim>\<open>json.dump\<close> does
    not raise, that a successful one writes the report, and the three runs in which
    \<open>main\<close> does not end as the specification says.
  \<^item> \<open>Spec2Isabelle\<close> (this theory): a run of the whole program on a concrete video, and
    what it shows on the relation between the two halves of the report.

  \<^bold>\<open>How the theories depend on each other.\<close> \<open>Pipeline\<close> calls \<open>Identity\<close>, \<open>Confidence\<close>,
  \<open>Face_Data\<close> and \<open>Sampler\<close>; \<open>Report\<close> calls \<open>Pipeline\<close>, \<open>Summary\<close> and \<open>Smoothing\<close>;
  \<open>Cli\<close> calls \<open>Report\<close>; \<open>Schema\<close>, \<open>Subject\<close> and \<open>Document\<close> are about \<open>Report\<close>. A lemma on a called function is proved in its theory and used
  by name in the callers: the invariant of the registry in \<open>Identity\<close> carries the
  invariants of the loop, and these carry the properties of the report and of \<open>main\<close>.

  \<^bold>\<open>Idealisations.\<close> A Python \<^verbatim>\<open>float\<close> is a real number: rounding, overflow and NaN of
  IEEE doubles are outside the model, and so is the wrap-around of the 32-bit integers in
  which the detector returns its boxes (a Python \<^verbatim>\<open>int\<close> is an unbounded integer
  here). A frame with a zero dimension is outside the model of the scorer. A directory
  that \<^verbatim>\<open>os.makedirs\<close> finds missing is created with its ancestors unless the path itself
  is protected or a file; the permissions of the ancestors are not looked at.

  \<^bold>\<open>Termination and fuel.\<close> No function of the model takes fuel. A video file is finite,
  so its frames form a list and \<open>scan\<close>, the smoother and the aggregator are structural
  recursions and folds. \<open>ancestors\<close> recurses on the directory name, which is shorter than
  the path (\<open>dirname_shorter\<close>). The loop over an arbitrary capture, \<open>read_loop\<close>, is the
  only function that may not return, and theory \<open>Reader\<close> proves when it does.

  \<^bold>\<open>Not modelled.\<close> The libraries the source only calls (OpenCV, \<^verbatim>\<open>face_recognition\<close>,
  \<^verbatim>\<open>yt_dlp\<close>, \<^verbatim>\<open>json\<close>) beyond the values they return and the exceptions they raise:
  the detector and the encoder are input data, and whether \<^verbatim>\<open>json.dump\<close> raises on a
  report is a parameter, so the JSON text and the types of numpy, which decide whether
  it does, are outside the model. The text of the printed lines: the model records which line is printed, as
  an \<open>event\<close>, \<open>cli_line\<close> or \<open>download_line\<close>, and with which numbers. The options that
  \<^verbatim>\<open>download_video\<close> passes to \<^verbatim>\<open>yt_dlp\<close>, and the commented-out first version of
  \<^verbatim>\<open>src/download.py\<close> (lines 1-27).
\<close>

section \<open>A run on a concrete video\<close>

text \<open>
  Three frames of 100 by 20 pixels at 2 frames per second, each with one face of 10 by
  20 pixels and the same embedding. The face stands at \<open>x = 0\<close> in the first two frames
  and at \<open>x = 3\<close> in the third.
\<close>

definition drifting_face_video :: "real video" where
  "drifting_face_video =
     \<lparr>cap_is_opened = True, cap_fps = 2, cap_frame_count = 3,
      cap_frames =
        [\<lparr>frame_shape = (20, 100), detections = [((0, 0, 10, 20), Encoded 0)]\<rparr>,
         \<lparr>frame_shape = (20, 100), detections = [((0, 0, 10, 20), Encoded 0)]\<rparr>,
         \<lparr>frame_shape = (20, 100), detections = [((3, 0, 10, 20), Encoded 0)]\<rparr>]\<rparr>"

lemmas scan_defs =
  init_scan_def process_frame_def process_faces_def process_face_def report_progress_def
  resolve_speaker_def identify_speaker_def register_speaker_def init_registry_def
  speaker_name_def frame_skip_def abs_dist_def Let_def str_nat.simps

lemmas report_defs =
  finish_def analysis_result_def
  smooth_face_tracking_def group_by_speaker_def od_group_def smooth_speaker_list_def
  smoothed_face_def smooth_coord_def make_face_def
  create_speaker_summary_def collect_stats_def finalize_speaker_def
  update_stats_def default_stats_def
  upt_rec numeral_2_eq_2 numeral_3_eq_3

lemma sqrt_of_square: "0 \<le> a \<Longrightarrow> b = a\<^sup>2 \<Longrightarrow> sqrt b = a"
  by simp

lemma drifting_confidence:
  "calculate_face_confidence 0 0 10 20 (20, 100) = 47 / 2"
  "calculate_face_confidence 3 0 10 20 (20, 100) = 122 / 5"
proof -
  have "distance_from_center 0 0 10 20 (20, 100) = 9 / 20"
    unfolding distance_from_center_def Let_def prod.case
    by (rule sqrt_of_square) (simp_all add: power2_eq_square)
  moreover have "distance_from_center 3 0 10 20 (20, 100) = 21 / 50"
    unfolding distance_from_center_def Let_def prod.case
    by (rule sqrt_of_square) (simp_all add: power2_eq_square)
  ultimately show "calculate_face_confidence 0 0 10 20 (20, 100) = 47 / 2"
    "calculate_face_confidence 3 0 10 20 (20, 100) = 122 / 5"
    by (simp_all add: calculate_face_confidence_def confidence_raw_def size_factor_def)
qed

lemma drifting_scan:
  "scan abs_dist 2 3 (Suc 0) (cap_frames drifting_face_video) (init_scan (3 / 2) 2 3) =
   Inr \<lparr>all_faces =
          [make_face 0 0 0 10 20 (47 / 2) ''speaker_1'',
           make_face (1 / 2) 0 0 10 20 (47 / 2) ''speaker_1'',
           make_face 1 3 0 10 20 (122 / 5) ''speaker_1''],
        reg = \<lparr>known_face_encodings = [0], known_face_names = [''speaker_1''],
                speaker_id_counter = 2\<rparr>,
        frame_count = 3, processed_frames = 3,
        printed = [ProcessingVideo (3 / 2) 2 3]\<rparr>"
  by (simp add: drifting_face_video_def scan_defs py_defs drifting_confidence)

lemma drifting_video_sel:
  "cap_is_opened drifting_face_video" "cap_fps drifting_face_video = 2"
  "cap_frame_count drifting_face_video = 3" "frame_skip 2 = 1"
  by (simp_all add: drifting_face_video_def frame_skip_def)

lemma drifting_run:
  "detect_faces_in_video abs_dist drifting_face_video saves =
     finish (3 / 2) 2 saves
       \<lparr>all_faces =
          [make_face 0 0 0 10 20 (47 / 2) ''speaker_1'',
           make_face (1 / 2) 0 0 10 20 (47 / 2) ''speaker_1'',
           make_face 1 3 0 10 20 (122 / 5) ''speaker_1''],
        reg = \<lparr>known_face_encodings = [0::real], known_face_names = [''speaker_1''],
                speaker_id_counter = 2\<rparr>,
        frame_count = 3, processed_frames = 3,
        printed = [ProcessingVideo (3 / 2) 2 3]\<rparr>"
  by (simp add: detect_scan drifting_video_sel drifting_scan)

text \<open>
  The whole program on the three-frame video: every frame is sampled
  (\<open>frame_skip = 1\<close>), the three embeddings resolve to \<^verbatim>\<open>speaker_1\<close>, the middle detection
  is smoothed to \<open>x = int(3 / 3) = 1\<close> with its centre recomputed, and the one speaker has
  3 appearances, a screen time of 1 second and the mean position of the detections as
  they were before smoothing. The capture is released.
\<close>

theorem end_to_end_example:
  "outcome (detect_faces_in_video abs_dist drifting_face_video saves) =
     Completed
       \<lparr>video_duration = 3 / 2, total_faces_detected = 3,
          speakers =
            [\<lparr>speaker_id = ''speaker_1'', appearances = 3, avg_confidence = 119 / 5,
               first_seen = Fin 0, last_seen = 1, screen_time = Fin 1,
               avg_position_x = 6, avg_position_y = 10\<rparr>],
          faces =
            [make_face 0 0 0 10 20 (47 / 2) ''speaker_1'',
             make_face (1 / 2) 1 0 10 20 (47 / 2) ''speaker_1'',
             make_face 1 3 0 10 20 (122 / 5) ''speaker_1''],
          processing_info =
            \<lparr>info_fps = 2, info_frames_processed = 3, info_frame_skip = 1\<rparr>\<rparr>
       [ProcessingVideo (3 / 2) 2 3, DetectionComplete 1 3, ResultsSaved] \<and>
   capture_released (detect_faces_in_video abs_dist drifting_face_video saves)"
  by (simp add: drifting_run drifting_video_sel report_defs py_defs saves_def Let_def)


end
